theory Spec2Isabelle
  imports Main "HOL-Library.Word"
begin


section \<open>Parsed OpenAPI documents and endpoint descriptors\<close>

text \<open>
  A JavaScript object whose keys matter in order is an association list with distinct
  keys, in the order in which \<^verbatim>\<open>Object.keys\<close> enumerates them; \<^verbatim>\<open>obj[k]\<close> is
  \<^const>\<open>map_of\<close>. An optional property is an \<open>option\<close>: \<open>None\<close> stands for
  \<^verbatim>\<open>undefined\<close> and \<^verbatim>\<open>null\<close>.
\<close>

datatype schema =
  Schema (schema_type: "string option") (schema_required: "string list")
    (schema_properties: "(string \<times> schema) list")

record media =
  media_schema :: "schema option"

record response =
  content :: "(string \<times> media) list option"

record endpoint =
  ep_method :: string
  ep_path :: string
  ep_name :: "string option"
  responses :: "(string \<times> response) list"

record server =
  server_url :: string

record info =
  title :: "string option"
  version :: "string option"

text \<open>
  The parsed document. Only \<^verbatim>\<open>info\<close> and \<^verbatim>\<open>servers\<close> are read by the code below;
  the rest of the document (paths, components) is the record's extension.
\<close>

record openapi =
  api_info :: "info option"
  api_servers :: "server list option"

text \<open>
  The module \<^verbatim>\<open>./parser.js\<close> is imported by the generator and the orchestrator, and
  is not among the sources. Its functions are parameters of everything that calls
  them, collected in one record. \<^verbatim>\<open>getResponseSchema\<close> returns an object or a falsy
  value; of the object only the property \<^verbatim>\<open>schema\<close> is read.
\<close>

record schema_info =
  info_schema :: "schema option"

record 'a parser =
  extractEndpoints :: "'a openapi_scheme \<Rightarrow> endpoint list"
  getResponseSchema :: "(string \<times> response) list \<Rightarrow> string \<Rightarrow> schema_info option"
  getRequiredFields :: "schema \<Rightarrow> string list"

text \<open>The environment document that is uploaded.\<close>

record env_var =
  var_key :: string
  var_value :: string
  var_type :: string
  var_enabled :: bool

record environment =
  env_name :: string
  env_values :: "env_var list"
  postman_variable_scope :: string

section \<open>Collection documents\<close>

text \<open>
  The items of a collection form a tree, as parsed from the response of the service: no
  node is shared. A node has a name and three optional properties: \<^verbatim>\<open>request\<close>,
  \<^verbatim>\<open>event\<close> and \<^verbatim>\<open>item\<close>; \<open>None\<close> is an absent (or falsy) property.

  The injector is said to keep events by identity, so event objects live in a store:
  an event array holds addresses, the store is the list of the objects allocated so
  far, and the address of an object is its position in the store. Allocation appends.
\<close>

type_synonym addr = nat

record script_obj =
  script_type :: string
  exec :: "string list"

record event_obj =
  listen :: string
  ev_script :: script_obj

type_synonym store = "event_obj list"

datatype node =
  Node (node_name: string) (node_request: "string option")
    (node_event: "addr list option") (node_item: "node list option")

text \<open>
  The values that reading a property of a script map can give, as far as the injector
  tells them apart: \<open>Undefined\<close> is \<^verbatim>\<open>undefined\<close> or any other falsy value that is not a
  string; \<open>Lines\<close> is an array of lines; \<open>Source\<close> is a string, falsy when empty;
  \<open>Other\<close> is a truthy value that is neither an array nor a string and has no method
  \<^verbatim>\<open>split\<close>: a function, a prototype object, a number, \<^verbatim>\<open>true\<close>.
\<close>

datatype js_value = Undefined | Lines "string list" | Source string | Other

text \<open>
  A script map is known to the injector by the reads \<^verbatim>\<open>testScripts[k]\<close> only, so it is
  the function from property names to the values read. For an object that has the
  properties \<open>props\<close> of its own and \<^verbatim>\<open>Object.prototype\<close> as its prototype, as an object
  literal or the result of \<^verbatim>\<open>JSON.parse\<close> has, a name that is not its own reads the
  member of \<^verbatim>\<open>Object.prototype\<close> of that name: a function, and for \<^verbatim>\<open>__proto__\<close> the
  prototype itself.
\<close>

type_synonym script_map = "string \<Rightarrow> js_value"

definition object_prototype_names :: "string list" where
  "object_prototype_names =
     [''constructor'', ''hasOwnProperty'', ''isPrototypeOf'', ''propertyIsEnumerable'',
      ''toLocaleString'', ''toString'', ''valueOf'', ''__proto__'',
      ''__defineGetter__'', ''__defineSetter__'', ''__lookupGetter__'', ''__lookupSetter__'']"

definition object_prototype :: script_map where
  "object_prototype k = (if k \<in> set object_prototype_names then Other else Undefined)"

definition plain_object :: "(string \<rightharpoonup> js_value) \<Rightarrow> script_map" where
  "plain_object props k = (case props k of Some v \<Rightarrow> v | None \<Rightarrow> object_prototype k)"

section \<open>The remote service, errors and the world\<close>

text \<open>
  A response body is the JSON object the service sent, read through the properties the
  client looks at; a property that is absent or falsy is \<open>None\<close>. An entry of a listing
  has a name and two identifiers: specs and generated collections are listed with an
  \<^verbatim>\<open>id\<close>, collections and environments with a \<^verbatim>\<open>uid\<close>. Identifiers and names are
  strings. The body \<^verbatim>\<open>null\<close> is \<open>None :: body option\<close>.
\<close>

record handle =
  h_name :: string
  h_id :: "string option"
  h_uid :: "string option"

record collection_doc =
  coll_item :: "node list option"
  coll_store :: store

record body =
  error_member :: "string option"
  id_member :: "string option"
  specs_member :: "handle list option"
  collections_member :: "handle list option"
  environments_member :: "handle list option"
  collection_member :: "collection_doc option"

text \<open>The options of a generation, and the bodies the client sends.\<close>

record gen_options =
  enableOptionalParameters :: "bool option"
  folderStrategy :: "string option"

datatype payload =
    SpecFile string
  | NewSpec string string "(string \<times> string) list"
  | Generation string gen_options
  | CollectionBody collection_doc
  | EnvironmentBody environment

record http_request =
  rq_method :: string
  rq_url :: string
  rq_api_key :: string
  rq_body :: "payload option"

text \<open>
  What \<^verbatim>\<open>fetch\<close> followed by \<^verbatim>\<open>response.json()\<close> gives: a rejection (no connection,
  or a body that is not JSON), or a status code and a parsed body. The service is a
  function of the requests it has received so far and of the request at hand.
\<close>

datatype fetch_result = Rejected | Replied nat "body option"

type_synonym remote = "http_request list \<Rightarrow> http_request \<Rightarrow> fetch_result"

text \<open>
  A thrown exception is a value of \<open>js_error\<close>; a function that can throw returns
  \<open>js_error + 'a\<close>, with \<open>Inl\<close> for the exception.
  \<^item> \<open>Error msg\<close> is \<^verbatim>\<open>new Error(msg)\<close>.
  \<^item> \<open>TypeError msg\<close> is the engine's error for reading a property of \<^verbatim>\<open>undefined\<close> or
    \<^verbatim>\<open>null\<close>, or for iterating over \<^verbatim>\<open>undefined\<close>.
  \<^item> \<open>ApiError status p\<close> is the error of \<^verbatim>\<open>request\<close>, whose message is
    \<^verbatim>\<open>`API Error ${response.status}: ${JSON.stringify(data.error || data)}`\<close>; \<open>p\<close> is
    what is stringified: the member \<^verbatim>\<open>error\<close> of the body, or the whole body.
  \<^item> \<open>FetchError\<close> is the rejection of \<^verbatim>\<open>fetch\<close> or of \<^verbatim>\<open>response.json()\<close>.
  \<^item> \<open>Exit code\<close> is \<^verbatim>\<open>process.exit(code)\<close>: not an exception, and not caught.
\<close>

datatype api_payload = ErrorMember string | WholeBody body

datatype js_error =
    Error string
  | TypeError string
  | ApiError nat api_payload
  | FetchError
  | Exit nat

text \<open>
  The world of a run: the requests sent so far, and the console. Of the console output
  the step headers (\<^verbatim>\<open>logStep\<close>), the logged errors (\<^verbatim>\<open>logError\<close>) and the lines the
  client prints (\<^verbatim>\<open>console.log\<close>, \<^verbatim>\<open>console.warn\<close>) are kept; progress reports
  (\<^verbatim>\<open>logInfo\<close>, \<^verbatim>\<open>logSuccess\<close>, the summary) and the delays (\<^verbatim>\<open>setTimeout\<close>) are left
  out: they change neither a request nor a result, but for the one report that reads a
  property of a response body, and that read is kept. \<open>LogError msg (Some e)\<close> is the
  line \<open>msg\<close> followed by the message of \<open>e\<close>.
\<close>

datatype log_line =
    LogStep string string
  | LogError string "js_error option"
  | ConsoleLog string
  | ConsoleWarn string

record world =
  sent :: "http_request list"
  console :: "log_line list"

text \<open>
  An asynchronous function is a function of the world that returns its result, or the
  exception it throws, and the world after it.
\<close>

type_synonym 'a action = "world \<Rightarrow> (js_error + 'a) \<times> world"

section \<open>Test script generator (\<^verbatim>\<open>test-generator.js\<close>)\<close>

text \<open>\<^verbatim>\<open>s.startsWith(p)\<close>, \<^verbatim>\<open>xs.join(sep)\<close> and \<^verbatim>\<open>s.split(';')[0]\<close>.\<close>

definition startsWith :: "string \<Rightarrow> string \<Rightarrow> bool" where
  "startsWith s p \<longleftrightarrow> take (length p) s = p"

fun join :: "string list \<Rightarrow> string \<Rightarrow> string" where
  "join [] sep = []"
| "join [x] sep = x"
| "join (x # y # ys) sep = x @ sep @ join (y # ys) sep"

definition before_semicolon :: "string \<Rightarrow> string" where
  "before_semicolon s = takeWhile (\<lambda>c. c \<noteq> CHR '';'') s"

text \<open>\<^verbatim>\<open>TestLevel.SMOKE\<close> and \<^verbatim>\<open>TestLevel.CONTRACT\<close>.\<close>

definition SMOKE :: string where
  "SMOKE = ''smoke''"

definition CONTRACT :: string where
  "CONTRACT = ''contract''"

text \<open>
  \<^verbatim>\<open>Object.keys(endpoint.responses)\<close> filtered by the first character of the code.
\<close>

definition statusCodes :: "endpoint \<Rightarrow> string list" where
  "statusCodes endpoint = map fst (responses endpoint)"

definition successCodes :: "endpoint \<Rightarrow> string list" where
  "successCodes endpoint = filter (\<lambda>code. startsWith code ''2'') (statusCodes endpoint)"

definition errorCodes :: "endpoint \<Rightarrow> string list" where
  "errorCodes endpoint =
     filter (\<lambda>code. startsWith code ''4'' \<or> startsWith code ''5'') (statusCodes endpoint)"

definition generateSmokeTestScript :: "endpoint \<Rightarrow> string list" where
  "generateSmokeTestScript endpoint =
     [''// Smoke tests for: '' @ ep_method endpoint @ '' '' @ ep_path endpoint,
      ''// Basic health checks - generated from OpenAPI spec'',
      '''']
     @ (if length (successCodes endpoint) > 0 then
          [''// Status code validation'',
           ''pm.test(\"Status code is success\", function () {'',
           ''    pm.expect(pm.response.code).to.be.oneOf(['' @ join (successCodes endpoint) '', '' @ '']);'',
           ''});'',
           '''']
        else [])
     @ [''// Performance check'',
        ''pm.test(\"Response time is acceptable\", function () {'',
        ''    const threshold = parseInt(pm.environment.get(\"RESPONSE_TIME_THRESHOLD\") || \"2000\");'',
        ''    pm.expect(pm.response.responseTime).to.be.below(threshold);'',
        ''});'',
        '''']
     @ [''// Response body exists'',
        ''pm.test(\"Response body is not empty\", function () {'',
        ''    if (pm.response.code >= 200 && pm.response.code < 300) {'',
        ''        const contentType = pm.response.headers.get(\"Content-Type\");'',
        ''        if (contentType && contentType.includes(\"application/json\")) {'',
        ''            const jsonData = pm.response.json();'',
        ''            pm.expect(jsonData).to.not.be.undefined;'',
        ''        }'',
        ''    }'',
        ''});'']"

text \<open>
  The parts of the contract script, in the order of the source. \<^verbatim>\<open>a || b\<close> on two
  values that are objects when present is the first that is present.
\<close>

definition successResponse :: "endpoint \<Rightarrow> response option" where
  "successResponse endpoint =
     (case map_of (responses endpoint) ''200'' of
        Some r \<Rightarrow> Some r
      | None \<Rightarrow> map_of (responses endpoint) ''201'')"

definition schemaInfo :: "'a parser \<Rightarrow> endpoint \<Rightarrow> schema_info option" where
  "schemaInfo parser endpoint =
     (case getResponseSchema parser (responses endpoint) ''200'' of
        Some si \<Rightarrow> Some si
      | None \<Rightarrow> getResponseSchema parser (responses endpoint) ''201'')"

definition property_assertion :: "string \<Rightarrow> string" where
  "property_assertion field =
     ''    pm.expect(dataToCheck).to.have.property('' @ [CHR 0x27] @ field @ [CHR 0x27] @ '');''"

definition generateContractTestScript :: "'a parser \<Rightarrow> endpoint \<Rightarrow> string list" where
  "generateContractTestScript parser endpoint =
     [''// Contract tests for: '' @ ep_method endpoint @ '' '' @ ep_path endpoint,
      ''// Comprehensive validation - generated from OpenAPI spec'',
      '''']
     @ (if length (successCodes endpoint) > 0 then
          (let expectedCode = hd (successCodes endpoint) in
           [''// Status code validation'',
            ''pm.test(\"Status code is '' @ expectedCode @ ''\", function () {'',
            ''    pm.response.to.have.status('' @ expectedCode @ '');'',
            ''});'',
            ''''])
        else [])
     @ [''// Performance baseline check'',
        ''pm.test(\"Response time is acceptable\", function () {'',
        ''    const threshold = parseInt(pm.environment.get(\"RESPONSE_TIME_THRESHOLD\") || \"2000\");'',
        ''    pm.expect(pm.response.responseTime).to.be.below(threshold);'',
        ''});'',
        '''']
     @ (case successResponse endpoint of
          None \<Rightarrow> []
        | Some r \<Rightarrow>
            (case content r of
               None \<Rightarrow> []
             | Some types \<Rightarrow>
                 (let contentTypes = map fst types in
                  if length contentTypes > 0 then
                    (let expectedType = before_semicolon (hd contentTypes) in
                     [''// Content-Type validation'',
                      ''pm.test(\"Content-Type is '' @ expectedType @ ''\", function () {'',
                      ''    pm.response.to.have.header(\"Content-Type\");'',
                      ''    const contentType = pm.response.headers.get(\"Content-Type\");'',
                      ''    pm.expect(contentType).to.include(\"'' @ expectedType @ ''\");'',
                      ''});'',
                      ''''])
                  else [])))
     @ (case schemaInfo parser endpoint of
          None \<Rightarrow> []
        | Some si \<Rightarrow>
            (case info_schema si of
               None \<Rightarrow> []
             | Some sch \<Rightarrow>
                 [''// JSON Schema validation'',
                  ''pm.test(\"Response matches schema structure\", function () {'',
                  ''    const jsonData = pm.response.json();'',
                  ''    '',
                  ''    // Basic type validation'']
                 @ (if schema_type sch = Some ''object'' then
                      [''    pm.expect(jsonData).to.be.an('object');'']
                    else if schema_type sch = Some ''array'' then
                      [''    pm.expect(jsonData).to.be.an('array');'']
                    else [])
                 @ [''});'',
                    '''']
                 @ (let requiredFields = getRequiredFields parser sch in
                    if length requiredFields > 0 then
                      [''// Required field validation'',
                       ''pm.test(\"Response has required fields\", function () {'',
                       ''    const jsonData = pm.response.json();'',
                       ''    const dataToCheck = Array.isArray(jsonData) ? (jsonData[0] || {}) : jsonData;'',
                       ''    '']
                      @ map property_assertion requiredFields
                      @ [''});'',
                         '''']
                    else [])))
     @ (if length (errorCodes endpoint) > 0 then
          [''// Error response structure validation'',
           ''pm.test(\"Error responses have proper structure\", function () {'',
           ''    if (pm.response.code >= 400) {'',
           ''        const jsonData = pm.response.json();'',
           ''        const hasErrorField = jsonData.hasOwnProperty('error') || jsonData.hasOwnProperty('message') || jsonData.hasOwnProperty('detail');'',
           ''        pm.expect(hasErrorField).to.be.true;'',
           ''    }'',
           ''});'',
           '''']
        else [])"

definition generateDefaultSmokeTestScript :: "string list" where
  "generateDefaultSmokeTestScript =
     [''// Default smoke tests'',
      ''pm.test(\"Status code is success\", function () {'',
      ''    pm.expect(pm.response.code).to.be.oneOf([200, 201, 204]);'',
      ''});'',
      '''',
      ''pm.test(\"Response time is acceptable\", function () {'',
      ''    const threshold = parseInt(pm.environment.get(\"RESPONSE_TIME_THRESHOLD\") || \"2000\");'',
      ''    pm.expect(pm.response.responseTime).to.be.below(threshold);'',
      ''});'']"

definition generateDefaultContractTestScript :: "string list" where
  "generateDefaultContractTestScript =
     [''// Default contract tests'',
      ''pm.test(\"Status code is valid\", function () {'',
      ''    pm.expect(pm.response.code).to.be.oneOf([200, 201, 204]);'',
      ''});'',
      '''',
      ''pm.test(\"Response time is acceptable\", function () {'',
      ''    const threshold = parseInt(pm.environment.get(\"RESPONSE_TIME_THRESHOLD\") || \"2000\");'',
      ''    pm.expect(pm.response.responseTime).to.be.below(threshold);'',
      ''});'',
      '''',
      ''pm.test(\"Response body is valid JSON\", function () {'',
      ''    pm.response.to.be.json;'',
      ''});'']"

definition generateTestScript :: "'a parser \<Rightarrow> endpoint \<Rightarrow> string \<Rightarrow> string list" where
  "generateTestScript parser endpoint level =
     (if level = SMOKE then generateSmokeTestScript endpoint
      else generateContractTestScript parser endpoint)"

text \<open>
  \<^verbatim>\<open>endpoint.name || `${endpoint.method} ${endpoint.path}`\<close>: an absent and an empty
  name are both falsy.
\<close>

definition testName :: "endpoint \<Rightarrow> string" where
  "testName endpoint =
     (case ep_name endpoint of
        Some n \<Rightarrow> if n \<noteq> [] then n else ep_method endpoint @ '' '' @ ep_path endpoint
      | None \<Rightarrow> ep_method endpoint @ '' '' @ ep_path endpoint)"

text \<open>
  The object \<^verbatim>\<open>testScripts\<close> starts as \<^verbatim>\<open>{}\<close>. An assignment \<^verbatim>\<open>testScripts[k] = v\<close> of
  an array creates or overwrites the own property \<open>k\<close>, except for the name
  \<^verbatim>\<open>__proto__\<close>: that one is the accessor inherited from \<^verbatim>\<open>Object.prototype\<close>, and
  assigning an array to it makes the array the prototype of the object and creates no
  property. So the object is its own properties together with its prototype, which is
  \<^verbatim>\<open>Object.prototype\<close> (\<open>None\<close>) or an array of lines.
\<close>

record scripts_object =
  own_scripts :: "string \<rightharpoonup> string list"
  array_prototype :: "string list option"

definition empty_object :: scripts_object where
  "empty_object = \<lparr>own_scripts = Map.empty, array_prototype = None\<rparr>"

definition assign :: "scripts_object \<Rightarrow> string \<Rightarrow> string list \<Rightarrow> scripts_object" where
  "assign obj k v =
     (if k = ''__proto__'' then obj\<lparr>array_prototype := Some v\<rparr>
      else obj\<lparr>own_scripts := (own_scripts obj)(k \<mapsto> v)\<rparr>)"

text \<open>
  The \<^verbatim>\<open>for\<close> loop makes one assignment for each endpoint, in order, and the
  assignment of \<^verbatim>\<open>'default'\<close> follows the loop.
\<close>

definition generateTestScriptsForSpec ::
  "'a parser \<Rightarrow> 'a openapi_scheme \<Rightarrow> string \<Rightarrow> scripts_object" where
  "generateTestScriptsForSpec parser api level =
     (let endpoints = extractEndpoints parser api;
          testScripts =
            fold (\<lambda>endpoint testScripts.
                    assign testScripts (testName endpoint) (generateTestScript parser endpoint level))
              endpoints empty_object
      in assign testScripts ''default''
           (if level = SMOKE then generateDefaultSmokeTestScript
            else generateDefaultContractTestScript))"

section \<open>Environment document (\<^verbatim>\<open>generateEnvironment\<close>)\<close>

text \<open>
  \<^verbatim>\<open>api.servers || [{ url: 'https://api.example.com' }]\<close> replaces an absent list only:
  an empty array is truthy. \<^verbatim>\<open>servers[0]\<close> of an empty array is \<^verbatim>\<open>undefined\<close>, and
  reading \<^verbatim>\<open>url\<close> of it throws a \<^verbatim>\<open>TypeError\<close>.
\<close>

definition generateEnvironment :: "'a openapi_scheme \<Rightarrow> js_error + environment" where
  "generateEnvironment api =
     (let servers =
            (case api_servers api of
               Some ss \<Rightarrow> ss
             | None \<Rightarrow> [\<lparr>server_url = ''https://api.example.com''\<rparr>])
      in case servers of
           [] \<Rightarrow> Inl (TypeError ''Cannot read properties of undefined (reading 'url')'')
         | s # _ \<Rightarrow>
             (let baseUrl = server_url s;
                  api_title =
                    (case api_info api of
                       None \<Rightarrow> ''API''
                     | Some i \<Rightarrow>
                         (case title i of
                            None \<Rightarrow> ''API''
                          | Some t \<Rightarrow> if t \<noteq> [] then t else ''API''))
              in Inr \<lparr>env_name = api_title @ '' Environment'',
                      env_values =
                        [\<lparr>var_key = ''baseUrl'', var_value = baseUrl,
                          var_type = ''default'', var_enabled = True\<rparr>,
                         \<lparr>var_key = ''RESPONSE_TIME_THRESHOLD'', var_value = ''2000'',
                          var_type = ''default'', var_enabled = True\<rparr>,
                         \<lparr>var_key = ''auth_token'', var_value = '''',
                          var_type = ''secret'', var_enabled = True\<rparr>],
                      postman_variable_scope = ''environment''\<rparr>))"

section \<open>Reading a generated script\<close>

text \<open>
  An assertion of a script is a statement that calls the assertion library: after its
  indentation the line starts with \<^verbatim>\<open>pm.expect(\<close> or \<^verbatim>\<open>pm.response.to.\<close>.
\<close>

definition is_assertion :: "string \<Rightarrow> bool" where
  "is_assertion line \<longleftrightarrow>
     (let t = dropWhile (\<lambda>c. c = CHR '' '') line
      in startsWith t ''pm.expect('' \<or> startsWith t ''pm.response.to.'')"

definition assertions :: "string list \<Rightarrow> string list" where
  "assertions script = filter is_assertion script"

text \<open>The assertions the two tiers are said to share, and the one only smoke has.\<close>

definition latency_assertion :: string where
  "latency_assertion = ''    pm.expect(pm.response.responseTime).to.be.below(threshold);''"

definition smoke_status_assertion :: "endpoint \<Rightarrow> string" where
  "smoke_status_assertion endpoint =
     ''    pm.expect(pm.response.code).to.be.oneOf(['' @ join (successCodes endpoint) '', '' @ '']);''"

definition contract_status_assertion :: "endpoint \<Rightarrow> string" where
  "contract_status_assertion endpoint =
     ''    pm.response.to.have.status('' @ hd (successCodes endpoint) @ '');''"

definition body_defined_assertion :: string where
  "body_defined_assertion = ''            pm.expect(jsonData).to.not.be.undefined;''"

text \<open>The assertions of the content-type, schema and error-shape tests.\<close>

definition header_assertion :: string where
  "header_assertion = ''    pm.response.to.have.header(\"Content-Type\");''"

definition include_assertion :: "string \<Rightarrow> string" where
  "include_assertion expectedType =
     ''    pm.expect(contentType).to.include(\"'' @ expectedType @ ''\");''"

definition type_assertion :: "string \<Rightarrow> string" where
  "type_assertion t = ''    pm.expect(jsonData).to.be.an('' @ [CHR 0x27] @ t @ [CHR 0x27] @ '');''"

definition error_shape_assertion :: string where
  "error_shape_assertion = ''        pm.expect(hasErrorField).to.be.true;''"

definition is_property_assertion :: "string \<Rightarrow> bool" where
  "is_property_assertion line \<longleftrightarrow>
     startsWith line ''    pm.expect(dataToCheck).to.have.property(''"

text \<open>
  The endpoint of the scenarios: \<^verbatim>\<open>GET /tasks/{taskId}\<close> with a \<^verbatim>\<open>200\<close> response of
  media type \<^verbatim>\<open>application/json\<close> whose schema is an object that requires \<^verbatim>\<open>id\<close>
  and \<^verbatim>\<open>title\<close>, and a \<^verbatim>\<open>404\<close> response.
\<close>

definition task_endpoint :: endpoint where
  "task_endpoint =
     \<lparr>ep_method = ''GET'', ep_path = ''/tasks/{taskId}'', ep_name = Some ''Get a specific task'',
      responses =
        [(''200'', \<lparr>content = Some [(''application/json'',
                     \<lparr>media_schema = Some (Schema (Some ''object'') [''id'', ''title''] [])\<rparr>)]\<rparr>),
         (''404'', \<lparr>content = None\<rparr>)]\<rparr>"

text \<open>
  More endpoints for concrete runs. One creates a task: its only response is \<^verbatim>\<open>201\<close>.
  One replaces a task: its \<^verbatim>\<open>200\<close> response has no content and its \<^verbatim>\<open>201\<close> response has
  a schema. One has the name \<^verbatim>\<open>default\<close>, one has the name of \<^const>\<open>task_endpoint\<close>
  and another path, and one has an empty name.
\<close>

definition created_endpoint :: endpoint where
  "created_endpoint =
     \<lparr>ep_method = ''POST'', ep_path = ''/tasks'', ep_name = None,
      responses =
        [(''201'', \<lparr>content = Some [(''application/json'',
                     \<lparr>media_schema = Some (Schema (Some ''object'') [''id''] [])\<rparr>)]\<rparr>)]\<rparr>"

definition replaced_endpoint :: endpoint where
  "replaced_endpoint =
     \<lparr>ep_method = ''PUT'', ep_path = ''/tasks/{taskId}'', ep_name = Some ''Replace a task'',
      responses =
        [(''200'', \<lparr>content = None\<rparr>),
         (''201'', \<lparr>content = Some [(''application/json'',
                     \<lparr>media_schema = Some (Schema (Some ''object'') [''id'', ''status''] [])\<rparr>)]\<rparr>)]\<rparr>"

definition default_endpoint :: endpoint where
  "default_endpoint =
     \<lparr>ep_method = ''GET'', ep_path = ''/default'', ep_name = Some ''default'',
      responses = [(''200'', \<lparr>content = None\<rparr>)]\<rparr>"

definition second_task_endpoint :: endpoint where
  "second_task_endpoint =
     \<lparr>ep_method = ''GET'', ep_path = ''/v2/tasks/{taskId}'', ep_name = Some ''Get a specific task'',
      responses = [(''200'', \<lparr>content = None\<rparr>)]\<rparr>"

definition unnamed_endpoint :: endpoint where
  "unnamed_endpoint =
     \<lparr>ep_method = ''DELETE'', ep_path = ''/tasks/{taskId}'', ep_name = Some [],
      responses = [(''204'', \<lparr>content = None\<rparr>)]\<rparr>"

text \<open>
  One instance of the parser's interface, for concrete runs: the schema of the first
  media type of the response under the given code, and the schema's own list of
  required names.
\<close>

definition first_media_parser :: "endpoint list \<Rightarrow> unit parser" where
  "first_media_parser eps =
     \<lparr>extractEndpoints = (\<lambda>api. eps),
      getResponseSchema =
        (\<lambda>rs code.
           case map_of rs code of
             None \<Rightarrow> None
           | Some r \<Rightarrow>
               (case content r of
                  None \<Rightarrow> None
                | Some [] \<Rightarrow> None
                | Some ((ct, m) # _) \<Rightarrow> Some \<lparr>info_schema = media_schema m\<rparr>)),
      getRequiredFields = schema_required\<rparr>"

definition proto_endpoint :: endpoint where
  "proto_endpoint =
     \<lparr>ep_method = ''GET'', ep_path = ''/proto'', ep_name = Some ''__proto__'',
      responses = [(''200'', \<lparr>content = None\<rparr>)]\<rparr>"

text \<open>The endpoints of a spec in which names repeat, and that spec's parser.\<close>

definition sample_endpoints :: "endpoint list" where
  "sample_endpoints =
     [default_endpoint, task_endpoint, second_task_endpoint, created_endpoint, unnamed_endpoint]"

definition sample_parser :: "unit parser" where
  "sample_parser = first_media_parser sample_endpoints"

definition empty_api :: "unit openapi_scheme" where
  "empty_api = \<lparr>api_info = None, api_servers = None\<rparr>"
section \<open>The tree injector (\<^verbatim>\<open>addTestsToItems\<close>)\<close>

fun truthy :: "js_value \<Rightarrow> bool" where
  "truthy Undefined = False"
| "truthy (Lines ls) = True"
| "truthy (Source s) = (s \<noteq> [])"
| "truthy Other = True"

text \<open>\<^verbatim>\<open>s.split('\n')\<close>.\<close>

fun split_on :: "char \<Rightarrow> string \<Rightarrow> string list" where
  "split_on c [] = [[]]"
| "split_on c (x # xs) =
     (if x = c then [] # split_on c xs
      else (case split_on c xs of
              y # ys \<Rightarrow> (x # y) # ys
            | [] \<Rightarrow> [[x]]))"

text \<open>\<^verbatim>\<open>testScripts[item.name] || testScripts['default']\<close>.\<close>

definition script_for :: "script_map \<Rightarrow> string \<Rightarrow> js_value" where
  "script_for testScripts item_name =
     (if truthy (testScripts item_name) then testScripts item_name
      else testScripts ''default'')"

text \<open>\<^verbatim>\<open>e.listen === 'test'\<close> for the object at an address.\<close>

definition is_test :: "store \<Rightarrow> addr \<Rightarrow> bool" where
  "is_test h a \<longleftrightarrow> a < length h \<and> listen (h ! a) = ''test''"

text \<open>
  The object that is pushed. \<^verbatim>\<open>Array.isArray(testScript) ? testScript :
  testScript.split('\n')\<close> is evaluated first: for a value that is neither an array nor
  a string, \<^verbatim>\<open>testScript.split\<close> is \<^verbatim>\<open>undefined\<close> and the call throws.
\<close>

definition test_event :: "js_value \<Rightarrow> js_error + event_obj" where
  "test_event testScript =
     (case testScript of
        Lines ls \<Rightarrow>
          Inr \<lparr>listen = ''test'', ev_script = \<lparr>script_type = ''text/javascript'', exec = ls\<rparr>\<rparr>
      | Source s \<Rightarrow>
          Inr \<lparr>listen = ''test'',
               ev_script = \<lparr>script_type = ''text/javascript'', exec = split_on (CHR 0x0A) s\<rparr>\<rparr>
      | _ \<Rightarrow> Inl (TypeError ''testScript.split is not a function''))"

text \<open>
  The loop body for one item, and the loop. The node is updated in place in the source;
  here the updated node is returned together with the store and with the error that
  was thrown, if one was. When the push throws, the two assignments to \<^verbatim>\<open>item.event\<close>
  before it have been made: the node has lost its test events. An error ends the loop,
  and the loops around it.
\<close>

fun addTestsToItem :: "script_map \<Rightarrow> store \<Rightarrow> node \<Rightarrow> js_error option \<times> store \<times> node"
  and addTestsToItems :: "script_map \<Rightarrow> store \<Rightarrow> node list \<Rightarrow> js_error option \<times> store \<times> node list"
where
  "addTestsToItem testScripts h (Node nm req ev children) =
     (let (thrown, h1, ev1) =
            (case req of
               None \<Rightarrow> (None, h, ev)
             | Some _ \<Rightarrow>
                 (let testScript = script_for testScripts nm in
                  if truthy testScript then
                    (let event = (case ev of Some es \<Rightarrow> es | None \<Rightarrow> []);
                         event = filter (\<lambda>e. \<not> is_test h e) event
                     in case test_event testScript of
                          Inl error \<Rightarrow> (Some error, h, Some event)
                        | Inr obj \<Rightarrow> (None, h @ [obj], Some (event @ [length h])))
                  else (None, h, ev)))
      in case thrown of
           Some error \<Rightarrow> (Some error, h1, Node nm req ev1 children)
         | None \<Rightarrow>
             (case children of
                None \<Rightarrow> (None, h1, Node nm req ev1 None)
              | Some cs \<Rightarrow>
                  (let (thrown', h', cs') = addTestsToItems testScripts h1 cs
                   in (thrown', h', Node nm req ev1 (Some cs')))))"
| "addTestsToItems testScripts h [] = (None, h, [])"
| "addTestsToItems testScripts h (it # its) =
     (case addTestsToItem testScripts h it of
        (Some error, h1, it') \<Rightarrow> (Some error, h1, it' # its)
      | (None, h1, it') \<Rightarrow>
          (let (thrown, h2, its') = addTestsToItems testScripts h1 its
           in (thrown, h2, it' # its')))"

text \<open>
  What the claims about the injector speak of: the leaves of a tree in the order of the
  traversal, each with its event array; the tree without its events; and the condition
  that every event address of the tree is allocated.
\<close>

fun leaves :: "node \<Rightarrow> (string \<times> addr list) list"
  and leaves_list :: "node list \<Rightarrow> (string \<times> addr list) list"
where
  "leaves (Node nm req ev children) =
     (case req of
        None \<Rightarrow> []
      | Some _ \<Rightarrow> [(nm, case ev of Some es \<Rightarrow> es | None \<Rightarrow> [])])
     @ (case children of None \<Rightarrow> [] | Some cs \<Rightarrow> leaves_list cs)"
| "leaves_list [] = []"
| "leaves_list (it # its) = leaves it @ leaves_list its"

fun without_events :: "node \<Rightarrow> node"
  and without_events_list :: "node list \<Rightarrow> node list"
where
  "without_events (Node nm req ev children) =
     Node nm req None
       (case children of None \<Rightarrow> None | Some cs \<Rightarrow> Some (without_events_list cs))"
| "without_events_list [] = []"
| "without_events_list (it # its) = without_events it # without_events_list its"

fun allocated :: "store \<Rightarrow> node \<Rightarrow> bool"
  and allocated_list :: "store \<Rightarrow> node list \<Rightarrow> bool"
where
  "allocated h (Node nm req ev children) \<longleftrightarrow>
     (case ev of None \<Rightarrow> True | Some es \<Rightarrow> list_all (\<lambda>a. a < length h) es)
     \<and> (case children of None \<Rightarrow> True | Some cs \<Rightarrow> allocated_list h cs)"
| "allocated_list h [] \<longleftrightarrow> True"
| "allocated_list h (it # its) \<longleftrightarrow> allocated h it \<and> allocated_list h its"

text \<open>
  A leaf after injection, compared with the same leaf before: the same name, the same
  addresses of events that are not test events, in the same order, and one test event.
\<close>

definition leaf_injected :: "store \<Rightarrow> store \<Rightarrow> string \<times> addr list \<Rightarrow> string \<times> addr list \<Rightarrow> bool" where
  "leaf_injected h h' old new \<longleftrightarrow>
     fst new = fst old
     \<and> filter (\<lambda>a. \<not> is_test h' a) (snd new) = filter (\<lambda>a. \<not> is_test h a) (snd old)
     \<and> length (filter (is_test h') (snd new)) = 1"

text \<open>
  Two invariants of the traversal: the event arrays of a list of leaves hold allocated
  addresses only; and one node, processed from a store in which it is allocated and
  with a map that gives a truthy script for the name of each of its leaves, comes out
  with nothing thrown, the store extended, the tree shape kept and every leaf injected.
\<close>

definition leaves_allocated :: "store \<Rightarrow> (string \<times> addr list) list \<Rightarrow> bool" where
  "leaves_allocated h ls \<longleftrightarrow> list_all (\<lambda>l. list_all (\<lambda>a. a < length h) (snd l)) ls"

definition scripted :: "script_map \<Rightarrow> string \<Rightarrow> bool" where
  "scripted testScripts nm \<longleftrightarrow>
     (case script_for testScripts nm of
        Lines ls \<Rightarrow> True
      | Source s \<Rightarrow> s \<noteq> []
      | _ \<Rightarrow> False)"

definition injected :: "script_map \<Rightarrow> store \<Rightarrow> node \<Rightarrow> bool" where
  "injected testScripts h n \<longleftrightarrow>
     (allocated h n \<and> list_all (\<lambda>l. scripted testScripts (fst l)) (leaves n) \<longrightarrow>
       (case addTestsToItem testScripts h n of
          (thrown, h', n') \<Rightarrow>
            thrown = None \<and>
            (\<exists>ext. h' = h @ ext) \<and> allocated h' n' \<and>
            without_events n' = without_events n \<and>
            list_all2 (leaf_injected h h') (leaves n) (leaves n')))"

text \<open>
  A collection for concrete runs: a folder with two requests, the first with a
  pre-request event and two old test events, and a request at the top level with one
  pre-request event.
\<close>

definition sample_store :: store where
  "sample_store =
     [\<lparr>listen = ''prerequest'', ev_script = \<lparr>script_type = ''text/javascript'', exec = [''// set up'']\<rparr>\<rparr>,
      \<lparr>listen = ''test'', ev_script = \<lparr>script_type = ''text/javascript'', exec = [''// old test'']\<rparr>\<rparr>,
      \<lparr>listen = ''test'', ev_script = \<lparr>script_type = ''text/javascript'', exec = [''// older test'']\<rparr>\<rparr>,
      \<lparr>listen = ''prerequest'', ev_script = \<lparr>script_type = ''text/javascript'', exec = [''// token'']\<rparr>\<rparr>]"

definition sample_items :: "node list" where
  "sample_items =
     [Node ''Tasks'' None None
        (Some [Node ''Get a specific task'' (Some ''GET {{baseUrl}}/tasks/:taskId'') (Some [0, 1, 2]) None,
               Node ''List all tasks'' (Some ''GET {{baseUrl}}/tasks'') None None]),
      Node ''Health check'' (Some ''GET {{baseUrl}}/health'') (Some [3]) None]"

definition sample_scripts :: script_map where
  "sample_scripts =
     plain_object
       [''default'' \<mapsto> Lines [''// default test''],
        ''Get a specific task'' \<mapsto> Source ''// one line'']"

section \<open>Sequencing, exceptions and output\<close>

text \<open>
  \<open>resolve\<close> returns a value and \<open>reject\<close> throws; \<open>andThen m f\<close> awaits \<open>m\<close> and
  goes on with \<open>f\<close>, unless \<open>m\<close> throws; \<open>catch m h\<close> is \<^verbatim>\<open>try { m } catch (error) { h }\<close>;
  \<open>lift\<close> takes the outcome of a call that does not touch the world.
\<close>

definition resolve :: "'a \<Rightarrow> 'a action" where
  "resolve v = (\<lambda>w. (Inr v, w))"

definition reject :: "js_error \<Rightarrow> 'a action" where
  "reject e = (\<lambda>w. (Inl e, w))"

definition lift :: "js_error + 'a \<Rightarrow> 'a action" where
  "lift r = (\<lambda>w. (r, w))"

definition andThen :: "'a action \<Rightarrow> ('a \<Rightarrow> 'b action) \<Rightarrow> 'b action" where
  "andThen m f = (\<lambda>w. case m w of (Inl e, w') \<Rightarrow> (Inl e, w') | (Inr v, w') \<Rightarrow> f v w')"

definition catch :: "'a action \<Rightarrow> (js_error \<Rightarrow> 'a action) \<Rightarrow> 'a action" where
  "catch m h =
     (\<lambda>w. case m w of
            (Inl (Exit code), w') \<Rightarrow> (Inl (Exit code), w')
          | (Inl e, w') \<Rightarrow> h e w'
          | (Inr v, w') \<Rightarrow> (Inr v, w'))"

definition print :: "log_line \<Rightarrow> unit action" where
  "print l = (\<lambda>w. (Inr (), w\<lparr>console := console w @ [l]\<rparr>))"

text \<open>
  A decimal numeral, for numbers in template strings; an identifier in a template
  string (\<^verbatim>\<open>undefined\<close> prints as itself); and the truth value of an identifier.
\<close>

fun show_nat :: "nat \<Rightarrow> string" where
  "show_nat n =
     (if n < 10 then [char_of (48 + n)]
      else show_nat (n div 10) @ [char_of (48 + n mod 10)])"

declare show_nat.simps [simp del]

definition show_id :: "string option \<Rightarrow> string" where
  "show_id i = (case i of Some s \<Rightarrow> s | None \<Rightarrow> ''undefined'')"

definition truthy_id :: "string option \<Rightarrow> bool" where
  "truthy_id i = (case i of Some s \<Rightarrow> s \<noteq> [] | None \<Rightarrow> False)"

text \<open>
  Reading a property of a response body: of \<^verbatim>\<open>null\<close> it throws, as the engine does.
\<close>

definition member :: "(body \<Rightarrow> 'a) \<Rightarrow> string \<Rightarrow> body option \<Rightarrow> 'a action" where
  "member get nm data =
     (case data of
        None \<Rightarrow>
          reject (TypeError (''Cannot read properties of null (reading '' @ [CHR 0x27] @ nm @ [CHR 0x27] @ '')''))
      | Some d \<Rightarrow> resolve (get d))"

text \<open>\<^verbatim>\<open>list?.find(c => c.name === name)\<close>, and \<^verbatim>\<open>(list || []).find(...)\<close>: the same.\<close>

definition find_by_name :: "handle list option \<Rightarrow> string \<Rightarrow> handle option" where
  "find_by_name entries nm =
     (case entries of None \<Rightarrow> None | Some l \<Rightarrow> find (\<lambda>c. h_name c = nm) l)"

section \<open>The client (\<^verbatim>\<open>SpecHubClient\<close>)\<close>

record client =
  apiKey :: string
  workspaceId :: string

definition POSTMAN_API_BASE :: string where
  "POSTMAN_API_BASE = ''https://api.getpostman.com''"

definition response_ok :: "nat \<Rightarrow> bool" where
  "response_ok status \<longleftrightarrow> 200 \<le> status \<and> status \<le> 299"

text \<open>
  \<^verbatim>\<open>request(method, endpoint, body)\<close>. The request is recorded as sent whatever comes
  back. A body that is passed is an object, so \<^verbatim>\<open>if (body)\<close> is whether one is passed.
\<close>

definition request ::
  "remote \<Rightarrow> client \<Rightarrow> string \<Rightarrow> string \<Rightarrow> payload option \<Rightarrow> body option action" where
  "request service this meth endpoint req_body =
     (\<lambda>w.
        let rq = \<lparr>rq_method = meth, rq_url = POSTMAN_API_BASE @ endpoint,
                  rq_api_key = apiKey this, rq_body = req_body\<rparr>;
            w' = w\<lparr>sent := sent w @ [rq]\<rparr>
        in case service (sent w) rq of
             Rejected \<Rightarrow> (Inl FetchError, w')
           | Replied status data \<Rightarrow>
               if \<not> response_ok status then
                 (case data of
                    None \<Rightarrow>
                      (Inl (TypeError ''Cannot read properties of null (reading 'error')''), w')
                  | Some d \<Rightarrow>
                      (Inl (ApiError status
                              (case error_member d of
                                 Some e \<Rightarrow> if e \<noteq> [] then ErrorMember e else WholeBody d
                               | None \<Rightarrow> WholeBody d)), w'))
               else (Inr data, w'))"

text \<open>
  \<^verbatim>\<open>uploadSpec(name, specContent, specId = null)\<close>. The content is a string: the
  orchestrator passes the text of the file.
\<close>

definition uploadSpec ::
  "remote \<Rightarrow> client \<Rightarrow> string \<Rightarrow> string \<Rightarrow> string option \<Rightarrow> string option action" where
  "uploadSpec service this nm specContent specId =
     (if truthy_id specId then
        andThen (request service this ''PATCH''
                   (''/specs/'' @ show_id specId @ ''/files/index.json'')
                   (Some (SpecFile specContent)))
          (\<lambda>_. resolve specId)
      else
        andThen (request service this ''POST''
                   (''/specs?workspaceId='' @ workspaceId this)
                   (Some (NewSpec nm ''OPENAPI:3.0'' [(''index.json'', specContent)])))
          (\<lambda>result. member id_member ''id'' result))"

definition getSpecGeneratedCollections ::
  "remote \<Rightarrow> client \<Rightarrow> string option \<Rightarrow> handle list action" where
  "getSpecGeneratedCollections service this specId =
     catch
       (andThen (request service this ''GET''
                   (''/specs/'' @ show_id specId @ ''/generations/collection'') None)
          (\<lambda>result. andThen (member collections_member ''collections'' result)
             (\<lambda>cs. resolve (case cs of Some l \<Rightarrow> l | None \<Rightarrow> []))))
       (\<lambda>error. resolve [])"

definition syncCollectionWithSpec ::
  "remote \<Rightarrow> client \<Rightarrow> string option \<Rightarrow> string option \<Rightarrow> body option action" where
  "syncCollectionWithSpec service this collectionId specId =
     request service this ''PUT''
       (''/collections/'' @ show_id collectionId @ ''/synchronizations?specId='' @ show_id specId)
       None"

definition getCollection :: "remote \<Rightarrow> client \<Rightarrow> string option \<Rightarrow> body option action" where
  "getCollection service this collectionUid =
     request service this ''GET'' (''/collections/'' @ show_id collectionUid) None"

definition updateCollection ::
  "remote \<Rightarrow> client \<Rightarrow> string option \<Rightarrow> collection_doc \<Rightarrow> body option action" where
  "updateCollection service this collectionUid collection =
     request service this ''PUT'' (''/collections/'' @ show_id collectionUid)
       (Some (CollectionBody collection))"

text \<open>
  The two polling loops, from attempt \<open>i\<close> on; the functions of the source start at
  attempt 0. A body that is not \<^verbatim>\<open>null\<close> is an object, hence truthy.
\<close>

function waitForCollectionSync_from ::
  "remote \<Rightarrow> client \<Rightarrow> string option \<Rightarrow> nat \<Rightarrow> nat \<Rightarrow> unit action" where
  "waitForCollectionSync_from service this collectionId maxAttempts i w =
     (if i < maxAttempts then
        (case getCollection service this collectionId w of
           (Inr collection, w') \<Rightarrow>
             if collection \<noteq> None then (Inr (), w')
             else waitForCollectionSync_from service this collectionId maxAttempts (Suc i) w'
         | (Inl error, w') \<Rightarrow>
             waitForCollectionSync_from service this collectionId maxAttempts (Suc i)
               (w'\<lparr>console := console w' @
                  [ConsoleLog (''  Waiting for sync... ('' @ show_nat (i + 1) @ ''/''
                               @ show_nat maxAttempts @ '')'')]\<rparr>))
      else
        (Inr (), w\<lparr>console := console w @
                  [ConsoleWarn ''  Sync wait timed out, but collection should be updated'']\<rparr>))"
  by pat_completeness auto
termination
  by (relation "measure (\<lambda>(service, this, collectionId, maxAttempts, i, w). maxAttempts - i)") auto

declare waitForCollectionSync_from.simps [simp del]

definition waitForCollectionSync ::
  "remote \<Rightarrow> client \<Rightarrow> string option \<Rightarrow> nat \<Rightarrow> unit action" where
  "waitForCollectionSync service this collectionId maxAttempts =
     waitForCollectionSync_from service this collectionId maxAttempts 0"

definition list_collections :: "remote \<Rightarrow> client \<Rightarrow> body option action" where
  "list_collections service this =
     request service this ''GET'' (''/collections?workspace='' @ workspaceId this) None"

function waitForCollectionGeneration_from ::
  "remote \<Rightarrow> client \<Rightarrow> string \<Rightarrow> nat \<Rightarrow> nat \<Rightarrow> unit action" where
  "waitForCollectionGeneration_from service this nm maxAttempts i w =
     (if i < maxAttempts then
        (case list_collections service this w of
           (Inl error, w') \<Rightarrow> (Inl error, w')
         | (Inr collections, w') \<Rightarrow>
             (case member collections_member ''collections'' collections w' of
                (Inl error, w'') \<Rightarrow> (Inl error, w'')
              | (Inr entries, w'') \<Rightarrow>
                  if find_by_name entries nm \<noteq> None then (Inr (), w'')
                  else waitForCollectionGeneration_from service this nm maxAttempts (Suc i) w''))
      else
        (Inl (Error (''Collection generation timed out after '' @ show_nat (maxAttempts * 2)
                     @ '' seconds'')), w))"
  by pat_completeness auto
termination
  by (relation "measure (\<lambda>(service, this, nm, maxAttempts, i, w). maxAttempts - i)") auto

declare waitForCollectionGeneration_from.simps [simp del]

definition waitForCollectionGeneration ::
  "remote \<Rightarrow> client \<Rightarrow> string \<Rightarrow> nat \<Rightarrow> unit action" where
  "waitForCollectionGeneration service this nm maxAttempts =
     waitForCollectionGeneration_from service this nm maxAttempts 0"

text \<open>
  The last step of both branches of \<^verbatim>\<open>generateOrSyncCollection\<close>: list the collections
  of the workspace, find the one of the given name and return its \<^verbatim>\<open>uid\<close>.
\<close>

definition find_uid :: "remote \<Rightarrow> client \<Rightarrow> string \<Rightarrow> string \<Rightarrow> string option action" where
  "find_uid service this nm not_found =
     andThen (list_collections service this)
       (\<lambda>collections. andThen (member collections_member ''collections'' collections)
          (\<lambda>entries.
             case find_by_name entries nm of
               None \<Rightarrow> reject (Error not_found)
             | Some collection \<Rightarrow> resolve (h_uid collection)))"

text \<open>
  \<^verbatim>\<open>generateOrSyncCollection(specId, name, options = {})\<close>, with the default of 10
  attempts for both waits. In the payload the spread \<^verbatim>\<open>...options\<close> comes last, so a
  property that \<^verbatim>\<open>options\<close> has wins over its default.
\<close>

definition generateOrSyncCollection ::
  "remote \<Rightarrow> client \<Rightarrow> string option \<Rightarrow> string \<Rightarrow> gen_options \<Rightarrow> string option action" where
  "generateOrSyncCollection service this specId nm opts =
     andThen (getSpecGeneratedCollections service this specId)
       (\<lambda>existingCollections.
          case find (\<lambda>c. h_name c = nm) existingCollections of
            Some existingCollection \<Rightarrow>
              andThen (print (ConsoleLog (''  Syncing existing collection: ''
                                          @ show_id (h_id existingCollection))))
                (\<lambda>_. andThen (syncCollectionWithSpec service this (h_id existingCollection) specId)
                   (\<lambda>_. andThen (waitForCollectionSync service this (h_id existingCollection) 10)
                      (\<lambda>_. find_uid service this nm
                              (''Synced collection \"'' @ nm @ ''\" not found''))))
          | None \<Rightarrow>
              andThen (print (ConsoleLog (''  Generating new collection: '' @ nm)))
                (\<lambda>_. andThen (request service this ''POST''
                                 (''/specs/'' @ show_id specId @ ''/generations/collection'')
                                 (Some (Generation nm
                                    \<lparr>enableOptionalParameters =
                                        Some (case enableOptionalParameters opts of
                                                Some b \<Rightarrow> b | None \<Rightarrow> True),
                                      folderStrategy =
                                        Some (case folderStrategy opts of
                                                Some s \<Rightarrow> s | None \<Rightarrow> ''Tags'')\<rparr>)))
                   (\<lambda>_. andThen (waitForCollectionGeneration service this nm 10)
                      (\<lambda>_. find_uid service this nm
                              (''Generated collection \"'' @ nm @ ''\" not found'')))))"

text \<open>
  \<^verbatim>\<open>addTestScripts(collectionUid, testScripts)\<close>: read the collection, inject, write it
  back. Iterating over an absent \<^verbatim>\<open>item\<close> throws, and what the injection throws is
  thrown before anything is written back.
\<close>

definition addTestScripts ::
  "remote \<Rightarrow> client \<Rightarrow> string option \<Rightarrow> script_map \<Rightarrow> collection_doc action" where
  "addTestScripts service this collectionUid testScripts =
     andThen (getCollection service this collectionUid)
       (\<lambda>collectionData. andThen (member collection_member ''collection'' collectionData)
          (\<lambda>c. case c of
                 None \<Rightarrow>
                   reject (TypeError ''Cannot read properties of undefined (reading 'item')'')
               | Some collection \<Rightarrow>
                   (case coll_item collection of
                      None \<Rightarrow> reject (TypeError ''items is not iterable'')
                    | Some items \<Rightarrow>
                        (case addTestsToItems testScripts (coll_store collection) items of
                           (Some error, h', items') \<Rightarrow> reject error
                         | (None, h', items') \<Rightarrow>
                             (let collection' = \<lparr>coll_item = Some items', coll_store = h'\<rparr>
                              in andThen (updateCollection service this collectionUid collection')
                                   (\<lambda>_. resolve collection'))))))"

text \<open>
  \<^verbatim>\<open>client.generateCollection(specId, name, options)\<close> is what the orchestrator calls.
  The class \<^verbatim>\<open>SpecHubClient\<close> defines no method of that name (it defines
  \<^verbatim>\<open>generateOrSyncCollection\<close>, with the same parameters): the property is
  \<^verbatim>\<open>undefined\<close>, and calling it throws a \<^verbatim>\<open>TypeError\<close> before anything is sent.
\<close>

definition generateCollection ::
  "client \<Rightarrow> string option \<Rightarrow> string \<Rightarrow> gen_options \<Rightarrow> string option action" where
  "generateCollection this specId nm opts =
     reject (TypeError ''client.generateCollection is not a function'')"

definition listSpecs :: "remote \<Rightarrow> client \<Rightarrow> handle list action" where
  "listSpecs service this =
     andThen (request service this ''GET'' (''/specs?workspaceId='' @ workspaceId this) None)
       (\<lambda>result. andThen (member specs_member ''specs'' result)
          (\<lambda>specs. resolve (case specs of Some l \<Rightarrow> l | None \<Rightarrow> [])))"

definition findSpecByName :: "remote \<Rightarrow> client \<Rightarrow> string \<Rightarrow> handle option action" where
  "findSpecByName service this nm =
     andThen (listSpecs service this)
       (\<lambda>specs. resolve (find (\<lambda>s. h_name s = nm) specs))"

text \<open>
  Bodies and a client for concrete runs: a body with no property, and the client of a
  workspace \<^verbatim>\<open>ws-1\<close>.
\<close>

definition empty_body :: body where
  "empty_body =
     \<lparr>error_member = None, id_member = None, specs_member = None,
      collections_member = None, environments_member = None, collection_member = None\<rparr>"

definition sample_client :: client where
  "sample_client = \<lparr>apiKey = ''PMAK-1'', workspaceId = ''ws-1''\<rparr>"

definition new_world :: world where
  "new_world = \<lparr>sent = [], console = []\<rparr>"

text \<open>The request that \<^verbatim>\<open>request(method, endpoint, body)\<close> sends.\<close>

definition the_request :: "client \<Rightarrow> string \<Rightarrow> string \<Rightarrow> payload option \<Rightarrow> http_request" where
  "the_request this meth endpoint req_body =
     \<lparr>rq_method = meth, rq_url = POSTMAN_API_BASE @ endpoint,
      rq_api_key = apiKey this, rq_body = req_body\<rparr>"

text \<open>
  The two requests of the polling loops, and the replies that end the wait for a
  synchronization: a success status with a body that is not \<^verbatim>\<open>null\<close>.
\<close>

definition listing_request :: "client \<Rightarrow> http_request" where
  "listing_request this =
     the_request this ''GET'' (''/collections?workspace='' @ workspaceId this) None"

definition collection_request :: "client \<Rightarrow> string option \<Rightarrow> http_request" where
  "collection_request this collectionId =
     the_request this ''GET'' (''/collections/'' @ show_id collectionId) None"

definition available :: "fetch_result \<Rightarrow> bool" where
  "available r =
     (case r of
        Rejected \<Rightarrow> False
      | Replied status data \<Rightarrow> response_ok status \<and> data \<noteq> None)"

text \<open>A listing that has a collection of the given name.\<close>

definition lists_name :: "fetch_result \<Rightarrow> string \<Rightarrow> bool" where
  "lists_name r nm =
     (case r of
        Rejected \<Rightarrow> False
      | Replied status data \<Rightarrow>
          (case data of
             None \<Rightarrow> False
           | Some d \<Rightarrow> response_ok status \<and> find_by_name (collections_member d) nm \<noteq> None))"

text \<open>A listing that is read without an error and has no collection of the given name.\<close>

definition lists_without :: "fetch_result \<Rightarrow> string \<Rightarrow> bool" where
  "lists_without r nm =
     (case r of
        Rejected \<Rightarrow> False
      | Replied status data \<Rightarrow>
          (case data of
             None \<Rightarrow> False
           | Some d \<Rightarrow> response_ok status \<and> find_by_name (collections_member d) nm = None))"

text \<open>A uid that is returned was read from a listing, which is the last request sent.\<close>

definition confirmed :: "remote \<Rightarrow> client \<Rightarrow> string \<Rightarrow> string option \<Rightarrow> world \<Rightarrow> bool" where
  "confirmed svc this nm uid w' \<longleftrightarrow>
     (\<exists>before status d c.
         sent w' = before @ [listing_request this] \<and>
         svc before (listing_request this) = Replied status (Some d) \<and> response_ok status \<and>
         find_by_name (collections_member d) nm = Some c \<and> h_uid c = uid)"

text \<open>Three services for concrete runs: each answers every request in the same way.\<close>

definition empty_workspace :: remote where
  "empty_workspace = (\<lambda>before rq. Replied 200 (Some (empty_body\<lparr>collections_member := Some []\<rparr>)))"

definition unavailable_service :: remote where
  "unavailable_service = (\<lambda>before rq. Replied 503 (Some (empty_body\<lparr>error_member := Some ''down''\<rparr>)))"

definition docs_listed :: remote where
  "docs_listed =
     (\<lambda>before rq.
        Replied 200
          (Some (empty_body\<lparr>collections_member :=
                   Some [\<lparr>h_name = ''Task API - Docs'', h_id = Some ''c-1'', h_uid = Some ''u-1''\<rparr>]\<rparr>)))"

text \<open>
  A service that knows the spec \<^verbatim>\<open>Task API\<close> under the identifier \<^verbatim>\<open>spec-1\<close>, and one
  that creates a spec \<^verbatim>\<open>spec-2\<close>; both answer every request in the same way.
\<close>

definition spec_listed :: remote where
  "spec_listed =
     (\<lambda>before rq.
        Replied 200
          (Some (empty_body\<lparr>id_member := Some ''spec-1'',
                   specs_member :=
                     Some [\<lparr>h_name = ''Task API'', h_id = Some ''spec-1'', h_uid = None\<rparr>]\<rparr>)))"

definition spec_created :: remote where
  "spec_created = (\<lambda>before rq. Replied 201 (Some (empty_body\<lparr>id_member := Some ''spec-2''\<rparr>)))"

section \<open>The orchestrator (\<^verbatim>\<open>sync\<close>)\<close>

text \<open>
  The options after \<^verbatim>\<open>parseArgs\<close>. What the orchestrator takes from outside these
  sources is collected in one record: \<^verbatim>\<open>parseSpec\<close> and the other functions of
  \<^verbatim>\<open>./parser.js\<close>, \<^verbatim>\<open>fs.readFileSync\<close>, the remote service, and which names are
  properties of \<^verbatim>\<open>Array.prototype\<close> in the runtime (they depend on its version).
\<close>

record options =
  opt_spec :: "string option"
  opt_workspaceId :: "string option"
  opt_apiKey :: "string option"
  opt_dryRun :: bool
  opt_testLevel :: string

record 'a host =
  parseSpec :: "string \<Rightarrow> js_error + 'a openapi_scheme"
  readFileSync :: "string \<Rightarrow> js_error + string"
  parser_module :: "'a parser"
  remote_service :: remote
  array_member :: "string \<Rightarrow> bool"

definition specName_of :: "'a openapi_scheme \<Rightarrow> string" where
  "specName_of api =
     (case api_info api of
        None \<Rightarrow> ''Untitled API''
      | Some i \<Rightarrow>
          (case title i of
             None \<Rightarrow> ''Untitled API''
           | Some t \<Rightarrow> if t \<noteq> [] then t else ''Untitled API''))"

definition tags_options :: gen_options where
  "tags_options = \<lparr>enableOptionalParameters = Some True, folderStrategy = Some ''Tags''\<rparr>"

text \<open>
  The body of \<^verbatim>\<open>sync\<close> is cut at its step comments. Step 2: look for a spec of the
  same name; every failure of the lookup is caught.
\<close>

definition check_existing_spec :: "'a host \<Rightarrow> client \<Rightarrow> string \<Rightarrow> string option action" where
  "check_existing_spec host this specName =
     andThen (print (LogStep ''Step 2'' ''Checking for existing spec in Spec Hub''))
       (\<lambda>_. catch
               (andThen (findSpecByName (remote_service host) this specName)
                  (\<lambda>existingSpec.
                     case existingSpec of
                       Some s \<Rightarrow> resolve (h_id s)
                     | None \<Rightarrow> resolve None))
               (\<lambda>error. resolve None))"

text \<open>Step 3: upload the text of the spec file.\<close>

definition upload_stage ::
  "'a host \<Rightarrow> client \<Rightarrow> string \<Rightarrow> string \<Rightarrow> string option \<Rightarrow> string option action" where
  "upload_stage host this spec_path specName specId =
     andThen (print (LogStep ''Step 3'' ''Uploading spec to Spec Hub''))
       (\<lambda>_. andThen (lift (readFileSync host spec_path))
          (\<lambda>specContent. uploadSpec (remote_service host) this specName specContent specId))"

text \<open>Step 4: the docs collection; a failure is logged.\<close>

definition docs_stage :: "'a host \<Rightarrow> client \<Rightarrow> string \<Rightarrow> string option \<Rightarrow> unit action" where
  "docs_stage host this specName specId =
     andThen (print (LogStep ''Step 4'' ''Generating docs collection from Spec Hub''))
       (\<lambda>_. catch
               (andThen (generateCollection this specId (specName @ '' - Docs'') tags_options)
                  (\<lambda>docsCollectionUid. resolve ()))
               (\<lambda>error. print (LogError ''Failed to generate docs collection: '' (Some error))))"

text \<open>Steps 5 and 6: the smoke collection and its tests.\<close>

text \<open>
  Reading the property \<open>k\<close> of the object that the generator returns: its own
  property; else, when its prototype is an array, that array for \<^verbatim>\<open>__proto__\<close>, the
  number of lines for \<^verbatim>\<open>length\<close>, the line at an index, and a method for the name of a
  member of \<^verbatim>\<open>Array.prototype\<close>; else the member of \<^verbatim>\<open>Object.prototype\<close>.
\<close>

definition as_scripts :: "(string \<Rightarrow> bool) \<Rightarrow> scripts_object \<Rightarrow> script_map" where
  "as_scripts in_array_prototype obj k =
     (case own_scripts obj k of
        Some ls \<Rightarrow> Lines ls
      | None \<Rightarrow>
          (case array_prototype obj of
             None \<Rightarrow> object_prototype k
           | Some arr \<Rightarrow>
               if k = ''__proto__'' then Lines arr
               else if k = ''length'' then (if arr = [] then Undefined else Other)
               else (case find (\<lambda>i. show_nat i = k) [0..<length arr] of
                       Some i \<Rightarrow> Source (arr ! i)
                     | None \<Rightarrow> if in_array_prototype k then Other else object_prototype k)))"

definition smoke_stage ::
  "'a host \<Rightarrow> client \<Rightarrow> 'a openapi_scheme \<Rightarrow> string \<Rightarrow> string option \<Rightarrow> unit action" where
  "smoke_stage host this api specName specId =
     andThen (print (LogStep ''Step 5'' ''Generating smoke test collection from Spec Hub''))
       (\<lambda>_. andThen (generateCollection this specId (specName @ '' - Smoke Tests'') tags_options)
          (\<lambda>smokeCollectionUid.
             andThen (print (LogStep ''Step 6'' ''Generating and injecting smoke tests''))
               (\<lambda>_. andThen
                       (addTestScripts (remote_service host) this smokeCollectionUid
                          (as_scripts (array_member host)
                             (generateTestScriptsForSpec (parser_module host) api SMOKE)))
                       (\<lambda>_. resolve ()))))"

text \<open>The contract collection and its tests; the step numbers depend on the smoke stage.\<close>

definition contract_stage ::
  "'a host \<Rightarrow> client \<Rightarrow> 'a openapi_scheme \<Rightarrow> string \<Rightarrow> string option \<Rightarrow> bool \<Rightarrow> unit action" where
  "contract_stage host this api specName specId generateSmoke =
     andThen (print (LogStep (''Step '' @ (if generateSmoke then ''7'' else ''5''))
                       ''Generating contract test collection from Spec Hub''))
       (\<lambda>_. andThen (generateCollection this specId (specName @ '' - Contract Tests'') tags_options)
          (\<lambda>contractCollectionUid.
             andThen (print (LogStep (''Step '' @ (if generateSmoke then ''8'' else ''6''))
                               ''Generating and injecting contract tests''))
               (\<lambda>_. andThen
                       (addTestScripts (remote_service host) this contractCollectionUid
                          (as_scripts (array_member host)
                             (generateTestScriptsForSpec (parser_module host) api CONTRACT)))
                       (\<lambda>_. resolve ()))))"

text \<open>
  The environment: updated when one of the same name is listed, created otherwise. The
  report of the creation reads \<^verbatim>\<open>envResult.environment?.uid\<close>, which throws when the
  body of the reply is \<^verbatim>\<open>null\<close>.
\<close>

definition environment_stage ::
  "'a host \<Rightarrow> client \<Rightarrow> 'a openapi_scheme \<Rightarrow> bool \<Rightarrow> bool \<Rightarrow> unit action" where
  "environment_stage host this api generateSmoke generateContract =
     andThen (print (LogStep (''Step '' @ (if generateSmoke \<and> generateContract then ''9''
                                           else if generateSmoke \<or> generateContract then ''7''
                                           else ''5''))
                       ''Creating environment''))
       (\<lambda>_. andThen (lift (generateEnvironment api))
          (\<lambda>environment.
             andThen (request (remote_service host) this ''GET''
                        (''/environments?workspace='' @ workspaceId this) None)
               (\<lambda>environments.
                  andThen (member environments_member ''environments'' environments)
                    (\<lambda>entries.
                       case find_by_name entries (env_name environment) of
                         Some existingEnv \<Rightarrow>
                           andThen (request (remote_service host) this ''PUT''
                                      (''/environments/'' @ show_id (h_uid existingEnv))
                                      (Some (EnvironmentBody environment)))
                             (\<lambda>_. resolve ())
                       | None \<Rightarrow>
                           andThen (request (remote_service host) this ''POST''
                                      (''/environments?workspace='' @ workspaceId this)
                                      (Some (EnvironmentBody environment)))
                             (\<lambda>envResult.
                                andThen (member (\<lambda>d. ()) ''environment'' envResult)
                                  (\<lambda>_. resolve ()))))))"

text \<open>
  \<^verbatim>\<open>sync(options)\<close>. A missing option ends the process with code 1 before anything is
  sent. The list \<^verbatim>\<open>generatedCollections\<close> only feeds the summary and is left out.
\<close>

definition sync :: "'a host \<Rightarrow> options \<Rightarrow> unit action" where
  "sync host options =
     (if \<not> truthy_id (opt_spec options) then
        andThen (print (LogError ''Spec file path is required (--spec)'' None))
          (\<lambda>_. reject (Exit 1))
      else if \<not> truthy_id (opt_apiKey options) then
        andThen (print (LogError ''Postman API key is required (--api-key or env.POSTMAN_API_KEY)'' None))
          (\<lambda>_. reject (Exit 1))
      else if \<not> truthy_id (opt_workspaceId options) then
        andThen (print (LogError ''Workspace ID is required (--workspace or env.POSTMAN_WORKSPACE_ID)'' None))
          (\<lambda>_. reject (Exit 1))
      else
        (let generateSmoke = (opt_testLevel options = ''all'' \<or> opt_testLevel options = ''smoke'');
             generateContract = (opt_testLevel options = ''all'' \<or> opt_testLevel options = ''contract'');
             this = \<lparr>apiKey = show_id (opt_apiKey options),
                     workspaceId = show_id (opt_workspaceId options)\<rparr>
         in andThen (print (LogStep ''Step 1'' ''Parsing OpenAPI spec''))
              (\<lambda>_. andThen (lift (parseSpec host (show_id (opt_spec options))))
                 (\<lambda>api.
                    if opt_dryRun options then resolve ()
                    else
                      andThen (check_existing_spec host this (specName_of api))
                        (\<lambda>found.
                           andThen (upload_stage host this (show_id (opt_spec options))
                                      (specName_of api) found)
                             (\<lambda>specId.
                                andThen (docs_stage host this (specName_of api) specId)
                                  (\<lambda>_. andThen (if generateSmoke
                                                  then smoke_stage host this api (specName_of api) specId
                                                  else resolve ())
                                     (\<lambda>_. andThen (if generateContract
                                                     then contract_stage host this api (specName_of api)
                                                            specId generateSmoke
                                                     else resolve ())
                                        (\<lambda>_. environment_stage host this api
                                                generateSmoke generateContract)))))))))"

text \<open>
  A host for concrete runs: the spec \<^verbatim>\<open>Task API\<close> with the endpoint of the scenarios,
  and the string-named members of \<^verbatim>\<open>Array.prototype\<close> of ECMAScript 2023.
\<close>

definition array_prototype_names :: "string list" where
  "array_prototype_names =
     [''at'', ''concat'', ''constructor'', ''copyWithin'', ''entries'', ''every'', ''fill'',
      ''filter'', ''find'', ''findIndex'', ''findLast'', ''findLastIndex'', ''flat'', ''flatMap'',
      ''forEach'', ''includes'', ''indexOf'', ''join'', ''keys'', ''lastIndexOf'', ''map'',
      ''pop'', ''push'', ''reduce'', ''reduceRight'', ''reverse'', ''shift'', ''slice'', ''some'',
      ''sort'', ''splice'', ''toLocaleString'', ''toReversed'', ''toSorted'', ''toSpliced'',
      ''toString'', ''unshift'', ''values'', ''with'']"

definition task_api :: "unit openapi_scheme" where
  "task_api =
     \<lparr>api_info = Some \<lparr>title = Some ''Task API'', version = Some ''1.0.0''\<rparr>,
      api_servers = None\<rparr>"

definition sample_host :: "remote \<Rightarrow> unit host" where
  "sample_host svc =
     \<lparr>parseSpec = (\<lambda>path. Inr task_api),
      readFileSync = (\<lambda>path. Inr ''openapi: 3.0.3''),
      parser_module = first_media_parser [task_endpoint],
      remote_service = svc,
      array_member = (\<lambda>k. k \<in> set array_prototype_names)\<rparr>"

text \<open>
  Services for concrete runs. \<open>failing_at P\<close> answers the requests that \<open>P\<close> selects
  with status 500 and an error, and every other request with status 200 and a body in
  which no spec and no environment is listed and the identifier is \<^verbatim>\<open>spec-1\<close>.
\<close>

definition failing_at :: "(http_request \<Rightarrow> bool) \<Rightarrow> remote" where
  "failing_at P =
     (\<lambda>before rq.
        if P rq
        then Replied 500 (Some (empty_body\<lparr>error_member := Some ''server error''\<rparr>))
        else Replied 200
               (Some (empty_body
                  \<lparr>id_member := Some ''spec-1'',
                   specs_member := Some [],
                   environments_member := Some []\<rparr>)))"

definition lookup_failing :: remote where
  "lookup_failing =
     failing_at (\<lambda>rq. rq_method rq = ''GET'' \<and>
                       rq_url rq = ''https://api.getpostman.com/specs?workspaceId=ws-1'')"

definition upload_failing :: remote where
  "upload_failing =
     failing_at (\<lambda>rq. rq_method rq = ''POST'' \<and>
                       rq_url rq = ''https://api.getpostman.com/specs?workspaceId=ws-1'')"

definition environments_failing :: remote where
  "environments_failing =
     failing_at (\<lambda>rq. rq_method rq = ''GET'' \<and>
                       rq_url rq = ''https://api.getpostman.com/environments?workspace=ws-1'')"

definition environment_rejected :: remote where
  "environment_rejected =
     failing_at (\<lambda>rq. rq_method rq = ''POST'' \<and>
                       rq_url rq = ''https://api.getpostman.com/environments?workspace=ws-1'')"

text \<open>A service that lists the spec \<^verbatim>\<open>Task API\<close> and answers every \<^verbatim>\<open>PATCH\<close> with status 500.\<close>

definition patch_failing :: remote where
  "patch_failing =
     (\<lambda>before rq.
        if rq_method rq = ''PATCH''
        then Replied 500 (Some (empty_body\<lparr>error_member := Some ''server error''\<rparr>))
        else Replied 200
               (Some (empty_body
                  \<lparr>specs_member :=
                     Some [\<lparr>h_name = ''Task API'', h_id = Some ''spec-7'', h_uid = None\<rparr>]\<rparr>)))"

definition never_failing :: remote where
  "never_failing = failing_at (\<lambda>rq. False)"

text \<open>
  Options: the defaults of \<^verbatim>\<open>parseArgs\<close> with a spec file, a workspace and a key; and the
  same with a test level that selects neither tier.
\<close>

definition default_options :: options where
  "default_options =
     \<lparr>opt_spec = Some ''specs/api.yaml'', opt_workspaceId = Some ''ws-1'',
      opt_apiKey = Some ''PMAK-1'', opt_dryRun = False, opt_testLevel = ''all''\<rparr>"

definition plain_options :: options where
  "plain_options = default_options\<lparr>opt_testLevel := ''none''\<rparr>"

definition contract_options :: options where
  "contract_options = default_options\<lparr>opt_testLevel := ''contract''\<rparr>"

text \<open>The environment document of the spec \<^verbatim>\<open>Task API\<close>, which declares no server.\<close>

definition task_environment :: environment where
  "task_environment =
     \<lparr>env_name = ''Task API Environment'',
      env_values =
        [\<lparr>var_key = ''baseUrl'', var_value = ''https://api.example.com'',
          var_type = ''default'', var_enabled = True\<rparr>,
         \<lparr>var_key = ''RESPONSE_TIME_THRESHOLD'', var_value = ''2000'',
          var_type = ''default'', var_enabled = True\<rparr>,
         \<lparr>var_key = ''auth_token'', var_value = [],
          var_type = ''secret'', var_enabled = True\<rparr>],
      postman_variable_scope = ''environment''\<rparr>"
section \<open>Tag validation (\<^verbatim>\<open>SpecHubClient.validateTag\<close>)\<close>

text \<open>
  A JavaScript string is a sequence of 16-bit code units; the regular expressions of
  \<^verbatim>\<open>validateTag\<close> have no \<^verbatim>\<open>u\<close> flag and match code unit by code unit. \<open>utf16\<close> writes
  a string of ASCII characters as code units.
\<close>

type_synonym code_unit = "16 word"


text \<open>Character classes of the three regular expressions.\<close>

definition is_lower :: "code_unit \<Rightarrow> bool" where
  "is_lower u \<longleftrightarrow> 0x61 \<le> u \<and> u \<le> 0x7A"

definition is_digit :: "code_unit \<Rightarrow> bool" where
  "is_digit u \<longleftrightarrow> 0x30 \<le> u \<and> u \<le> 0x39"

definition is_hyphen :: "code_unit \<Rightarrow> bool" where
  "is_hyphen u \<longleftrightarrow> u = 0x2D"

text \<open>\<^verbatim>\<open>[a-z0-9]\<close> and \<^verbatim>\<open>[a-z0-9-]\<close>.\<close>

definition is_alnum :: "code_unit \<Rightarrow> bool" where
  "is_alnum u \<longleftrightarrow> is_lower u \<or> is_digit u"

definition tag_char :: "code_unit \<Rightarrow> bool" where
  "tag_char u \<longleftrightarrow> is_alnum u \<or> is_hyphen u"

text \<open>
  \<^verbatim>\<open>.replace(/[^a-z0-9-]+/g, '-')\<close>: every maximal run of code units outside
  \<^verbatim>\<open>[a-z0-9-]\<close> becomes one hyphen.
\<close>

function replace_invalid :: "code_unit list \<Rightarrow> code_unit list" where
  "replace_invalid [] = []"
| "replace_invalid (u # us) =
     (if tag_char u then u # replace_invalid us
      else 0x2D # replace_invalid (dropWhile (\<lambda>d. \<not> tag_char d) us))"
  by pat_completeness auto
termination
  by (relation "measure length") (auto simp: length_dropWhile_le less_Suc_eq_le)

text \<open>\<^verbatim>\<open>.replace(/-+$/, '')\<close> and \<^verbatim>\<open>.replace(/^-+|-+$/g, '')\<close>.\<close>

definition strip_trailing_hyphens :: "code_unit list \<Rightarrow> code_unit list" where
  "strip_trailing_hyphens s = rev (dropWhile is_hyphen (rev s))"

definition trim_hyphens :: "code_unit list \<Rightarrow> code_unit list" where
  "trim_hyphens s = strip_trailing_hyphens (dropWhile is_hyphen s)"








section \<open>Tag validation: properties\<close>



lemma length_replace_invalid: "length (replace_invalid s) \<le> length s"
proof (induction s rule: replace_invalid.induct)
  case 1
  show ?case by simp
next
  case (2 c cs)
  have "length (dropWhile (\<lambda>d. \<not> tag_char d) cs) \<le> length cs"
    by (rule length_dropWhile_le)
  with 2 show ?case by auto
qed

lemma strip_trailing_Nil: "strip_trailing_hyphens [] = []"
  by (simp add: strip_trailing_hyphens_def)

lemma strip_trailing_snoc:
  "strip_trailing_hyphens (xs @ [c]) = (if is_hyphen c then strip_trailing_hyphens xs else xs @ [c])"
  by (simp add: strip_trailing_hyphens_def)


lemma length_strip_trailing: "length (strip_trailing_hyphens s) \<le> length s"
  by (induction s rule: rev_induct) (simp_all add: strip_trailing_snoc strip_trailing_Nil)












lemma length_trim_hyphens: "length (trim_hyphens s) \<le> length s"
proof -
  have "length (trim_hyphens s) \<le> length (dropWhile is_hyphen s)"
    unfolding trim_hyphens_def by (rule length_strip_trailing)
  also have "\<dots> \<le> length s" by (rule length_dropWhile_le)
  finally show ?thesis .
qed







section \<open>Claim C4: what \<^verbatim>\<open>validateTag\<close> returns\<close>




section \<open>Test script generator: properties\<close>

text \<open>Deciding whether a line is an assertion, one character at a time.\<close>

lemma is_assertion_Nil: "\<not> is_assertion []"
  by (simp add: is_assertion_def startsWith_def)

lemma is_assertion_space: "is_assertion (CHR '' '' # s) = is_assertion s"
  by (simp add: is_assertion_def)

lemma is_assertion_other:
  "c \<noteq> CHR '' '' \<Longrightarrow> is_assertion (c # s) \<longleftrightarrow>
     startsWith (c # s) ''pm.expect('' \<or> startsWith (c # s) ''pm.response.to.''"
  by (simp add: is_assertion_def Let_def)

lemmas is_assertion_simps = is_assertion_Nil is_assertion_space is_assertion_other startsWith_def

lemma is_assertion_property: "is_assertion (property_assertion f)"
  by (simp add: property_assertion_def is_assertion_simps)

lemma filter_property_assertions:
  "filter is_assertion (map property_assertion fs) = map property_assertion fs"
  by (induction fs) (simp_all add: is_assertion_property)

lemma map_unless_empty: "(if xs \<noteq> [] then map f xs else []) = map f xs"
  by simp

text \<open>The assertions of the smoke script, and of the contract script, in order.\<close>

lemma smoke_assertions:
  "assertions (generateSmokeTestScript e) =
     (if successCodes e \<noteq> [] then [smoke_status_assertion e] else [])
     @ [latency_assertion, body_defined_assertion]"
  by (simp add: assertions_def generateSmokeTestScript_def is_assertion_simps
      smoke_status_assertion_def latency_assertion_def body_defined_assertion_def)

lemma contract_assertions:
  "assertions (generateContractTestScript p e) =
     (if successCodes e \<noteq> [] then [contract_status_assertion e] else [])
     @ [latency_assertion]
     @ (case successResponse e of
          None \<Rightarrow> []
        | Some r \<Rightarrow>
            (case content r of
               None \<Rightarrow> []
             | Some types \<Rightarrow>
                 if types \<noteq> []
                 then [header_assertion, include_assertion (before_semicolon (fst (hd types)))]
                 else []))
     @ (case schemaInfo p e of
          None \<Rightarrow> []
        | Some si \<Rightarrow>
            (case info_schema si of
               None \<Rightarrow> []
             | Some sch \<Rightarrow>
                 (if schema_type sch = Some ''object'' then [type_assertion ''object'']
                  else if schema_type sch = Some ''array'' then [type_assertion ''array'']
                  else [])
                 @ map property_assertion (getRequiredFields p sch)))
     @ (if errorCodes e \<noteq> [] then [error_shape_assertion] else [])"
  unfolding assertions_def generateContractTestScript_def filter_append Let_def
    option.case_distrib [of "filter is_assertion"] if_distrib [of "filter is_assertion"]
    filter_property_assertions
  by (simp add: is_assertion_simps
      contract_status_assertion_def latency_assertion_def header_assertion_def
      include_assertion_def type_assertion_def error_shape_assertion_def hd_map
      map_unless_empty cong: if_cong option.case_cong)

lemma body_defined_not_contract:
  "body_defined_assertion \<notin> set (assertions (generateContractTestScript p e))"
  by (auto simp: contract_assertions body_defined_assertion_def contract_status_assertion_def
      latency_assertion_def header_assertion_def include_assertion_def type_assertion_def
      property_assertion_def error_shape_assertion_def split: option.splits)

lemma contract_only_not_smoke:
  "header_assertion \<notin> set (assertions (generateSmokeTestScript e))"
  "include_assertion t \<notin> set (assertions (generateSmokeTestScript e))"
  "type_assertion t \<notin> set (assertions (generateSmokeTestScript e))"
  "property_assertion f \<notin> set (assertions (generateSmokeTestScript e))"
  "error_shape_assertion \<notin> set (assertions (generateSmokeTestScript e))"
  by (simp_all add: smoke_assertions body_defined_assertion_def smoke_status_assertion_def
      latency_assertion_def header_assertion_def include_assertion_def type_assertion_def
      property_assertion_def error_shape_assertion_def)

text \<open>
  Claim C5, as amended. For every endpoint the latency assertion is in both scripts,
  and when a 2xx code is declared a status assertion is in both: membership in the
  list of declared 2xx codes in the smoke script, equality with the first of them in
  the contract script. The smoke script asserts nothing else but that the parsed JSON
  body is defined. The assertions of the content-type, schema, required-field and
  error-shape tests are never in a smoke script. The body assertion of the smoke script
  is never in a contract script, so the contract assertions do not include the smoke
  assertions.
\<close>


theorem tiers_compared:
  "latency_assertion \<in> set (assertions (generateSmokeTestScript e)) \<and>
   latency_assertion \<in> set (assertions (generateContractTestScript p e)) \<and>
   (successCodes e \<noteq> [] \<longrightarrow>
      smoke_status_assertion e \<in> set (assertions (generateSmokeTestScript e)) \<and>
      contract_status_assertion e \<in> set (assertions (generateContractTestScript p e))) \<and>
   set (assertions (generateSmokeTestScript e))
     \<subseteq> {smoke_status_assertion e, latency_assertion, body_defined_assertion} \<and>
   header_assertion \<notin> set (assertions (generateSmokeTestScript e)) \<and>
   include_assertion t \<notin> set (assertions (generateSmokeTestScript e)) \<and>
   type_assertion t \<notin> set (assertions (generateSmokeTestScript e)) \<and>
   property_assertion f \<notin> set (assertions (generateSmokeTestScript e)) \<and>
   error_shape_assertion \<notin> set (assertions (generateSmokeTestScript e)) \<and>
   body_defined_assertion \<in> set (assertions (generateSmokeTestScript e)) \<and>
   body_defined_assertion \<notin> set (assertions (generateContractTestScript p e))"
proof -
  have "latency_assertion \<in> set (assertions (generateSmokeTestScript e))"
    and "body_defined_assertion \<in> set (assertions (generateSmokeTestScript e))"
    and "set (assertions (generateSmokeTestScript e))
           \<subseteq> {smoke_status_assertion e, latency_assertion, body_defined_assertion}"
    and "successCodes e \<noteq> [] \<longrightarrow>
           smoke_status_assertion e \<in> set (assertions (generateSmokeTestScript e))"
    by (auto simp: smoke_assertions)
  moreover have "latency_assertion \<in> set (assertions (generateContractTestScript p e))"
    and "successCodes e \<noteq> [] \<longrightarrow>
           contract_status_assertion e \<in> set (assertions (generateContractTestScript p e))"
    by (simp_all add: contract_assertions)
  ultimately show ?thesis
    using contract_only_not_smoke body_defined_not_contract by blast
qed

theorem tiers_compared_witness:
  "successCodes task_endpoint \<noteq> [] \<and>
   smoke_status_assertion task_endpoint = ''    pm.expect(pm.response.code).to.be.oneOf([200]);'' \<and>
   contract_status_assertion task_endpoint = ''    pm.response.to.have.status(200);'' \<and>
   smoke_status_assertion task_endpoint \<in> set (assertions (generateSmokeTestScript task_endpoint)) \<and>
   contract_status_assertion task_endpoint
     \<in> set (assertions (generateContractTestScript (first_media_parser []) task_endpoint)) \<and>
   body_defined_assertion \<notin> set (assertions (generateContractTestScript (first_media_parser []) task_endpoint))"
proof -
  have "successCodes task_endpoint = [''200'']"
    by (simp add: successCodes_def statusCodes_def task_endpoint_def startsWith_def)
  then show ?thesis
    using tiers_compared [where e = task_endpoint and p = "first_media_parser []"]
    by (simp add: smoke_status_assertion_def contract_status_assertion_def)
qed

text \<open>
  Claim C5 as stated fails on the endpoint of the scenarios: the smoke script has
  assertions, and lines, that the contract script lacks.
\<close>

theorem tiers_superset_counterexample:
  "\<not> set (assertions (generateSmokeTestScript task_endpoint))
       \<subseteq> set (assertions (generateContractTestScript (first_media_parser []) task_endpoint)) \<and>
   \<not> set (generateSmokeTestScript task_endpoint)
       \<subseteq> set (generateContractTestScript (first_media_parser []) task_endpoint)"
  by code_simp



lemma is_property_assertion_property: "is_property_assertion (property_assertion f)"
  by (simp add: is_property_assertion_def property_assertion_def startsWith_def)

lemma filter_is_property_assertion:
  "filter is_property_assertion (map property_assertion fs) = map property_assertion fs"
  by (induction fs) (simp_all add: is_property_assertion_property)

lemma contract_property_assertions:
  "filter is_property_assertion (generateContractTestScript p e) =
     (case schemaInfo p e of
        None \<Rightarrow> []
      | Some si \<Rightarrow>
          (case info_schema si of
             None \<Rightarrow> []
           | Some sch \<Rightarrow> map property_assertion (getRequiredFields p sch)))"
  unfolding generateContractTestScript_def filter_append Let_def
    option.case_distrib [of "filter is_property_assertion"]
    if_distrib [of "filter is_property_assertion"]
    filter_is_property_assertion
  by (simp add: is_property_assertion_def startsWith_def map_unless_empty
      cong: if_cong option.case_cong split: option.split)

lemma assertions_subset: "set (assertions script) \<subseteq> set script"
  by (auto simp: assertions_def)

text \<open>
  Claim C6. First the general part: the required-field assertions of a contract script
  are one for every name that \<^verbatim>\<open>getRequiredFields\<close> returns, in order and nothing else,
  for the schema of what \<^verbatim>\<open>getResponseSchema\<close> returns under the response key \<^verbatim>\<open>200\<close>,
  and under the key \<^verbatim>\<open>201\<close> when it returns nothing under \<^verbatim>\<open>200\<close>; each of them is the
  line \<^verbatim>\<open>pm.expect(dataToCheck).to.have.property('name');\<close>. Then the scenario: when
  \<^verbatim>\<open>200\<close> is the first declared 2xx code, the \<^verbatim>\<open>200\<close> response has \<^verbatim>\<open>application/json\<close> as
  its first media type and its schema is an object that requires \<^verbatim>\<open>id\<close> and \<^verbatim>\<open>title\<close>,
  the assertions of the script are: status equal to 200, latency, the Content-Type
  header is present, it includes \<^verbatim>\<open>application/json\<close>, the body is an object, it has the
  properties \<^verbatim>\<open>id\<close> and \<^verbatim>\<open>title\<close> (and the error shape when an error code is declared).
  The properties are looked up in the body, or in its first element when it is an
  array. The script has no \<^verbatim>\<open>oneOf\<close> status assertion.
\<close>

theorem contract_scenario:
  "filter is_property_assertion (generateContractTestScript p e) =
     (case getResponseSchema p (responses e) ''200'' of
        Some si \<Rightarrow>
          (case info_schema si of
             None \<Rightarrow> []
           | Some sch \<Rightarrow> map property_assertion (getRequiredFields p sch))
      | None \<Rightarrow>
          (case getResponseSchema p (responses e) ''201'' of
             None \<Rightarrow> []
           | Some si \<Rightarrow>
               (case info_schema si of
                  None \<Rightarrow> []
                | Some sch \<Rightarrow> map property_assertion (getRequiredFields p sch)))) \<and>
   property_assertion field =
     ''    pm.expect(dataToCheck).to.have.property('' @ [CHR 0x27] @ field @ [CHR 0x27] @ '');'' \<and>
   (hd (successCodes e) = ''200'' \<and> successCodes e \<noteq> [] \<and>
    map_of (responses e) ''200'' = Some r \<and>
    content r = Some ((''application/json'', m) # types) \<and>
    getResponseSchema p (responses e) ''200'' = Some si \<and>
    info_schema si = Some sch \<and>
    schema_type sch = Some ''object'' \<and>
    getRequiredFields p sch = [''id'', ''title'']
    \<longrightarrow>
    assertions (generateContractTestScript p e) =
      [''    pm.response.to.have.status(200);'',
       latency_assertion,
       header_assertion,
       include_assertion ''application/json'',
       type_assertion ''object'',
       property_assertion ''id'',
       property_assertion ''title'']
      @ (if errorCodes e \<noteq> [] then [error_shape_assertion] else []) \<and>
    set (assertions (generateContractTestScript p e)) \<subseteq> set (generateContractTestScript p e) \<and>
    ''pm.test(\"Status code is 200\", function () {'' \<in> set (generateContractTestScript p e) \<and>
    ''    const dataToCheck = Array.isArray(jsonData) ? (jsonData[0] || {}) : jsonData;''
      \<in> set (generateContractTestScript p e) \<and>
    smoke_status_assertion e \<notin> set (generateContractTestScript p e))"
proof (intro conjI impI)
  show "filter is_property_assertion (generateContractTestScript p e) =
     (case getResponseSchema p (responses e) ''200'' of
        Some si \<Rightarrow>
          (case info_schema si of
             None \<Rightarrow> []
           | Some sch \<Rightarrow> map property_assertion (getRequiredFields p sch))
      | None \<Rightarrow>
          (case getResponseSchema p (responses e) ''201'' of
             None \<Rightarrow> []
           | Some si \<Rightarrow>
               (case info_schema si of
                  None \<Rightarrow> []
                | Some sch \<Rightarrow> map property_assertion (getRequiredFields p sch))))"
    unfolding contract_property_assertions schemaInfo_def
    by (simp split: option.splits)
  show "property_assertion field =
     ''    pm.expect(dataToCheck).to.have.property('' @ [CHR 0x27] @ field @ [CHR 0x27] @ '');''"
    by (simp add: property_assertion_def)
next
  assume h: "hd (successCodes e) = ''200'' \<and> successCodes e \<noteq> [] \<and>
    map_of (responses e) ''200'' = Some r \<and>
    content r = Some ((''application/json'', m) # types) \<and>
    getResponseSchema p (responses e) ''200'' = Some si \<and>
    info_schema si = Some sch \<and>
    schema_type sch = Some ''object'' \<and>
    getRequiredFields p sch = [''id'', ''title'']"
  then have sr: "successResponse e = Some r" and si: "schemaInfo p e = Some si"
    by (simp_all add: successResponse_def schemaInfo_def)
  show a: "assertions (generateContractTestScript p e) =
      [''    pm.response.to.have.status(200);'',
       latency_assertion,
       header_assertion,
       include_assertion ''application/json'',
       type_assertion ''object'',
       property_assertion ''id'',
       property_assertion ''title'']
      @ (if errorCodes e \<noteq> [] then [error_shape_assertion] else [])"
    using h by (simp add: contract_assertions sr si contract_status_assertion_def before_semicolon_def)
  show "set (assertions (generateContractTestScript p e)) \<subseteq> set (generateContractTestScript p e)"
    by (rule assertions_subset)
  show "''pm.test(\"Status code is 200\", function () {'' \<in> set (generateContractTestScript p e)"
    using h by (simp add: generateContractTestScript_def)
  show "''    const dataToCheck = Array.isArray(jsonData) ? (jsonData[0] || {}) : jsonData;''
      \<in> set (generateContractTestScript p e)"
    using h by (simp add: generateContractTestScript_def si)
  have "is_assertion (smoke_status_assertion e)"
    by (simp add: smoke_status_assertion_def is_assertion_simps)
  moreover have "smoke_status_assertion e \<notin> set (assertions (generateContractTestScript p e))"
    unfolding a
    by (simp add: smoke_status_assertion_def latency_assertion_def header_assertion_def
        include_assertion_def type_assertion_def property_assertion_def error_shape_assertion_def)
  ultimately show "smoke_status_assertion e \<notin> set (generateContractTestScript p e)"
    by (simp add: assertions_def)
qed

theorem contract_scenario_witness:
  "hd (successCodes task_endpoint) = ''200'' \<and> successCodes task_endpoint \<noteq> [] \<and>
   map_of (responses task_endpoint) ''200'' =
     Some \<lparr>content = Some [(''application/json'',
             \<lparr>media_schema = Some (Schema (Some ''object'') [''id'', ''title''] [])\<rparr>)]\<rparr> \<and>
   getResponseSchema (first_media_parser []) (responses task_endpoint) ''200'' =
     Some \<lparr>info_schema = Some (Schema (Some ''object'') [''id'', ''title''] [])\<rparr> \<and>
   getRequiredFields (first_media_parser []) (Schema (Some ''object'') [''id'', ''title''] []) =
     [''id'', ''title''] \<and>
   assertions (generateContractTestScript (first_media_parser []) task_endpoint) =
     [''    pm.response.to.have.status(200);'',
      ''    pm.expect(pm.response.responseTime).to.be.below(threshold);'',
      ''    pm.response.to.have.header(\"Content-Type\");'',
      ''    pm.expect(contentType).to.include(\"application/json\");'',
      ''    pm.expect(jsonData).to.be.an('object');'',
      ''    pm.expect(dataToCheck).to.have.property('id');'',
      ''    pm.expect(dataToCheck).to.have.property('title');'',
      ''        pm.expect(hasErrorField).to.be.true;''] \<and>
   ''pm.test(\"Status code is 200\", function () {''
     \<in> set (generateContractTestScript (first_media_parser []) task_endpoint) \<and>
   getResponseSchema (first_media_parser []) (responses created_endpoint) ''200'' = None \<and>
   getResponseSchema (first_media_parser []) (responses created_endpoint) ''201'' =
     Some \<lparr>info_schema = Some (Schema (Some ''object'') [''id''] [])\<rparr> \<and>
   filter is_property_assertion (generateContractTestScript (first_media_parser []) created_endpoint) =
     [''    pm.expect(dataToCheck).to.have.property('id');''] \<and>
   getResponseSchema (first_media_parser []) (responses replaced_endpoint) ''200'' = None \<and>
   getResponseSchema (first_media_parser []) (responses replaced_endpoint) ''201'' =
     Some \<lparr>info_schema = Some (Schema (Some ''object'') [''id'', ''status''] [])\<rparr> \<and>
   filter is_property_assertion (generateContractTestScript (first_media_parser []) replaced_endpoint) =
     [''    pm.expect(dataToCheck).to.have.property('id');'',
      ''    pm.expect(dataToCheck).to.have.property('status');''] \<and>
   getResponseSchema (first_media_parser []) (responses unnamed_endpoint) ''200'' = None \<and>
   getResponseSchema (first_media_parser []) (responses unnamed_endpoint) ''201'' = None \<and>
   filter is_property_assertion (generateContractTestScript (first_media_parser []) unnamed_endpoint) = []"
proof -
  have codes: "successCodes task_endpoint = [''200'']" "errorCodes task_endpoint = [''404'']"
    by (simp_all add: successCodes_def errorCodes_def statusCodes_def task_endpoint_def startsWith_def)
  have rs: "responses task_endpoint =
     [(''200'', \<lparr>content = Some [(''application/json'',
                     \<lparr>media_schema = Some (Schema (Some ''object'') [''id'', ''title''] [])\<rparr>)]\<rparr>),
      (''404'', \<lparr>content = None\<rparr>)]"
    by (simp add: task_endpoint_def)
  have scenario: "hd (successCodes task_endpoint) = ''200'' \<and> successCodes task_endpoint \<noteq> [] \<and>
   map_of (responses task_endpoint) ''200'' =
     Some \<lparr>content = Some [(''application/json'',
             \<lparr>media_schema = Some (Schema (Some ''object'') [''id'', ''title''] [])\<rparr>)]\<rparr> \<and>
   getResponseSchema (first_media_parser []) (responses task_endpoint) ''200'' =
     Some \<lparr>info_schema = Some (Schema (Some ''object'') [''id'', ''title''] [])\<rparr> \<and>
   getRequiredFields (first_media_parser []) (Schema (Some ''object'') [''id'', ''title''] []) =
     [''id'', ''title''] \<and>
   assertions (generateContractTestScript (first_media_parser []) task_endpoint) =
     [''    pm.response.to.have.status(200);'',
      ''    pm.expect(pm.response.responseTime).to.be.below(threshold);'',
      ''    pm.response.to.have.header(\"Content-Type\");'',
      ''    pm.expect(contentType).to.include(\"application/json\");'',
      ''    pm.expect(jsonData).to.be.an('object');'',
      ''    pm.expect(dataToCheck).to.have.property('id');'',
      ''    pm.expect(dataToCheck).to.have.property('title');'',
      ''        pm.expect(hasErrorField).to.be.true;''] \<and>
   ''pm.test(\"Status code is 200\", function () {''
     \<in> set (generateContractTestScript (first_media_parser []) task_endpoint)"
    using contract_scenario [where e = task_endpoint and p = "first_media_parser []"
        and r = "\<lparr>content = Some [(''application/json'',
             \<lparr>media_schema = Some (Schema (Some ''object'') [''id'', ''title''] [])\<rparr>)]\<rparr>"
        and m = "\<lparr>media_schema = Some (Schema (Some ''object'') [''id'', ''title''] [])\<rparr>"
        and types = "[]"
        and si = "\<lparr>info_schema = Some (Schema (Some ''object'') [''id'', ''title''] [])\<rparr>"
        and sch = "Schema (Some ''object'') [''id'', ''title''] []"]
    by (simp add: codes rs first_media_parser_def latency_assertion_def header_assertion_def
        include_assertion_def type_assertion_def property_assertion_def error_shape_assertion_def)
  have created:
    "getResponseSchema (first_media_parser []) (responses created_endpoint) ''200'' = None"
    "getResponseSchema (first_media_parser []) (responses created_endpoint) ''201'' =
       Some \<lparr>info_schema = Some (Schema (Some ''object'') [''id''] [])\<rparr>"
    by (simp_all add: first_media_parser_def created_endpoint_def)
  have replaced:
    "getResponseSchema (first_media_parser []) (responses replaced_endpoint) ''200'' = None"
    "getResponseSchema (first_media_parser []) (responses replaced_endpoint) ''201'' =
       Some \<lparr>info_schema = Some (Schema (Some ''object'') [''id'', ''status''] [])\<rparr>"
    by (simp_all add: first_media_parser_def replaced_endpoint_def)
  have unnamed:
    "getResponseSchema (first_media_parser []) (responses unnamed_endpoint) ''200'' = None"
    "getResponseSchema (first_media_parser []) (responses unnamed_endpoint) ''201'' = None"
    by (simp_all add: first_media_parser_def unnamed_endpoint_def)
  have fields: "getRequiredFields (first_media_parser []) sch = schema_required sch" for sch
    by (simp add: first_media_parser_def)
  have c: "filter is_property_assertion (generateContractTestScript (first_media_parser []) created_endpoint) =
     [''    pm.expect(dataToCheck).to.have.property('id');'']"
    using contract_scenario [where e = created_endpoint and p = "first_media_parser []", THEN conjunct1]
    by (simp add: created fields property_assertion_def)
  have r: "filter is_property_assertion (generateContractTestScript (first_media_parser []) replaced_endpoint) =
     [''    pm.expect(dataToCheck).to.have.property('id');'',
      ''    pm.expect(dataToCheck).to.have.property('status');'']"
    using contract_scenario [where e = replaced_endpoint and p = "first_media_parser []", THEN conjunct1]
    by (simp add: replaced fields property_assertion_def)
  have u: "filter is_property_assertion (generateContractTestScript (first_media_parser []) unnamed_endpoint) = []"
    using contract_scenario [where e = unnamed_endpoint and p = "first_media_parser []", THEN conjunct1]
    by (simp add: unnamed)
  show ?thesis
    using scenario created replaced unnamed c r u by simp
qed

section \<open>Claim C10: the keys of the generated map\<close>

text \<open>The value of a key after the loop is the one the last endpoint of that name assigned.\<close>

lemma own_assign:
  "own_scripts (assign obj k' v) k =
     (if k' = ''__proto__'' then own_scripts obj k else ((own_scripts obj)(k' \<mapsto> v)) k)"
  by (simp add: assign_def)

lemma prototype_assign:
  "array_prototype (assign obj k' v) =
     (if k' = ''__proto__'' then Some v else array_prototype obj)"
  by (simp add: assign_def)

lemma fold_assign_own:
  assumes "k \<noteq> ''__proto__''"
  shows "own_scripts (fold (\<lambda>e obj. assign obj (f e) (g e)) es obj0) k =
     (case find (\<lambda>e. f e = k) (rev es) of None \<Rightarrow> own_scripts obj0 k | Some e \<Rightarrow> Some (g e))"
  using assms by (induction es rule: rev_induct) (auto simp: assign_def)

lemma fold_assign_proto_key:
  "own_scripts (fold (\<lambda>e obj. assign obj (f e) (g e)) es obj0) ''__proto__'' =
     own_scripts obj0 ''__proto__''"
  by (induction es rule: rev_induct) (auto simp: assign_def)

lemma fold_assign_prototype:
  "array_prototype (fold (\<lambda>e obj. assign obj (f e) (g e)) es obj0) =
     (case find (\<lambda>e. f e = ''__proto__'') (rev es) of
        None \<Rightarrow> array_prototype obj0 | Some e \<Rightarrow> Some (g e))"
  by (induction es rule: rev_induct) (auto simp: assign_def)

lemma find_last:
  assumes "\<forall>e'\<in>set later. f e' \<noteq> k" and "f e = k"
  shows "find (\<lambda>e. f e = k) (rev (earlier @ [e] @ later)) = Some e"
  using assms by (induction later rule: rev_induct) auto

text \<open>
  Claim C10. Under the key \<^verbatim>\<open>default\<close> the object holds the default template of the
  level, whatever the endpoints are called: the script of an endpoint whose name is
  \<^verbatim>\<open>default\<close> is overwritten. The display name of an endpoint is its \<^verbatim>\<open>name\<close>, and its
  method and path when the name is absent or empty. Under every other key, the name
  \<^verbatim>\<open>__proto__\<close> apart, the object holds the script of the last endpoint with that
  display name, if there is one, and nothing otherwise: of two endpoints of the same
  display name the later one overwrites the earlier one. An endpoint called
  \<^verbatim>\<open>__proto__\<close> makes no key: the script of the last one becomes the prototype. The
  script of an endpoint is its smoke script at the level \<^verbatim>\<open>smoke\<close> and its contract
  script at every other level.
\<close>

theorem generateTestScriptsForSpec_default_last:
  "own_scripts (generateTestScriptsForSpec p api level) ''default'' =
     Some (if level = ''smoke'' then generateDefaultSmokeTestScript
           else generateDefaultContractTestScript) \<and>
   (ep_name e = Some n \<and> n \<noteq> [] \<longrightarrow> testName e = n) \<and>
   (ep_name e = None \<or> ep_name e = Some [] \<longrightarrow> testName e = ep_method e @ '' '' @ ep_path e) \<and>
   (k \<noteq> ''default'' \<and> k \<noteq> ''__proto__'' \<longrightarrow>
      own_scripts (generateTestScriptsForSpec p api level) k =
        map_option (\<lambda>e. generateTestScript p e level)
          (find (\<lambda>e. testName e = k) (rev (extractEndpoints p api)))) \<and>
   (k \<noteq> ''default'' \<and> k \<noteq> ''__proto__'' \<and>
    extractEndpoints p api = earlier @ [e] @ later \<and> testName e = k \<and>
    (\<forall>e'\<in>set later. testName e' \<noteq> k) \<longrightarrow>
      own_scripts (generateTestScriptsForSpec p api level) k = Some (generateTestScript p e level)) \<and>
   own_scripts (generateTestScriptsForSpec p api level) ''__proto__'' = None \<and>
   array_prototype (generateTestScriptsForSpec p api level) =
     map_option (\<lambda>e. generateTestScript p e level)
       (find (\<lambda>e. testName e = ''__proto__'') (rev (extractEndpoints p api))) \<and>
   generateTestScript p e level =
     (if level = ''smoke'' then generateSmokeTestScript e else generateContractTestScript p e)"
proof (intro conjI impI)
  show "generateTestScript p e level =
     (if level = ''smoke'' then generateSmokeTestScript e else generateContractTestScript p e)"
    by (simp add: generateTestScript_def SMOKE_def)
  show "own_scripts (generateTestScriptsForSpec p api level) ''default'' =
     Some (if level = ''smoke'' then generateDefaultSmokeTestScript
           else generateDefaultContractTestScript)"
    by (simp add: generateTestScriptsForSpec_def Let_def own_assign SMOKE_def)
  show "testName e = n" if "ep_name e = Some n \<and> n \<noteq> []"
    using that by (simp add: testName_def)
  show "testName e = ep_method e @ '' '' @ ep_path e" if "ep_name e = None \<or> ep_name e = Some []"
    using that by (auto simp: testName_def)
  show own: "own_scripts (generateTestScriptsForSpec p api level) k =
        map_option (\<lambda>e. generateTestScript p e level)
          (find (\<lambda>e. testName e = k) (rev (extractEndpoints p api)))"
    if "k \<noteq> ''default'' \<and> k \<noteq> ''__proto__''" for k
    using that
    by (simp add: generateTestScriptsForSpec_def Let_def own_assign fold_assign_own empty_object_def
        split: option.split)
  show "own_scripts (generateTestScriptsForSpec p api level) k = Some (generateTestScript p e level)"
    if "k \<noteq> ''default'' \<and> k \<noteq> ''__proto__'' \<and>
        extractEndpoints p api = earlier @ [e] @ later \<and> testName e = k \<and>
        (\<forall>e'\<in>set later. testName e' \<noteq> k)"
  proof -
    from that have "find (\<lambda>e. testName e = k) (rev (extractEndpoints p api)) = Some e"
      using find_last [where f = testName and k = k and later = later and e = e and earlier = earlier]
      by simp
    with that show ?thesis by (simp add: own)
  qed
  show "own_scripts (generateTestScriptsForSpec p api level) ''__proto__'' = None"
    by (simp add: generateTestScriptsForSpec_def Let_def own_assign fold_assign_proto_key
        empty_object_def)
  show "array_prototype (generateTestScriptsForSpec p api level) =
     map_option (\<lambda>e. generateTestScript p e level)
       (find (\<lambda>e. testName e = ''__proto__'') (rev (extractEndpoints p api)))"
    by (simp add: generateTestScriptsForSpec_def Let_def prototype_assign fold_assign_prototype
        empty_object_def split: option.split)
qed

theorem generateTestScriptsForSpec_default_last_witness:
  "extractEndpoints sample_parser empty_api =
     [default_endpoint, task_endpoint, second_task_endpoint, created_endpoint, unnamed_endpoint] \<and>
   ep_name default_endpoint = Some ''default'' \<and>
   ep_name task_endpoint = Some ''Get a specific task'' \<and>
   ep_name second_task_endpoint = Some ''Get a specific task'' \<and>
   ep_name created_endpoint = None \<and>
   ep_name unnamed_endpoint = Some [] \<and>
   testName default_endpoint = ''default'' \<and>
   testName second_task_endpoint = ''Get a specific task'' \<and>
   testName created_endpoint = ''POST /tasks'' \<and>
   testName unnamed_endpoint = ''DELETE /tasks/{taskId}'' \<and>
   own_scripts (generateTestScriptsForSpec sample_parser empty_api ''smoke'') ''default'' =
     Some generateDefaultSmokeTestScript \<and>
   generateTestScript sample_parser default_endpoint ''smoke'' \<noteq> generateDefaultSmokeTestScript \<and>
   own_scripts (generateTestScriptsForSpec sample_parser empty_api ''contract'') ''default'' =
     Some generateDefaultContractTestScript \<and>
   own_scripts (generateTestScriptsForSpec sample_parser empty_api ''smoke'') ''Get a specific task'' =
     Some (generateSmokeTestScript second_task_endpoint) \<and>
   hd (generateSmokeTestScript second_task_endpoint) = ''// Smoke tests for: GET /v2/tasks/{taskId}'' \<and>
   hd (generateSmokeTestScript task_endpoint) = ''// Smoke tests for: GET /tasks/{taskId}'' \<and>
   own_scripts (generateTestScriptsForSpec sample_parser empty_api ''smoke'') ''POST /tasks'' =
     Some (generateSmokeTestScript created_endpoint) \<and>
   own_scripts (generateTestScriptsForSpec sample_parser empty_api ''smoke'') ''DELETE /tasks/{taskId}'' =
     Some (generateSmokeTestScript unnamed_endpoint) \<and>
   own_scripts (generateTestScriptsForSpec sample_parser empty_api ''smoke'') ''GET /tasks/{taskId}'' = None \<and>
   array_prototype (generateTestScriptsForSpec sample_parser empty_api ''smoke'') = None \<and>
   own_scripts (generateTestScriptsForSpec sample_parser empty_api ''contract'') ''POST /tasks'' =
     Some (generateContractTestScript sample_parser created_endpoint) \<and>
   hd (generateContractTestScript sample_parser created_endpoint) = ''// Contract tests for: POST /tasks'' \<and>
   testName proto_endpoint = ''__proto__'' \<and>
   own_scripts (generateTestScriptsForSpec (first_media_parser [proto_endpoint]) empty_api ''smoke'')
     ''__proto__'' = None \<and>
   array_prototype (generateTestScriptsForSpec (first_media_parser [proto_endpoint]) empty_api ''smoke'')
     = Some (generateSmokeTestScript proto_endpoint)"
proof -
  let ?r = "generateTestScriptsForSpec sample_parser empty_api ''smoke''"
  have eps: "extractEndpoints sample_parser empty_api =
     [default_endpoint, task_endpoint, second_task_endpoint, created_endpoint, unnamed_endpoint]"
    by (simp add: sample_parser_def first_media_parser_def sample_endpoints_def)
  have names:
    "ep_name default_endpoint = Some ''default''"
    "ep_name task_endpoint = Some ''Get a specific task''"
    "ep_name second_task_endpoint = Some ''Get a specific task''"
    "ep_name created_endpoint = None"
    "ep_name unnamed_endpoint = Some []"
    by (simp_all add: default_endpoint_def task_endpoint_def second_task_endpoint_def
        created_endpoint_def unnamed_endpoint_def)
  have paths:
    "ep_method created_endpoint @ '' '' @ ep_path created_endpoint = ''POST /tasks''"
    "ep_method unnamed_endpoint @ '' '' @ ep_path unnamed_endpoint = ''DELETE /tasks/{taskId}''"
    by (simp_all add: created_endpoint_def unnamed_endpoint_def)
  note t = generateTestScriptsForSpec_default_last [where p = sample_parser and api = empty_api]
  have n1: "testName default_endpoint = ''default''"
    using t [where e = default_endpoint and n = "''default''", THEN conjunct2, THEN conjunct1]
    by (simp add: names)
  have n2: "testName task_endpoint = ''Get a specific task''"
    using t [where e = task_endpoint and n = "''Get a specific task''", THEN conjunct2, THEN conjunct1]
    by (simp add: names)
  have n3: "testName second_task_endpoint = ''Get a specific task''"
    using t [where e = second_task_endpoint and n = "''Get a specific task''",
        THEN conjunct2, THEN conjunct1]
    by (simp add: names)
  have n4: "testName created_endpoint = ''POST /tasks''"
    using t [where e = created_endpoint, THEN conjunct2, THEN conjunct2, THEN conjunct1] paths
    by (simp add: names)
  have n5: "testName unnamed_endpoint = ''DELETE /tasks/{taskId}''"
    using t [where e = unnamed_endpoint, THEN conjunct2, THEN conjunct2, THEN conjunct1] paths
    by (simp add: names)
  have d1: "own_scripts ?r ''default'' = Some generateDefaultSmokeTestScript"
    using t [where level = "''smoke''", THEN conjunct1] by simp
  have d2: "own_scripts (generateTestScriptsForSpec sample_parser empty_api ''contract'') ''default'' =
     Some generateDefaultContractTestScript"
    using t [where level = "''contract''", THEN conjunct1] by simp
  have g: "generateTestScript sample_parser e ''smoke'' = generateSmokeTestScript e" for e
    using generateTestScriptsForSpec_default_last [where p = sample_parser and e = e
        and level = "''smoke''", THEN conjunct2, THEN conjunct2, THEN conjunct2, THEN conjunct2,
        THEN conjunct2, THEN conjunct2, THEN conjunct2]
    by simp
  have gc: "generateTestScript sample_parser e ''contract'' = generateContractTestScript sample_parser e" for e
    using generateTestScriptsForSpec_default_last [where p = sample_parser and e = e
        and level = "''contract''", THEN conjunct2, THEN conjunct2, THEN conjunct2, THEN conjunct2,
        THEN conjunct2, THEN conjunct2, THEN conjunct2]
    by simp
  have kc: "own_scripts (generateTestScriptsForSpec sample_parser empty_api ''contract'') ''POST /tasks'' =
      Some (generateContractTestScript sample_parser created_endpoint)"
    using t [where level = "''contract''" and k = "''POST /tasks''",
        THEN conjunct2, THEN conjunct2, THEN conjunct2, THEN conjunct1]
    by (simp add: eps n1 n2 n3 n4 n5 gc)
  have hc: "hd (generateContractTestScript sample_parser created_endpoint) = ''// Contract tests for: POST /tasks''"
    by (simp add: generateContractTestScript_def created_endpoint_def)
  have k1: "own_scripts ?r ''Get a specific task'' = Some (generateSmokeTestScript second_task_endpoint)"
    using t [where level = "''smoke''" and k = "''Get a specific task''" and e = second_task_endpoint
        and earlier = "[default_endpoint, task_endpoint]" and later = "[created_endpoint, unnamed_endpoint]",
        THEN conjunct2, THEN conjunct2, THEN conjunct2, THEN conjunct2, THEN conjunct1]
    by (simp add: eps n3 n4 n5 g)
  have k2: "own_scripts ?r ''POST /tasks'' = Some (generateSmokeTestScript created_endpoint)"
    using t [where level = "''smoke''" and k = "''POST /tasks''",
        THEN conjunct2, THEN conjunct2, THEN conjunct2, THEN conjunct1]
    by (simp add: eps n1 n2 n3 n4 n5 g)
  have k3: "own_scripts ?r ''DELETE /tasks/{taskId}'' = Some (generateSmokeTestScript unnamed_endpoint)"
    using t [where level = "''smoke''" and k = "''DELETE /tasks/{taskId}''",
        THEN conjunct2, THEN conjunct2, THEN conjunct2, THEN conjunct1]
    by (simp add: eps n1 n2 n3 n4 n5 g)
  have k4: "own_scripts ?r ''GET /tasks/{taskId}'' = None"
    using t [where level = "''smoke''" and k = "''GET /tasks/{taskId}''",
        THEN conjunct2, THEN conjunct2, THEN conjunct2, THEN conjunct1]
    by (simp add: eps n1 n2 n3 n4 n5)
  have pr: "array_prototype ?r = None"
    using t [where level = "''smoke''", THEN conjunct2, THEN conjunct2, THEN conjunct2,
        THEN conjunct2, THEN conjunct2, THEN conjunct2, THEN conjunct1]
    by (simp add: eps n1 n2 n3 n4 n5)
  have h: "hd (generateSmokeTestScript second_task_endpoint) = ''// Smoke tests for: GET /v2/tasks/{taskId}''"
    "hd (generateSmokeTestScript task_endpoint) = ''// Smoke tests for: GET /tasks/{taskId}''"
    "hd (generateSmokeTestScript default_endpoint) = ''// Smoke tests for: GET /default''"
    "hd generateDefaultSmokeTestScript = ''// Default smoke tests''"
    by (simp_all add: generateSmokeTestScript_def second_task_endpoint_def task_endpoint_def
        default_endpoint_def generateDefaultSmokeTestScript_def)
  have ne: "generateTestScript sample_parser default_endpoint ''smoke'' \<noteq> generateDefaultSmokeTestScript"
    unfolding g using h(3,4) by auto
  let ?q = "first_media_parser [proto_endpoint]"
  have n6: "testName proto_endpoint = ''__proto__''"
    using generateTestScriptsForSpec_default_last [where e = proto_endpoint and n = "''__proto__''",
        THEN conjunct2, THEN conjunct1]
    by (simp add: proto_endpoint_def)
  have q: "extractEndpoints ?q empty_api = [proto_endpoint]"
    by (simp add: first_media_parser_def)
  have gq: "generateTestScript ?q e ''smoke'' = generateSmokeTestScript e" for e
    by (simp add: generateTestScript_def SMOKE_def)
  have p1: "own_scripts (generateTestScriptsForSpec ?q empty_api ''smoke'') ''__proto__'' = None"
    using generateTestScriptsForSpec_default_last [where p = ?q and api = empty_api
        and level = "''smoke''", THEN conjunct2, THEN conjunct2, THEN conjunct2, THEN conjunct2,
        THEN conjunct2, THEN conjunct1]
    by simp
  have p2: "array_prototype (generateTestScriptsForSpec ?q empty_api ''smoke'')
              = Some (generateSmokeTestScript proto_endpoint)"
    using generateTestScriptsForSpec_default_last [where p = ?q and api = empty_api
        and level = "''smoke''", THEN conjunct2, THEN conjunct2, THEN conjunct2, THEN conjunct2,
        THEN conjunct2, THEN conjunct2, THEN conjunct1]
    by (simp add: q n6 gq)
  show ?thesis
    using eps names n1 n3 n4 n5 d1 d2 ne k1 k2 k3 k4 pr h(1,2) n6 p1 p2 kc hc by simp
qed

section \<open>Environment document: properties\<close>

text \<open>
  With no \<^verbatim>\<open>servers\<close> property, or with a non-empty list of servers, the document has
  the three variables: the base URL is the placeholder, or the URL of the first server.
\<close>

lemma generateEnvironment_declared:
  "api_servers api \<noteq> Some [] \<Longrightarrow>
   \<exists>n. generateEnvironment api =
     Inr \<lparr>env_name = n,
          env_values =
            [\<lparr>var_key = ''baseUrl'',
              var_value = (case api_servers api of
                             None \<Rightarrow> ''https://api.example.com''
                           | Some ss \<Rightarrow> server_url (hd ss)),
              var_type = ''default'', var_enabled = True\<rparr>,
             \<lparr>var_key = ''RESPONSE_TIME_THRESHOLD'', var_value = ''2000'',
              var_type = ''default'', var_enabled = True\<rparr>,
             \<lparr>var_key = ''auth_token'', var_value = '''',
              var_type = ''secret'', var_enabled = True\<rparr>],
          postman_variable_scope = ''environment''\<rparr>"
  by (auto simp: generateEnvironment_def Let_def split: option.splits list.splits)

text \<open>
  Claim C9 fails on a document whose list of servers is empty: the default is not
  taken, and reading the first server's URL throws.
\<close>

theorem generateEnvironment_empty_servers:
  "generateEnvironment \<lparr>api_info = Some \<lparr>title = Some ''Task API'', version = Some ''1.0.0''\<rparr>,
                        api_servers = Some []\<rparr>
   = Inl (TypeError ''Cannot read properties of undefined (reading 'url')'')"
  by (simp add: generateEnvironment_def)

section \<open>Tree injector: properties\<close>

text \<open>Objects that are allocated are not touched by later allocations.\<close>


lemma is_test_append: "a < length h \<Longrightarrow> is_test (h @ ext) a = is_test h a"
  by (simp add: is_test_def nth_append)

lemma filter_is_test_append:
  "list_all (\<lambda>a. a < length h) es \<Longrightarrow> filter (is_test (h @ ext)) es = filter (is_test h) es"
  by (induction es) (simp_all add: is_test_append)

lemma filter_not_test_append:
  "list_all (\<lambda>a. a < length h) es \<Longrightarrow>
   filter (\<lambda>a. \<not> is_test (h @ ext) a) es = filter (\<lambda>a. \<not> is_test h a) es"
  by (induction es) (simp_all add: is_test_append)

lemma list_all_allocated_append:
  "list_all (\<lambda>a. a < length h) es \<Longrightarrow> list_all (\<lambda>a. a < length h + length ext) es"
  by (induction es) simp_all

lemma allocated_append:
  "allocated h n \<Longrightarrow> allocated (h @ ext) n"
  "allocated_list h ns \<Longrightarrow> allocated_list (h @ ext) ns"
  by (induction h n and h ns rule: allocated_allocated_list.induct)
    (auto split: option.splits intro: list_all_allocated_append)


lemma allocated_leaves:
  "allocated h n \<Longrightarrow> leaves_allocated h (leaves n)"
  "allocated_list h ns \<Longrightarrow> leaves_allocated h (leaves_list ns)"
  by (induction h n and h ns rule: allocated_allocated_list.induct)
    (auto simp: leaves_allocated_def split: option.splits)

lemma leaf_injected_later:
  assumes "list_all2 (leaf_injected h h1) olds news" and "leaves_allocated h1 news"
  shows "list_all2 (leaf_injected h (h1 @ ext)) olds news"
  using assms
  by (induction olds news rule: list_all2_induct)
    (auto simp: leaf_injected_def leaves_allocated_def filter_is_test_append filter_not_test_append)

lemma leaf_injected_earlier:
  assumes "list_all2 (leaf_injected (h @ ext) h2) olds news" and "leaves_allocated h olds"
  shows "list_all2 (leaf_injected h h2) olds news"
  using assms
  by (induction olds news rule: list_all2_induct)
    (auto simp: leaf_injected_def leaves_allocated_def filter_not_test_append)


lemma scripted_cases:
  assumes "scripted testScripts nm"
  obtains obj where "truthy (script_for testScripts nm)"
    and "test_event (script_for testScripts nm) = Inr obj" and "listen obj = ''test''"
  using assms
  by (cases "script_for testScripts nm") (auto simp: scripted_def test_event_def)

lemma is_test_new: "listen obj = ''test'' \<Longrightarrow> is_test (h @ [obj]) (length h)"
  by (simp add: is_test_def)

lemma own_leaf_injected:
  assumes "list_all (\<lambda>a. a < length h) es" and obj: "listen obj = ''test''"
  shows "leaf_injected h (h @ [obj]) (nm, es)
           (nm, filter (\<lambda>e. \<not> is_test h e) es @ [length h])"
proof -
  have kept: "list_all (\<lambda>a. a < length h) (filter (\<lambda>e. \<not> is_test h e) es)"
    using assms by (induction es) auto
  have "filter (\<lambda>a. \<not> is_test (h @ [obj]) a) (filter (\<lambda>e. \<not> is_test h e) es)
          = filter (\<lambda>e. \<not> is_test h e) es"
    unfolding filter_not_test_append [OF kept] by simp
  moreover have "filter (is_test (h @ [obj])) (filter (\<lambda>e. \<not> is_test h e) es) = []"
    unfolding filter_is_test_append [OF kept] by (induction es) simp_all
  ultimately show ?thesis
    by (simp add: leaf_injected_def is_test_new [OF obj])
qed

lemma injected_list:
  assumes "\<forall>n\<in>set ns. \<forall>h. injected testScripts h n" and "allocated_list h ns"
    and "list_all (\<lambda>l. scripted testScripts (fst l)) (leaves_list ns)"
  shows "case addTestsToItems testScripts h ns of
          (thrown, h', ns') \<Rightarrow>
            thrown = None \<and>
            (\<exists>ext. h' = h @ ext) \<and> allocated_list h' ns' \<and>
            without_events_list ns' = without_events_list ns \<and>
            list_all2 (leaf_injected h h') (leaves_list ns) (leaves_list ns')"
  using assms
proof (induction ns arbitrary: h)
  case Nil
  then show ?case by simp
next
  case (Cons n ns)
  obtain t1 h1 n' where r1: "addTestsToItem testScripts h n = (t1, h1, n')"
    by (cases "addTestsToItem testScripts h n") auto
  obtain t2 h2 ns' where r2: "addTestsToItems testScripts h1 ns = (t2, h2, ns')"
    by (cases "addTestsToItems testScripts h1 ns") auto
  from Cons.prems have a: "allocated h n" and as: "allocated_list h ns"
    and s: "list_all (\<lambda>l. scripted testScripts (fst l)) (leaves n)"
    and ss: "list_all (\<lambda>l. scripted testScripts (fst l)) (leaves_list ns)"
    by simp_all
  from Cons.prems(1) have "injected testScripts h n" by simp
  with a s r1 have "t1 = None \<and> (\<exists>ext. h1 = h @ ext) \<and> allocated h1 n' \<and>
      without_events n' = without_events n \<and>
      list_all2 (leaf_injected h h1) (leaves n) (leaves n')"
    by (simp add: injected_def)
  then obtain e1 where t1: "t1 = None"
    and h1: "h1 = h @ e1" and a1: "allocated h1 n'" and w1: "without_events n' = without_events n"
    and l1: "list_all2 (leaf_injected h h1) (leaves n) (leaves n')"
    by blast
  from as have "allocated_list h1 ns" unfolding h1 by (rule allocated_append)
  moreover from Cons.prems(1) have "\<forall>n\<in>set ns. \<forall>h. injected testScripts h n" by simp
  ultimately have "case addTestsToItems testScripts h1 ns of
          (thrown, h', ns') \<Rightarrow>
            thrown = None \<and>
            (\<exists>ext. h' = h1 @ ext) \<and> allocated_list h' ns' \<and>
            without_events_list ns' = without_events_list ns \<and>
            list_all2 (leaf_injected h1 h') (leaves_list ns) (leaves_list ns')"
    using ss by (intro Cons.IH)
  then obtain e2 where t2: "t2 = None"
    and h2: "h2 = h1 @ e2" and a2: "allocated_list h2 ns'"
    and w2: "without_events_list ns' = without_events_list ns"
    and l2: "list_all2 (leaf_injected h1 h2) (leaves_list ns) (leaves_list ns')"
    unfolding r2 by auto
  have "list_all2 (leaf_injected h h2) (leaves n) (leaves n')"
    unfolding h2 using l1 a1 by (intro leaf_injected_later allocated_leaves)
  moreover have "list_all2 (leaf_injected h h2) (leaves_list ns) (leaves_list ns')"
    using l2 as unfolding h1 by (intro leaf_injected_earlier [of h e1] allocated_leaves)
  ultimately have "list_all2 (leaf_injected h h2) (leaves_list (n # ns)) (leaves_list (n' # ns'))"
    by (simp add: list_all2_appendI)
  moreover have "allocated h2 n'" unfolding h2 using a1 by (rule allocated_append)
  moreover have "h2 = h @ (e1 @ e2)" by (simp add: h1 h2)
  ultimately show ?case
    using a2 w1 w2 by (simp add: r1 r2 t1 t2)
qed


lemma filter_allocated_Suc:
  "list_all (\<lambda>a. a < n) es \<Longrightarrow> list_all (\<lambda>a. a < Suc n) (filter P es)"
  by (induction es) auto

lemma injected_node: "injected testScripts h n"
proof (induction n arbitrary: h)
  case (Node nm req ev children)
  show ?case
    unfolding injected_def
  proof
    assume both: "allocated h (Node nm req ev children) \<and>
      list_all (\<lambda>l. scripted testScripts (fst l)) (leaves (Node nm req ev children))"
    then have alloc: "allocated h (Node nm req ev children)" by simp
    let ?es = "case ev of Some es \<Rightarrow> es | None \<Rightarrow> []"
    have es: "list_all (\<lambda>a. a < length h) ?es"
      using alloc by (simp split: option.splits)
    have "\<exists>obj. listen obj = ''test'' \<and>
            (req \<noteq> None \<longrightarrow> truthy (script_for testScripts nm) \<and>
                            test_event (script_for testScripts nm) = Inr obj)"
    proof (cases req)
      case None
      have "listen \<lparr>listen = ''test'', ev_script = \<lparr>script_type = [], exec = []\<rparr>\<rparr> = ''test''"
        by simp
      with None show ?thesis by blast
    next
      case (Some r)
      with both have "scripted testScripts nm" by simp
      then show ?thesis by (rule scripted_cases) blast
    qed
    then obtain obj where obj: "listen obj = ''test''"
      and run: "req \<noteq> None \<Longrightarrow> truthy (script_for testScripts nm)"
          "req \<noteq> None \<Longrightarrow> test_event (script_for testScripts nm) = Inr obj"
      by blast
    define h1 where "h1 = (case req of None \<Rightarrow> h | Some _ \<Rightarrow> h @ [obj])"
    define ev1 where "ev1 = (case req of None \<Rightarrow> ev
                              | Some _ \<Rightarrow> Some (filter (\<lambda>e. \<not> is_test h e) ?es @ [length h]))"
    have res: "addTestsToItem testScripts h (Node nm req ev children) =
        (case children of
           None \<Rightarrow> (None, h1, Node nm req ev1 None)
         | Some cs \<Rightarrow>
             (case addTestsToItems testScripts h1 cs of
                (thrown, h', cs') \<Rightarrow> (thrown, h', Node nm req ev1 (Some cs'))))"
      using run by (cases req) (simp_all add: h1_def ev1_def Let_def split: option.splits prod.splits)
    obtain e0 where h1: "h1 = h @ e0"
      by (cases req) (simp_all add: h1_def)
    have ev1: "case ev1 of None \<Rightarrow> True | Some l \<Rightarrow> list_all (\<lambda>a. a < length h1) l"
    proof (cases req)
      case None
      then show ?thesis using alloc unfolding ev1_def h1_def by (auto split: option.splits)
    next
      case (Some r)
      have "list_all (\<lambda>a. a < Suc (length h)) (filter (\<lambda>e. \<not> is_test h e) ?es)"
        using es by (rule filter_allocated_Suc)
      then show ?thesis using Some unfolding ev1_def h1_def by simp
    qed
    let ?ev1 = "case ev1 of Some es \<Rightarrow> es | None \<Rightarrow> []"
    let ?own = "case req of None \<Rightarrow> [] | Some _ \<Rightarrow> [(nm, ?es)]"
    let ?own' = "case req of None \<Rightarrow> [] | Some _ \<Rightarrow> [(nm, ?ev1)]"
    have l0: "list_all2 (leaf_injected h h1) ?own ?own'"
      using own_leaf_injected [OF es obj, of nm]
      by (cases req) (simp_all add: h1_def ev1_def)
    have a0: "leaves_allocated h1 ?own'"
      using ev1 by (cases req) (simp_all add: leaves_allocated_def split: option.splits)
    show "case addTestsToItem testScripts h (Node nm req ev children) of
          (thrown, h', n') \<Rightarrow>
            thrown = None \<and>
            (\<exists>ext. h' = h @ ext) \<and> allocated h' n' \<and>
            without_events n' = without_events (Node nm req ev children) \<and>
            list_all2 (leaf_injected h h') (leaves (Node nm req ev children)) (leaves n')"
    proof (cases children)
      case None
      have "leaves (Node nm req ev None) = ?own" "leaves (Node nm req ev1 None) = ?own'"
        by simp_all
      moreover have "allocated h1 (Node nm req ev1 None)"
        using ev1 by simp
      moreover have "without_events (Node nm req ev1 None) = without_events (Node nm req ev None)"
        by simp
      moreover have "addTestsToItem testScripts h (Node nm req ev None) = (None, h1, Node nm req ev1 None)"
        using res unfolding None by simp
      ultimately show ?thesis
        unfolding None using h1 l0 by (simp only: prod.case) blast
    next
      case (Some cs)
      obtain t2 h2 cs' where r: "addTestsToItems testScripts h1 cs = (t2, h2, cs')"
        by (cases "addTestsToItems testScripts h1 cs") auto
      have "allocated_list h cs" using alloc Some by simp
      then have "allocated_list h1 cs" unfolding h1 by (rule allocated_append)
      moreover have "\<forall>n\<in>set cs. \<forall>h. injected testScripts h n"
        using Node.IH Some by simp
      moreover have "list_all (\<lambda>l. scripted testScripts (fst l)) (leaves_list cs)"
        using both Some by simp
      ultimately have "case addTestsToItems testScripts h1 cs of
          (thrown, h', ns') \<Rightarrow>
            thrown = None \<and>
            (\<exists>ext. h' = h1 @ ext) \<and> allocated_list h' ns' \<and>
            without_events_list ns' = without_events_list cs \<and>
            list_all2 (leaf_injected h1 h') (leaves_list cs) (leaves_list ns')"
        by (intro injected_list)
      then obtain e2 where t2: "t2 = None"
        and h2: "h2 = h1 @ e2" and a2: "allocated_list h2 cs'"
        and w2: "without_events_list cs' = without_events_list cs"
        and l2: "list_all2 (leaf_injected h1 h2) (leaves_list cs) (leaves_list cs')"
        unfolding r by auto
      have "list_all2 (leaf_injected h h2) ?own ?own'"
        unfolding h2 using l0 a0 by (rule leaf_injected_later)
      moreover have "list_all2 (leaf_injected h h2) (leaves_list cs) (leaves_list cs')"
        using l2 \<open>allocated_list h cs\<close> unfolding h1
        by (intro leaf_injected_earlier [of h e0] allocated_leaves)
      ultimately have "list_all2 (leaf_injected h h2) (?own @ leaves_list cs) (?own' @ leaves_list cs')"
        by (rule list_all2_appendI)
      then have "list_all2 (leaf_injected h h2) (leaves (Node nm req ev (Some cs)))
                   (leaves (Node nm req ev1 (Some cs')))"
        by simp
      moreover have "case ev1 of None \<Rightarrow> True | Some l \<Rightarrow> list_all (\<lambda>a. a < length h2) l"
        using ev1 unfolding h2 by (auto split: option.splits intro: list_all_allocated_append)
      then have "allocated h2 (Node nm req ev1 (Some cs'))"
        using a2 by simp
      moreover have "without_events (Node nm req ev1 (Some cs')) = without_events (Node nm req ev (Some cs))"
        using w2 by simp
      moreover have "h2 = h @ (e0 @ e2)" by (simp add: h1 h2)
      moreover have "addTestsToItem testScripts h (Node nm req ev (Some cs)) =
          (None, h2, Node nm req ev1 (Some cs'))"
        using res r unfolding Some t2 by simp
      ultimately show ?thesis
        unfolding Some by (simp only: prod.case) blast
    qed
  qed
qed

text \<open>
  A map whose \<^verbatim>\<open>default\<close> entry is a truthy script gives a truthy script for every name
  that does not read a value of another kind.
\<close>

lemma scripted_default:
  assumes "testScripts ''default'' = Lines ls \<or> (testScripts ''default'' = Source s \<and> s \<noteq> [])"
    and "testScripts nm \<noteq> Other"
  shows "scripted testScripts nm"
  using assms
  by (cases "testScripts nm") (auto simp: scripted_def script_for_def)

section \<open>Claims C2 and C7: what the injection keeps, and what it skips\<close>

text \<open>
  Claim C2, as amended. The \<^verbatim>\<open>default\<close> entry of the map is a truthy script, that is an
  array of lines or a non-empty string, and the name of no leaf reads a value that is
  neither a script nor falsy (as the members inherited from \<^verbatim>\<open>Object.prototype\<close> are).
  Then, for every tree whose event addresses are allocated, nothing is thrown; the
  objects already in the store are untouched; the tree without its events is unchanged,
  so no folder is added, removed, moved or renamed; and every leaf keeps the addresses
  of its events that are not test events, in their order, and has exactly one test
  event.
\<close>

theorem injection_preserves_structure:
  assumes "testScripts ''default'' = Lines ls \<or> (testScripts ''default'' = Source s \<and> s \<noteq> [])"
    and "\<forall>l\<in>set (leaves_list items). testScripts (fst l) \<noteq> Other"
    and "allocated_list h items"
    and "addTestsToItems testScripts h items = (thrown, h', items')"
  shows "thrown = None \<and>
         take (length h) h' = h \<and>
         without_events_list items' = without_events_list items \<and>
         list_all2 (leaf_injected h h') (leaves_list items) (leaves_list items')"
proof -
  have "\<forall>n\<in>set items. \<forall>h. injected testScripts h n"
    using injected_node by blast
  moreover have "list_all (\<lambda>l. scripted testScripts (fst l)) (leaves_list items)"
    unfolding list_all_iff
    using scripted_default [where testScripts = testScripts and ls = ls and s = s] assms(1,2)
    by blast
  ultimately have "case addTestsToItems testScripts h items of
          (thrown, h', ns') \<Rightarrow>
            thrown = None \<and>
            (\<exists>ext. h' = h @ ext) \<and> allocated_list h' ns' \<and>
            without_events_list ns' = without_events_list items \<and>
            list_all2 (leaf_injected h h') (leaves_list items) (leaves_list ns')"
    using assms(3) by (intro injected_list)
  then show ?thesis
    unfolding assms(4) by auto
qed

theorem injection_preserves_structure_witness:
  "sample_scripts ''default'' = Lines [''// default test''] \<and>
   sample_scripts ''Get a specific task'' = Source ''// one line'' \<and>
   sample_scripts ''List all tasks'' = Undefined \<and>
   sample_scripts ''Health check'' = Undefined \<and>
   allocated_list sample_store sample_items \<and>
   leaves_list sample_items =
     [(''Get a specific task'', [0, 1, 2]), (''List all tasks'', []), (''Health check'', [3])] \<and>
   fst (addTestsToItems sample_scripts sample_store sample_items) = None \<and>
   fst (snd (addTestsToItems sample_scripts sample_store sample_items)) =
     sample_store @
     [\<lparr>listen = ''test'', ev_script = \<lparr>script_type = ''text/javascript'', exec = [''// one line'']\<rparr>\<rparr>,
      \<lparr>listen = ''test'', ev_script = \<lparr>script_type = ''text/javascript'', exec = [''// default test'']\<rparr>\<rparr>,
      \<lparr>listen = ''test'', ev_script = \<lparr>script_type = ''text/javascript'', exec = [''// default test'']\<rparr>\<rparr>] \<and>
   leaves_list (snd (snd (addTestsToItems sample_scripts sample_store sample_items))) =
     [(''Get a specific task'', [0, 4]), (''List all tasks'', [5]), (''Health check'', [3, 6])] \<and>
   without_events_list (snd (snd (addTestsToItems sample_scripts sample_store sample_items)))
     = without_events_list sample_items \<and>
   list_all2
     (leaf_injected sample_store (fst (snd (addTestsToItems sample_scripts sample_store sample_items))))
     (leaves_list sample_items)
     (leaves_list (snd (snd (addTestsToItems sample_scripts sample_store sample_items))))"
proof -
  have a: "allocated_list sample_store sample_items"
    by (simp add: sample_store_def sample_items_def)
  have n: "sample_scripts ''default'' = Lines [''// default test'']"
    "sample_scripts ''Get a specific task'' = Source ''// one line''"
    "sample_scripts ''List all tasks'' = Undefined"
    "sample_scripts ''Health check'' = Undefined"
    by (simp_all add: sample_scripts_def plain_object_def object_prototype_def
        object_prototype_names_def)
  have l: "leaves_list sample_items =
     [(''Get a specific task'', [0, 1, 2]), (''List all tasks'', []), (''Health check'', [3])]"
    by (simp add: sample_items_def)
  have r: "addTestsToItems sample_scripts sample_store sample_items =
     (None,
      sample_store @
      [\<lparr>listen = ''test'', ev_script = \<lparr>script_type = ''text/javascript'', exec = [''// one line'']\<rparr>\<rparr>,
       \<lparr>listen = ''test'', ev_script = \<lparr>script_type = ''text/javascript'', exec = [''// default test'']\<rparr>\<rparr>,
       \<lparr>listen = ''test'', ev_script = \<lparr>script_type = ''text/javascript'', exec = [''// default test'']\<rparr>\<rparr>],
      [Node ''Tasks'' None None
         (Some [Node ''Get a specific task'' (Some ''GET {{baseUrl}}/tasks/:taskId'') (Some [0, 4]) None,
                Node ''List all tasks'' (Some ''GET {{baseUrl}}/tasks'') (Some [5]) None]),
       Node ''Health check'' (Some ''GET {{baseUrl}}/health'') (Some [3, 6]) None])"
    by (simp add: sample_store_def sample_items_def n script_for_def is_test_def test_event_def)
  then have l': "leaves_list (snd (snd (addTestsToItems sample_scripts sample_store sample_items))) =
     [(''Get a specific task'', [0, 4]), (''List all tasks'', [5]), (''Health check'', [3, 6])]"
    by simp
  have o: "\<forall>l\<in>set (leaves_list sample_items). sample_scripts (fst l) \<noteq> Other"
    by (simp add: l n)
  from injection_preserves_structure [where testScripts = sample_scripts
        and ls = "[''// default test'']" and h = sample_store and items = sample_items
        and thrown = "fst (addTestsToItems sample_scripts sample_store sample_items)"
        and h' = "fst (snd (addTestsToItems sample_scripts sample_store sample_items))"
        and items' = "snd (snd (addTestsToItems sample_scripts sample_store sample_items))",
        OF _ o a] n(1)
  have "without_events_list (snd (snd (addTestsToItems sample_scripts sample_store sample_items)))
          = without_events_list sample_items \<and>
        list_all2
          (leaf_injected sample_store (fst (snd (addTestsToItems sample_scripts sample_store sample_items))))
          (leaves_list sample_items)
          (leaves_list (snd (snd (addTestsToItems sample_scripts sample_store sample_items))))"
    by simp
  then show ?thesis
    using a n l l' r by simp
qed

text \<open>
  Claim C2 as stated fails twice. A map whose \<^verbatim>\<open>default\<close> entry is the empty string has
  the entry, it is falsy, and a leaf that no other key matches is left without a test
  event. And with the map \<^verbatim>\<open>{default: ['// default test']}\<close> a leaf named
  \<^verbatim>\<open>constructor\<close> reads the function inherited from \<^verbatim>\<open>Object.prototype\<close>: the injector
  throws a \<^verbatim>\<open>TypeError\<close>, after it has removed the two test events of the leaf, and the
  leaf has no test event.
\<close>

theorem injection_default_counterexample:
  "plain_object [''default'' \<mapsto> Source []] ''default'' = Source [] \<and>
   addTestsToItems (plain_object [''default'' \<mapsto> Source []]) []
       [Node ''Get a specific task'' (Some ''GET {{baseUrl}}/tasks/:taskId'') None None]
     = (None, [], [Node ''Get a specific task'' (Some ''GET {{baseUrl}}/tasks/:taskId'') None None]) \<and>
   \<not> list_all2 (leaf_injected [] [])
       [(''Get a specific task'', [])]
       (leaves_list [Node ''Get a specific task'' (Some ''GET {{baseUrl}}/tasks/:taskId'') None None]) \<and>
   plain_object [''default'' \<mapsto> Lines [''// default test'']] ''default'' = Lines [''// default test''] \<and>
   plain_object [''default'' \<mapsto> Lines [''// default test'']] ''constructor'' = Other \<and>
   allocated_list sample_store [Node ''constructor'' (Some ''GET {{baseUrl}}/tasks'') (Some [0, 1, 2]) None] \<and>
   addTestsToItems (plain_object [''default'' \<mapsto> Lines [''// default test'']]) sample_store
       [Node ''constructor'' (Some ''GET {{baseUrl}}/tasks'') (Some [0, 1, 2]) None]
     = (Some (TypeError ''testScript.split is not a function''), sample_store,
        [Node ''constructor'' (Some ''GET {{baseUrl}}/tasks'') (Some [0]) None]) \<and>
   \<not> list_all2 (leaf_injected sample_store sample_store)
       [(''constructor'', [0, 1, 2])]
       (leaves_list [Node ''constructor'' (Some ''GET {{baseUrl}}/tasks'') (Some [0]) None])"
  by (simp add: plain_object_def object_prototype_def object_prototype_names_def script_for_def
      leaf_injected_def test_event_def is_test_def sample_store_def)

text \<open>
  Claim C7, as amended. When the name of a node is neither a key of the map nor the
  name of a member of \<^verbatim>\<open>Object.prototype\<close>, and \<^verbatim>\<open>default\<close> is not a key of the map, the
  injector leaves the node's events and the store as they are, raises nothing for the
  node, and goes on into the node's children: what it returns for the node is what the
  injection returns for the children.
\<close>

theorem injection_skips_unmatched:
  assumes "props nm = None" and "props ''default'' = None"
    and "nm \<notin> set object_prototype_names"
  shows "addTestsToItem (plain_object props) h (Node nm req ev children) =
           (case children of
              None \<Rightarrow> (None, h, Node nm req ev None)
            | Some cs \<Rightarrow>
                (case addTestsToItems (plain_object props) h cs of
                   (thrown, h', cs') \<Rightarrow> (thrown, h', Node nm req ev (Some cs'))))"
proof -
  have "plain_object props nm = Undefined" "plain_object props ''default'' = Undefined"
    using assms by (simp_all add: plain_object_def object_prototype_def object_prototype_names_def)
  then show ?thesis
    by (simp add: script_for_def split: option.splits prod.splits)
qed

theorem injection_skips_unmatched_witness:
  "object_prototype_names =
     [''constructor'', ''hasOwnProperty'', ''isPrototypeOf'', ''propertyIsEnumerable'',
      ''toLocaleString'', ''toString'', ''valueOf'', ''__proto__'',
      ''__defineGetter__'', ''__defineSetter__'', ''__lookupGetter__'', ''__lookupSetter__''] \<and>
   [''List all tasks'' \<mapsto> Lines [''// listed'']] ''Get a specific task'' = None \<and>
   [''List all tasks'' \<mapsto> Lines [''// listed'']] ''default'' = None \<and>
   ''Get a specific task'' \<notin> set object_prototype_names \<and>
   addTestsToItem (plain_object [''List all tasks'' \<mapsto> Lines [''// listed'']]) sample_store
       (Node ''Get a specific task'' (Some ''GET {{baseUrl}}/tasks/:taskId'') (Some [0, 1, 2]) None)
     = (None, sample_store,
        Node ''Get a specific task'' (Some ''GET {{baseUrl}}/tasks/:taskId'') (Some [0, 1, 2]) None) \<and>
   addTestsToItem (plain_object [''List all tasks'' \<mapsto> Lines [''// listed'']]) sample_store
       (Node ''Tasks'' None None
          (Some [Node ''Get a specific task'' (Some ''GET {{baseUrl}}/tasks/:taskId'') (Some [0, 1, 2]) None,
                 Node ''List all tasks'' (Some ''GET {{baseUrl}}/tasks'') None None]))
     = (None,
        sample_store @
        [\<lparr>listen = ''test'', ev_script = \<lparr>script_type = ''text/javascript'', exec = [''// listed'']\<rparr>\<rparr>],
        Node ''Tasks'' None None
          (Some [Node ''Get a specific task'' (Some ''GET {{baseUrl}}/tasks/:taskId'') (Some [0, 1, 2]) None,
                 Node ''List all tasks'' (Some ''GET {{baseUrl}}/tasks'') (Some [4]) None]))"
proof -
  have n: "''Get a specific task'' \<notin> set object_prototype_names"
    "''Tasks'' \<notin> set object_prototype_names"
    by (simp_all add: object_prototype_names_def)
  have k: "[''List all tasks'' \<mapsto> Lines [''// listed'']] ''Get a specific task'' = None"
    "[''List all tasks'' \<mapsto> Lines [''// listed'']] ''Tasks'' = None"
    "[''List all tasks'' \<mapsto> Lines [''// listed'']] ''default'' = None"
    by simp_all
  have c: "addTestsToItems (plain_object [''List all tasks'' \<mapsto> Lines [''// listed'']]) sample_store
       [Node ''Get a specific task'' (Some ''GET {{baseUrl}}/tasks/:taskId'') (Some [0, 1, 2]) None,
        Node ''List all tasks'' (Some ''GET {{baseUrl}}/tasks'') None None]
     = (None,
        sample_store @
        [\<lparr>listen = ''test'', ev_script = \<lparr>script_type = ''text/javascript'', exec = [''// listed'']\<rparr>\<rparr>],
        [Node ''Get a specific task'' (Some ''GET {{baseUrl}}/tasks/:taskId'') (Some [0, 1, 2]) None,
         Node ''List all tasks'' (Some ''GET {{baseUrl}}/tasks'') (Some [4]) None])"
    by (simp add: plain_object_def object_prototype_def object_prototype_names_def script_for_def
        test_event_def is_test_def sample_store_def)
  show ?thesis
    using injection_skips_unmatched [where props = "[''List all tasks'' \<mapsto> Lines [''// listed'']]"
        and nm = "''Get a specific task''" and h = sample_store
        and req = "Some ''GET {{baseUrl}}/tasks/:taskId''" and ev = "Some [0, 1, 2]"
        and children = None, OF k(1) k(3) n(1)]
      injection_skips_unmatched [where props = "[''List all tasks'' \<mapsto> Lines [''// listed'']]"
        and nm = "''Tasks''" and h = sample_store and req = None and ev = None
        and children = "Some [Node ''Get a specific task'' (Some ''GET {{baseUrl}}/tasks/:taskId'') (Some [0, 1, 2]) None,
                 Node ''List all tasks'' (Some ''GET {{baseUrl}}/tasks'') None None]",
        OF k(2) k(3) n(2)]
      n(1) k(1) k(3) c
    by (simp add: object_prototype_names_def)
qed

text \<open>
  Claim C7 as stated fails: with the empty map \<^verbatim>\<open>{}\<close> the injector returns normally,
  nothing is thrown, and the leaf and the store are unchanged.
\<close>

theorem injection_no_assertion_counterexample:
  "Map.empty ''Get a specific task'' = (None :: js_value option) \<and>
   Map.empty ''default'' = (None :: js_value option) \<and>
   addTestsToItems (plain_object Map.empty) sample_store
       [Node ''Get a specific task'' (Some ''GET {{baseUrl}}/tasks/:taskId'') (Some [0, 1, 2]) None]
     = (None, sample_store,
        [Node ''Get a specific task'' (Some ''GET {{baseUrl}}/tasks/:taskId'') (Some [0, 1, 2]) None])"
  by (simp add: plain_object_def object_prototype_def object_prototype_names_def script_for_def)

section \<open>The client: properties\<close>

text \<open>Evaluation of the sequencing operators.\<close>


lemma resolve_apply: "resolve v w = (Inr v, w)"
  by (simp add: resolve_def)

lemma reject_apply: "reject e w = (Inl e, w)"
  by (simp add: reject_def)

lemma lift_apply: "lift r w = (r, w)"
  by (simp add: lift_def)

lemma print_apply: "print l w = (Inr (), w\<lparr>console := console w @ [l]\<rparr>)"
  by (simp add: print_def)

lemma andThen_Inr: "m w = (Inr v, w') \<Longrightarrow> andThen m f w = f v w'"
  by (simp add: andThen_def)

lemma andThen_Inl: "m w = (Inl e, w') \<Longrightarrow> andThen m f w = (Inl e, w')"
  by (simp add: andThen_def)

lemma andThen_print: "andThen (print l) f w = f () (w\<lparr>console := console w @ [l]\<rparr>)"
  by (simp add: andThen_def print_def)

lemma andThen_returns:
  "andThen m f w = (Inr r, w') \<Longrightarrow> \<exists>v w1. m w = (Inr v, w1) \<and> f v w1 = (Inr r, w')"
  by (auto simp: andThen_def split: prod.splits sum.splits)

lemma member_apply:
  "member get nm (Some d) w = (Inr (get d), w)"
  "\<exists>e. member get nm None w = (Inl e, w)"
  by (simp_all add: member_def resolve_def reject_def)

text \<open>What a request does to the world, and what it returns.\<close>

lemma request_sent:
  "snd (request svc this meth endpoint b w) =
     w\<lparr>sent := sent w @ [the_request this meth endpoint b]\<rparr>"
  by (simp add: request_def the_request_def Let_def split: fetch_result.splits option.splits)

lemma request_ok:
  "svc (sent w) (the_request this meth endpoint b) = Replied status data \<Longrightarrow>
   response_ok status \<Longrightarrow>
   request svc this meth endpoint b w =
     (Inr data, w\<lparr>sent := sent w @ [the_request this meth endpoint b]\<rparr>)"
  by (simp add: request_def the_request_def Let_def)

lemma request_cases:
  obtains (ok) status data where
      "svc (sent w) (the_request this meth endpoint b) = Replied status data"
      "response_ok status"
      "request svc this meth endpoint b w =
         (Inr data, w\<lparr>sent := sent w @ [the_request this meth endpoint b]\<rparr>)"
  | (failed) e where
      "\<not> (\<exists>status data. svc (sent w) (the_request this meth endpoint b) = Replied status data
            \<and> response_ok status)"
      "request svc this meth endpoint b w =
         (Inl e, w\<lparr>sent := sent w @ [the_request this meth endpoint b]\<rparr>)"
proof (cases "svc (sent w) (the_request this meth endpoint b)")
  case Rejected
  then show ?thesis
    by (intro failed [of FetchError]) (simp_all add: request_def the_request_def Let_def)
next
  case (Replied status data)
  show ?thesis
  proof (cases "response_ok status")
    case True
    with Replied show ?thesis by (intro ok [of status data]) (simp_all add: request_ok)
  next
    case False
    with Replied show ?thesis
      by (cases data)
        (auto intro!: failed simp: request_def the_request_def Let_def)
  qed
qed

text \<open>The two branches of \<^verbatim>\<open>uploadSpec\<close>, and the lookup that finds a spec.\<close>


lemma uploadSpec_update:
  assumes "truthy_id specId"
  shows "snd (uploadSpec svc this nm specContent specId w) =
           w\<lparr>sent := sent w @ [the_request this ''PATCH''
                 (''/specs/'' @ show_id specId @ ''/files/index.json'') (Some (SpecFile specContent))]\<rparr>"
    and "svc (sent w) (the_request this ''PATCH''
                 (''/specs/'' @ show_id specId @ ''/files/index.json'') (Some (SpecFile specContent)))
           = Replied status data \<Longrightarrow> response_ok status \<Longrightarrow>
         fst (uploadSpec svc this nm specContent specId w) = Inr specId"
    and "fst (uploadSpec svc this nm specContent specId w) = Inr r \<Longrightarrow> r = specId"
proof -
  let ?rq = "request svc this ''PATCH''
                 (''/specs/'' @ show_id specId @ ''/files/index.json'') (Some (SpecFile specContent))"
  have u: "uploadSpec svc this nm specContent specId = andThen ?rq (\<lambda>_. resolve specId)"
    using assms by (simp add: uploadSpec_def)
  show "snd (uploadSpec svc this nm specContent specId w) =
           w\<lparr>sent := sent w @ [the_request this ''PATCH''
                 (''/specs/'' @ show_id specId @ ''/files/index.json'') (Some (SpecFile specContent))]\<rparr>"
    unfolding u
    by (cases rule: request_cases [of svc w this "''PATCH''"
          "''/specs/'' @ show_id specId @ ''/files/index.json''" "Some (SpecFile specContent)"])
      (simp_all add: andThen_def resolve_def)
  show "fst (uploadSpec svc this nm specContent specId w) = Inr specId"
    if "svc (sent w) (the_request this ''PATCH''
                 (''/specs/'' @ show_id specId @ ''/files/index.json'') (Some (SpecFile specContent)))
           = Replied status data" and "response_ok status"
    unfolding u using that by (simp add: request_ok andThen_def resolve_def)
  show "r = specId" if "fst (uploadSpec svc this nm specContent specId w) = Inr r"
    using that unfolding u
    by (cases rule: request_cases [of svc w this "''PATCH''"
          "''/specs/'' @ show_id specId @ ''/files/index.json''" "Some (SpecFile specContent)"])
      (simp_all add: andThen_def resolve_def)
qed

lemma uploadSpec_create:
  assumes "\<not> truthy_id specId"
  shows "snd (uploadSpec svc this nm specContent specId w) =
           w\<lparr>sent := sent w @ [the_request this ''POST''
                 (''/specs?workspaceId='' @ workspaceId this)
                 (Some (NewSpec nm ''OPENAPI:3.0'' [(''index.json'', specContent)]))]\<rparr>"
    and "svc (sent w) (the_request this ''POST''
                 (''/specs?workspaceId='' @ workspaceId this)
                 (Some (NewSpec nm ''OPENAPI:3.0'' [(''index.json'', specContent)])))
           = Replied status (Some d) \<Longrightarrow> response_ok status \<Longrightarrow>
         fst (uploadSpec svc this nm specContent specId w) = Inr (id_member d)"
proof -
  let ?rq = "request svc this ''POST''
                 (''/specs?workspaceId='' @ workspaceId this)
                 (Some (NewSpec nm ''OPENAPI:3.0'' [(''index.json'', specContent)]))"
  have u: "uploadSpec svc this nm specContent specId =
             andThen ?rq (\<lambda>result. member id_member ''id'' result)"
    using assms by (simp add: uploadSpec_def)
  show "snd (uploadSpec svc this nm specContent specId w) =
           w\<lparr>sent := sent w @ [the_request this ''POST''
                 (''/specs?workspaceId='' @ workspaceId this)
                 (Some (NewSpec nm ''OPENAPI:3.0'' [(''index.json'', specContent)]))]\<rparr>"
    unfolding u
    by (cases rule: request_cases [of svc w this "''POST''"
          "''/specs?workspaceId='' @ workspaceId this"
          "Some (NewSpec nm ''OPENAPI:3.0'' [(''index.json'', specContent)])"])
      (simp_all add: andThen_def member_def resolve_def reject_def split: option.splits)
  show "fst (uploadSpec svc this nm specContent specId w) = Inr (id_member d)"
    if "svc (sent w) (the_request this ''POST''
                 (''/specs?workspaceId='' @ workspaceId this)
                 (Some (NewSpec nm ''OPENAPI:3.0'' [(''index.json'', specContent)])))
           = Replied status (Some d)" and "response_ok status"
    unfolding u using that by (simp add: request_ok andThen_def member_def resolve_def)
qed

lemma check_existing_spec_found:
  assumes "remote_service host (sent w)
             (the_request this ''GET'' (''/specs?workspaceId='' @ workspaceId this) None)
           = Replied status (Some d)"
    and "response_ok status"
    and "find_by_name (specs_member d) specName = Some s"
  shows "check_existing_spec host this specName w =
           (Inr (h_id s),
            w\<lparr>sent := sent w @ [the_request this ''GET'' (''/specs?workspaceId='' @ workspaceId this) None],
              console := console w @ [LogStep ''Step 2'' ''Checking for existing spec in Spec Hub'']\<rparr>)"
proof -
  let ?w1 = "w\<lparr>console := console w @ [LogStep ''Step 2'' ''Checking for existing spec in Spec Hub'']\<rparr>"
  have "request (remote_service host) this ''GET'' (''/specs?workspaceId='' @ workspaceId this) None ?w1
          = (Inr (Some d), ?w1\<lparr>sent := sent ?w1 @
               [the_request this ''GET'' (''/specs?workspaceId='' @ workspaceId this) None]\<rparr>)"
    using assms(1,2) by (simp add: request_ok)
  then show ?thesis
    using assms(3)
    by (simp add: check_existing_spec_def print_def findSpecByName_def listSpecs_def
        andThen_def catch_def member_def resolve_def find_by_name_def split: option.splits)
qed


text \<open>
  Claim C1, as amended: an identifier counts as given when it is truthy, that is a
  non-empty string. With such a \<^verbatim>\<open>specId\<close>, \<^verbatim>\<open>uploadSpec\<close> sends one request, the
  \<^verbatim>\<open>PATCH\<close> of \<^verbatim>\<open>/specs/{specId}/files/index.json\<close>, and the only value it returns is
  \<^verbatim>\<open>specId\<close>, which it does when the reply has a success status. With \<^verbatim>\<open>null\<close>, or the
  empty string, it sends one request, the \<^verbatim>\<open>POST\<close> that creates a spec, and returns the
  \<^verbatim>\<open>id\<close> of the reply. And when the lookup of the orchestrator lists a spec of the name
  with a truthy \<^verbatim>\<open>id\<close>, the lookup and the upload together send the listing request and
  the \<^verbatim>\<open>PATCH\<close> against that \<^verbatim>\<open>id\<close>, nothing else, and return no other identifier.
\<close>

theorem uploadSpec_upsert:
  "(truthy_id specId \<longrightarrow>
      snd (uploadSpec svc this nm specContent specId w) =
        w\<lparr>sent := sent w @ [the_request this ''PATCH''
              (''/specs/'' @ show_id specId @ ''/files/index.json'') (Some (SpecFile specContent))]\<rparr> \<and>
      (\<forall>status data.
          svc (sent w) (the_request this ''PATCH''
              (''/specs/'' @ show_id specId @ ''/files/index.json'') (Some (SpecFile specContent)))
            = Replied status data \<and> response_ok status \<longrightarrow>
          fst (uploadSpec svc this nm specContent specId w) = Inr specId) \<and>
      (\<forall>r. fst (uploadSpec svc this nm specContent specId w) = Inr r \<longrightarrow> r = specId)) \<and>
   (\<not> truthy_id specId \<longrightarrow>
      snd (uploadSpec svc this nm specContent specId w) =
        w\<lparr>sent := sent w @ [the_request this ''POST''
              (''/specs?workspaceId='' @ workspaceId this)
              (Some (NewSpec nm ''OPENAPI:3.0'' [(''index.json'', specContent)]))]\<rparr> \<and>
      (\<forall>status d.
          svc (sent w) (the_request this ''POST''
              (''/specs?workspaceId='' @ workspaceId this)
              (Some (NewSpec nm ''OPENAPI:3.0'' [(''index.json'', specContent)])))
            = Replied status (Some d) \<and> response_ok status \<longrightarrow>
          fst (uploadSpec svc this nm specContent specId w) = Inr (id_member d))) \<and>
   (remote_service host (sent w0)
        (the_request this ''GET'' (''/specs?workspaceId='' @ workspaceId this) None)
      = Replied st (Some listing) \<and> response_ok st \<and>
    find_by_name (specs_member listing) specName = Some s \<and> truthy_id (h_id s) \<and>
    readFileSync host spec_path = Inr specContent \<longrightarrow>
      sent (snd (andThen (check_existing_spec host this specName)
                   (upload_stage host this spec_path specName) w0)) =
        sent w0 @
          [the_request this ''GET'' (''/specs?workspaceId='' @ workspaceId this) None,
           the_request this ''PATCH'' (''/specs/'' @ show_id (h_id s) @ ''/files/index.json'')
             (Some (SpecFile specContent))] \<and>
      (\<forall>r. fst (andThen (check_existing_spec host this specName)
                   (upload_stage host this spec_path specName) w0) = Inr r \<longrightarrow> r = h_id s))"
proof (intro conjI impI)
  assume t: "truthy_id specId"
  show "snd (uploadSpec svc this nm specContent specId w) =
        w\<lparr>sent := sent w @ [the_request this ''PATCH''
              (''/specs/'' @ show_id specId @ ''/files/index.json'') (Some (SpecFile specContent))]\<rparr>"
    using t by (rule uploadSpec_update)
  show "\<forall>status data.
          svc (sent w) (the_request this ''PATCH''
              (''/specs/'' @ show_id specId @ ''/files/index.json'') (Some (SpecFile specContent)))
            = Replied status data \<and> response_ok status \<longrightarrow>
          fst (uploadSpec svc this nm specContent specId w) = Inr specId"
    using uploadSpec_update(2) [where svc = svc, OF t] by blast
  show "\<forall>r. fst (uploadSpec svc this nm specContent specId w) = Inr r \<longrightarrow> r = specId"
    using uploadSpec_update(3) [where svc = svc, OF t] by blast
next
  assume f: "\<not> truthy_id specId"
  show "snd (uploadSpec svc this nm specContent specId w) =
        w\<lparr>sent := sent w @ [the_request this ''POST''
              (''/specs?workspaceId='' @ workspaceId this)
              (Some (NewSpec nm ''OPENAPI:3.0'' [(''index.json'', specContent)]))]\<rparr>"
    using f by (rule uploadSpec_create)
  show "\<forall>status d.
          svc (sent w) (the_request this ''POST''
              (''/specs?workspaceId='' @ workspaceId this)
              (Some (NewSpec nm ''OPENAPI:3.0'' [(''index.json'', specContent)])))
            = Replied status (Some d) \<and> response_ok status \<longrightarrow>
          fst (uploadSpec svc this nm specContent specId w) = Inr (id_member d)"
    using uploadSpec_create(2) [where svc = svc, OF f] by blast
next
  assume h: "remote_service host (sent w0)
        (the_request this ''GET'' (''/specs?workspaceId='' @ workspaceId this) None)
      = Replied st (Some listing) \<and> response_ok st \<and>
    find_by_name (specs_member listing) specName = Some s \<and> truthy_id (h_id s) \<and>
    readFileSync host spec_path = Inr specContent"
  let ?w2 = "w0\<lparr>sent := sent w0 @ [the_request this ''GET'' (''/specs?workspaceId='' @ workspaceId this) None],
              console := console w0 @ [LogStep ''Step 2'' ''Checking for existing spec in Spec Hub'']\<rparr>"
  let ?w3 = "?w2\<lparr>console := console ?w2 @ [LogStep ''Step 3'' ''Uploading spec to Spec Hub'']\<rparr>"
  from h have r1: "remote_service host (sent w0)
        (the_request this ''GET'' (''/specs?workspaceId='' @ workspaceId this) None)
      = Replied st (Some listing)" and r2: "response_ok st"
    and r3: "find_by_name (specs_member listing) specName = Some s"
    by simp_all
  have c: "check_existing_spec host this specName w0 = (Inr (h_id s), ?w2)"
    by (rule check_existing_spec_found [OF r1 r2 r3])
  have run: "andThen (check_existing_spec host this specName)
               (upload_stage host this spec_path specName) w0
             = uploadSpec (remote_service host) this specName specContent (h_id s) ?w3"
    using h by (simp add: andThen_def c upload_stage_def print_def lift_def)
  have t: "truthy_id (h_id s)" using h by simp
  show "sent (snd (andThen (check_existing_spec host this specName)
                   (upload_stage host this spec_path specName) w0)) =
        sent w0 @
          [the_request this ''GET'' (''/specs?workspaceId='' @ workspaceId this) None,
           the_request this ''PATCH'' (''/specs/'' @ show_id (h_id s) @ ''/files/index.json'')
             (Some (SpecFile specContent))]"
    unfolding run uploadSpec_update(1) [OF t] by simp
  show "\<forall>r. fst (andThen (check_existing_spec host this specName)
                   (upload_stage host this spec_path specName) w0) = Inr r \<longrightarrow> r = h_id s"
    unfolding run using uploadSpec_update(3) [where svc = "remote_service host", OF t] by blast
qed

theorem uploadSpec_upsert_witness:
  "truthy_id (Some ''spec-1'') \<and>
   uploadSpec spec_listed sample_client ''Task API'' ''openapi: 3.0.3'' (Some ''spec-1'') new_world =
     (Inr (Some ''spec-1''),
      new_world\<lparr>sent := [the_request sample_client ''PATCH'' ''/specs/spec-1/files/index.json''
                              (Some (SpecFile ''openapi: 3.0.3''))]\<rparr>) \<and>
   \<not> truthy_id None \<and>
   uploadSpec spec_created sample_client ''Task API'' ''openapi: 3.0.3'' None new_world =
     (Inr (Some ''spec-2''),
      new_world\<lparr>sent := [the_request sample_client ''POST'' ''/specs?workspaceId=ws-1''
                              (Some (NewSpec ''Task API'' ''OPENAPI:3.0''
                                       [(''index.json'', ''openapi: 3.0.3'')]))]\<rparr>) \<and>
   find_by_name
     (Some [\<lparr>h_name = ''Task API'', h_id = Some ''spec-1'', h_uid = None\<rparr>]) ''Task API''
     = Some \<lparr>h_name = ''Task API'', h_id = Some ''spec-1'', h_uid = None\<rparr> \<and>
   sent (snd (andThen (check_existing_spec (sample_host spec_listed) sample_client ''Task API'')
                (upload_stage (sample_host spec_listed) sample_client ''specs/api.yaml'' ''Task API'')
                new_world)) =
     [the_request sample_client ''GET'' ''/specs?workspaceId=ws-1'' None,
      the_request sample_client ''PATCH'' ''/specs/spec-1/files/index.json''
        (Some (SpecFile ''openapi: 3.0.3''))]"
proof -
  have a: "truthy_id (Some ''spec-1'')" "\<not> truthy_id None"
    by (simp_all add: truthy_id_def)
  have ok: "response_ok 200" "response_ok 201"
    by (simp_all add: response_ok_def)
  have f: "find_by_name
     (Some [\<lparr>h_name = ''Task API'', h_id = Some ''spec-1'', h_uid = None\<rparr>]) ''Task API''
     = Some \<lparr>h_name = ''Task API'', h_id = Some ''spec-1'', h_uid = None\<rparr>"
    by (simp add: find_by_name_def)
  have ws: "workspaceId sample_client = ''ws-1''"
    by (simp add: sample_client_def)
  have r1: "spec_listed h rq =
      Replied 200 (Some (empty_body\<lparr>id_member := Some ''spec-1'',
                   specs_member :=
                     Some [\<lparr>h_name = ''Task API'', h_id = Some ''spec-1'', h_uid = None\<rparr>]\<rparr>))" for h rq
    by (simp add: spec_listed_def)
  have r2: "spec_created h rq = Replied 201 (Some (empty_body\<lparr>id_member := Some ''spec-2''\<rparr>))" for h rq
    by (simp add: spec_created_def)
  note t1 = uploadSpec_upsert [where svc = spec_listed and this = sample_client
        and nm = "''Task API''" and specContent = "''openapi: 3.0.3''"
        and specId = "Some ''spec-1''" and w = new_world, THEN conjunct1, THEN mp, OF a(1)]
  from t1 r1 ok(1) have "fst (uploadSpec spec_listed sample_client ''Task API'' ''openapi: 3.0.3''
                         (Some ''spec-1'') new_world) = Inr (Some ''spec-1'')"
    by blast
  moreover from t1 have "snd (uploadSpec spec_listed sample_client ''Task API'' ''openapi: 3.0.3''
                         (Some ''spec-1'') new_world) =
      new_world\<lparr>sent := [the_request sample_client ''PATCH'' ''/specs/spec-1/files/index.json''
                              (Some (SpecFile ''openapi: 3.0.3''))]\<rparr>"
    by (simp add: show_id_def new_world_def)
  ultimately have u1: "uploadSpec spec_listed sample_client ''Task API'' ''openapi: 3.0.3'' (Some ''spec-1'') new_world =
     (Inr (Some ''spec-1''),
      new_world\<lparr>sent := [the_request sample_client ''PATCH'' ''/specs/spec-1/files/index.json''
                              (Some (SpecFile ''openapi: 3.0.3''))]\<rparr>)"
    by (simp add: prod_eq_iff)
  note t2 = uploadSpec_upsert [where svc = spec_created and this = sample_client
        and nm = "''Task API''" and specContent = "''openapi: 3.0.3''"
        and specId = None and w = new_world, THEN conjunct2, THEN conjunct1, THEN mp, OF a(2)]
  from t2 r2 ok(2) have "fst (uploadSpec spec_created sample_client ''Task API'' ''openapi: 3.0.3''
                         None new_world) =
      Inr (id_member (empty_body\<lparr>id_member := Some ''spec-2''\<rparr>))"
    by blast
  moreover from t2 have "snd (uploadSpec spec_created sample_client ''Task API'' ''openapi: 3.0.3''
                         None new_world) =
      new_world\<lparr>sent := [the_request sample_client ''POST'' ''/specs?workspaceId=ws-1''
                              (Some (NewSpec ''Task API'' ''OPENAPI:3.0''
                                       [(''index.json'', ''openapi: 3.0.3'')]))]\<rparr>"
    by (simp add: ws new_world_def)
  ultimately have u2: "uploadSpec spec_created sample_client ''Task API'' ''openapi: 3.0.3'' None new_world =
     (Inr (Some ''spec-2''),
      new_world\<lparr>sent := [the_request sample_client ''POST'' ''/specs?workspaceId=ws-1''
                              (Some (NewSpec ''Task API'' ''OPENAPI:3.0''
                                       [(''index.json'', ''openapi: 3.0.3'')]))]\<rparr>)"
    by (simp add: prod_eq_iff)
  have h: "remote_service (sample_host spec_listed) = spec_listed"
    "readFileSync (sample_host spec_listed) ''specs/api.yaml'' = Inr ''openapi: 3.0.3''"
    by (simp_all add: sample_host_def)
  note t3 = uploadSpec_upsert [where host = "sample_host spec_listed" and this = sample_client
        and specName = "''Task API''" and specContent = "''openapi: 3.0.3''"
        and spec_path = "''specs/api.yaml''" and w0 = new_world and st = 200
        and listing = "empty_body\<lparr>id_member := Some ''spec-1'',
                   specs_member :=
                     Some [\<lparr>h_name = ''Task API'', h_id = Some ''spec-1'', h_uid = None\<rparr>]\<rparr>"
        and s = "\<lparr>h_name = ''Task API'', h_id = Some ''spec-1'', h_uid = None\<rparr>",
        THEN conjunct2, THEN conjunct2, THEN mp]
  have u3: "sent (snd (andThen (check_existing_spec (sample_host spec_listed) sample_client ''Task API'')
                (upload_stage (sample_host spec_listed) sample_client ''specs/api.yaml'' ''Task API'')
                new_world)) =
     [the_request sample_client ''GET'' ''/specs?workspaceId=ws-1'' None,
      the_request sample_client ''PATCH'' ''/specs/spec-1/files/index.json''
        (Some (SpecFile ''openapi: 3.0.3''))]"
    using t3 a ok f h r1 by (simp add: show_id_def new_world_def ws)
  show ?thesis
    using a f u1 u2 u3 by blast
qed

text \<open>
  Claim C1 as stated fails for the identifier that is the empty string: it is not
  \<^verbatim>\<open>null\<close>, and \<^verbatim>\<open>uploadSpec\<close> creates a spec and returns a new identifier.
\<close>

theorem uploadSpec_empty_id_counterexample:
  "uploadSpec spec_created sample_client ''Task API'' ''openapi: 3.0.3'' (Some []) new_world =
     (Inr (Some ''spec-2''),
      \<lparr>sent = [\<lparr>rq_method = ''POST'',
                 rq_url = ''https://api.getpostman.com/specs?workspaceId=ws-1'',
                 rq_api_key = ''PMAK-1'',
                 rq_body = Some (NewSpec ''Task API'' ''OPENAPI:3.0''
                                   [(''index.json'', ''openapi: 3.0.3'')])\<rparr>],
        console = []\<rparr>)"
  by code_simp

text \<open>The two polling loops, by induction on the attempts that are left.\<close>


lemma list_collections_request:
  "list_collections svc this = request svc this ''GET'' (''/collections?workspace='' @ workspaceId this) None"
  by (simp add: list_collections_def)

lemma wait_generation_exhausted:
  assumes "\<forall>j. i \<le> j \<and> j < maxAttempts \<longrightarrow>
             lists_without (svc (sent w @ replicate (j - i) (listing_request this)) (listing_request this)) nm"
  shows "waitForCollectionGeneration_from svc this nm maxAttempts i w =
           (Inl (Error (''Collection generation timed out after '' @ show_nat (maxAttempts * 2)
                        @ '' seconds'')),
            w\<lparr>sent := sent w @ replicate (maxAttempts - i) (listing_request this)\<rparr>)"
  using assms
proof (induction "maxAttempts - i" arbitrary: i w)
  case 0
  then show ?case
    by (subst waitForCollectionGeneration_from.simps) simp
next
  case (Suc n)
  let ?rq = "listing_request this"
  from Suc.hyps have lt: "i < maxAttempts" and n: "n = maxAttempts - Suc i" by simp_all
  from Suc.prems lt have "lists_without (svc (sent w) ?rq) nm"
    by (metis append_Nil2 diff_self_eq_0 le_refl replicate_0)
  then obtain st d where reply: "svc (sent w) ?rq = Replied st (Some d)" "response_ok st"
    and none: "find_by_name (collections_member d) nm = None"
    by (auto simp: lists_without_def split: fetch_result.splits option.splits)
  let ?w1 = "w\<lparr>sent := sent w @ [?rq]\<rparr>"
  have l: "list_collections svc this w = (Inr (Some d), ?w1)"
    using reply unfolding list_collections_request listing_request_def
    by (simp add: request_ok)
  have "\<forall>j. Suc i \<le> j \<and> j < maxAttempts \<longrightarrow>
           lists_without (svc (sent ?w1 @ replicate (j - Suc i) ?rq) ?rq) nm"
  proof (intro allI impI)
    fix j assume j: "Suc i \<le> j \<and> j < maxAttempts"
    then have "replicate (j - i) ?rq = ?rq # replicate (j - Suc i) ?rq"
      by (metis Suc_diff_le Suc_le_lessD diff_Suc_Suc replicate_Suc Suc_leD Suc_le_eq)
    moreover from Suc.prems j have "lists_without (svc (sent w @ replicate (j - i) ?rq) ?rq) nm"
      by simp
    ultimately show "lists_without (svc (sent ?w1 @ replicate (j - Suc i) ?rq) ?rq) nm"
      by simp
  qed
  then have rec: "waitForCollectionGeneration_from svc this nm maxAttempts (Suc i) ?w1 =
           (Inl (Error (''Collection generation timed out after '' @ show_nat (maxAttempts * 2)
                        @ '' seconds'')),
            ?w1\<lparr>sent := sent ?w1 @ replicate (maxAttempts - Suc i) ?rq\<rparr>)"
    using n by (intro Suc.hyps(1)) simp_all
  have "replicate (maxAttempts - i) ?rq = ?rq # replicate (maxAttempts - Suc i) ?rq"
    using lt by (metis Suc_diff_Suc replicate_Suc)
  then show ?case
    using lt
    by (subst waitForCollectionGeneration_from.simps)
      (simp add: l member_def resolve_def none rec)
qed

lemma getCollection_request:
  "getCollection svc this cid = request svc this ''GET'' (''/collections/'' @ show_id cid) None"
  by (simp add: getCollection_def)

lemma wait_sync_returns:
  "\<exists>w'. waitForCollectionSync_from svc this cid maxAttempts i w = (Inr (), w')"
proof (induction "maxAttempts - i" arbitrary: i w)
  case 0
  then show ?case
    by (subst waitForCollectionSync_from.simps) simp
next
  case (Suc n)
  then have n: "n = maxAttempts - Suc i" and lt: "i < maxAttempts" by simp_all
  obtain r w1 where g: "getCollection svc this cid w = (r, w1)" by force
  show ?case
  proof (cases r)
    case (Inl e)
    then show ?thesis
      using Suc.hyps(1) [OF n] lt g
      by (subst waitForCollectionSync_from.simps) simp
  next
    case (Inr collection)
    then show ?thesis
      using Suc.hyps(1) [OF n] lt g
      by (subst waitForCollectionSync_from.simps) simp
  qed
qed

lemma wait_sync_exhausted:
  assumes "\<forall>j. i \<le> j \<and> j < maxAttempts \<longrightarrow>
             \<not> available (svc (sent w @ replicate (j - i) (collection_request this cid))
                              (collection_request this cid))"
  shows "\<exists>w'. waitForCollectionSync_from svc this cid maxAttempts i w = (Inr (), w') \<and>
              sent w' = sent w @ replicate (maxAttempts - i) (collection_request this cid) \<and>
              console w' \<noteq> [] \<and>
              last (console w') =
                ConsoleWarn ''  Sync wait timed out, but collection should be updated''"
  using assms
proof (induction "maxAttempts - i" arbitrary: i w)
  case 0
  then show ?case
    by (subst waitForCollectionSync_from.simps) simp
next
  case (Suc n)
  let ?rq = "collection_request this cid"
  from Suc.hyps have lt: "i < maxAttempts" and n: "n = maxAttempts - Suc i" by simp_all
  from Suc.prems lt have na: "\<not> available (svc (sent w) ?rq)"
    by (metis append_Nil2 diff_self_eq_0 le_refl replicate_0)
  have later: "\<forall>j. Suc i \<le> j \<and> j < maxAttempts \<longrightarrow>
           \<not> available (svc (sent w @ [?rq] @ replicate (j - Suc i) ?rq) ?rq)"
  proof (intro allI impI)
    fix j assume j: "Suc i \<le> j \<and> j < maxAttempts"
    then have "replicate (j - i) ?rq = ?rq # replicate (j - Suc i) ?rq"
      by (metis Suc_diff_le Suc_le_lessD diff_Suc_Suc replicate_Suc Suc_leD Suc_le_eq)
    moreover from Suc.prems j have "\<not> available (svc (sent w @ replicate (j - i) ?rq) ?rq)"
      by simp
    ultimately show "\<not> available (svc (sent w @ [?rq] @ replicate (j - Suc i) ?rq) ?rq)"
      by simp
  qed
  have rep: "replicate (maxAttempts - i) ?rq = ?rq # replicate (maxAttempts - Suc i) ?rq"
    using lt by (metis Suc_diff_Suc replicate_Suc)
  have step: "\<exists>w1. sent w1 = sent w @ [?rq] \<and>
      waitForCollectionSync_from svc this cid maxAttempts i w =
        waitForCollectionSync_from svc this cid maxAttempts (Suc i) w1"
  proof (cases rule: request_cases [of svc w this "''GET''" "''/collections/'' @ show_id cid" None])
    case (ok status data)
    with na have "data = None"
      by (simp add: available_def collection_request_def)
    let ?w1 = "w\<lparr>sent := sent w @ [?rq]\<rparr>"
    have "waitForCollectionSync_from svc this cid maxAttempts i w =
        waitForCollectionSync_from svc this cid maxAttempts (Suc i) ?w1"
      using ok lt \<open>data = None\<close>
      by (subst waitForCollectionSync_from.simps)
        (simp add: getCollection_request collection_request_def)
    moreover have "sent ?w1 = sent w @ [?rq]" by simp
    ultimately show ?thesis by blast
  next
    case (failed e)
    let ?w1 = "w\<lparr>sent := sent w @ [?rq],
                  console := console w @
                    [ConsoleLog (''  Waiting for sync... ('' @ show_nat (i + 1) @ ''/''
                                 @ show_nat maxAttempts @ '')'')]\<rparr>"
    have "waitForCollectionSync_from svc this cid maxAttempts i w =
        waitForCollectionSync_from svc this cid maxAttempts (Suc i) ?w1"
      using failed lt
      by (subst waitForCollectionSync_from.simps)
        (simp add: getCollection_request collection_request_def)
    moreover have "sent ?w1 = sent w @ [?rq]" by simp
    ultimately show ?thesis by blast
  qed
  then obtain w1 where w1: "sent w1 = sent w @ [?rq]"
    and eq: "waitForCollectionSync_from svc this cid maxAttempts i w =
        waitForCollectionSync_from svc this cid maxAttempts (Suc i) w1"
    by blast
  have "\<forall>j. Suc i \<le> j \<and> j < maxAttempts \<longrightarrow>
           \<not> available (svc (sent w1 @ replicate (j - Suc i) ?rq) ?rq)"
    using later by (simp add: w1)
  with Suc.hyps(1) [OF n, of w1]
  show ?case
    unfolding eq by (simp add: w1 rep)
qed

lemma find_uid_confirmed:
  assumes "find_uid svc this nm msg w = (Inr uid, w')"
  shows "confirmed svc this nm uid w'"
proof (cases rule: request_cases [of svc w this "''GET''" "''/collections?workspace='' @ workspaceId this" None])
  case (ok status data)
  show ?thesis
  proof (cases data)
    case None
    with ok assms show ?thesis
      by (simp add: find_uid_def list_collections_request andThen_def member_def reject_def)
  next
    case (Some d)
    with ok assms obtain c where "find_by_name (collections_member d) nm = Some c" "h_uid c = uid"
      and "w' = w\<lparr>sent := sent w @ [listing_request this]\<rparr>"
      by (auto simp: find_uid_def list_collections_request andThen_def member_def reject_def
          resolve_def listing_request_def split: option.splits)
    with ok Some show ?thesis
      unfolding confirmed_def listing_request_def by auto
  qed
next
  case (failed e)
  with assms show ?thesis
    by (simp add: find_uid_def list_collections_request andThen_def)
qed

lemma andThen_tailE:
  assumes "andThen m k w = (Inr r, w')"
  obtains v w1 where "k v w1 = (Inr r, w')"
  using assms by (auto dest: andThen_returns)

lemma generateOrSyncCollection_confirmed:
  "generateOrSyncCollection svc this specId nm opts w = (Inr uid, w') \<Longrightarrow>
   confirmed svc this nm uid w'"
  unfolding generateOrSyncCollection_def
  apply (erule andThen_tailE)
  subgoal for v w1
    apply (cases "find (\<lambda>c. h_name c = nm) v")
     apply (simp only: option.case)
     apply (erule andThen_tailE)+
     apply (erule find_uid_confirmed)
    apply (simp only: option.case)
    apply (erule andThen_tailE)+
    apply (erule find_uid_confirmed)
    done
  done

text \<open>A run in which the collection is listed, for the uid that comes back.\<close>

lemma docs_listed_run:
  "fst (generateOrSyncCollection docs_listed sample_client (Some ''spec-1'') ''Task API - Docs''
          tags_options new_world) = Inr (Some ''u-1'')"
  by code_simp

text \<open>
  Claim C3. The wait for a generation ends in the timeout error when every listing of
  its attempts is read and has no collection of the name; and a uid that
  \<^verbatim>\<open>generateOrSyncCollection\<close> returns was read from the entry of that name in a
  listing, the last request sent. The wait for a synchronization never throws, whatever
  the service answers; when no attempt finds the collection, whether the request fails
  or the body is \<^verbatim>\<open>null\<close>, every attempt is made and the wait returns after the warning.
\<close>

theorem poll_exhaustion_policies:
  "((\<forall>j. j < maxAttempts \<longrightarrow>
        lists_without (svc (sent w @ replicate j (listing_request this)) (listing_request this)) nm) \<longrightarrow>
      waitForCollectionGeneration svc this nm maxAttempts w =
        (Inl (Error (''Collection generation timed out after '' @ show_nat (maxAttempts * 2)
                     @ '' seconds'')),
         w\<lparr>sent := sent w @ replicate maxAttempts (listing_request this)\<rparr>)) \<and>
   (generateOrSyncCollection svc this specId nm opts w = (Inr uid, w') \<longrightarrow>
      confirmed svc this nm uid w') \<and>
   (\<exists>w1. waitForCollectionSync svc this cid maxAttempts w = (Inr (), w1)) \<and>
   ((\<forall>j. j < maxAttempts \<longrightarrow>
        \<not> available (svc (sent w @ replicate j (collection_request this cid))
                         (collection_request this cid))) \<longrightarrow>
      (\<exists>w1. waitForCollectionSync svc this cid maxAttempts w = (Inr (), w1) \<and>
            sent w1 = sent w @ replicate maxAttempts (collection_request this cid) \<and>
            console w1 \<noteq> [] \<and>
            last (console w1) =
              ConsoleWarn ''  Sync wait timed out, but collection should be updated''))"
proof (intro conjI impI)
  assume "\<forall>j. j < maxAttempts \<longrightarrow>
        lists_without (svc (sent w @ replicate j (listing_request this)) (listing_request this)) nm"
  then show "waitForCollectionGeneration svc this nm maxAttempts w =
        (Inl (Error (''Collection generation timed out after '' @ show_nat (maxAttempts * 2)
                     @ '' seconds'')),
         w\<lparr>sent := sent w @ replicate maxAttempts (listing_request this)\<rparr>)"
    using wait_generation_exhausted [of 0 maxAttempts svc w this nm]
    by (simp add: waitForCollectionGeneration_def)
next
  assume "generateOrSyncCollection svc this specId nm opts w = (Inr uid, w')"
  then show "confirmed svc this nm uid w'"
    by (rule generateOrSyncCollection_confirmed)
next
  show "\<exists>w1. waitForCollectionSync svc this cid maxAttempts w = (Inr (), w1)"
    unfolding waitForCollectionSync_def by (rule wait_sync_returns)
next
  assume "\<forall>j. j < maxAttempts \<longrightarrow>
        \<not> available (svc (sent w @ replicate j (collection_request this cid))
                         (collection_request this cid))"
  then show "\<exists>w1. waitForCollectionSync svc this cid maxAttempts w = (Inr (), w1) \<and>
            sent w1 = sent w @ replicate maxAttempts (collection_request this cid) \<and>
            console w1 \<noteq> [] \<and>
            last (console w1) =
              ConsoleWarn ''  Sync wait timed out, but collection should be updated''"
    using wait_sync_exhausted [of 0 maxAttempts svc w this cid]
    by (simp add: waitForCollectionSync_def)
qed

theorem poll_exhaustion_policies_witness:
  "lists_without (empty_workspace [] (listing_request sample_client)) ''Task API - Docs'' \<and>
   waitForCollectionGeneration empty_workspace sample_client ''Task API - Docs'' 10 new_world =
     (Inl (Error ''Collection generation timed out after 20 seconds''),
      new_world\<lparr>sent := replicate 10 (listing_request sample_client)\<rparr>) \<and>
   fst (generateOrSyncCollection docs_listed sample_client (Some ''spec-1'') ''Task API - Docs''
          tags_options new_world) = Inr (Some ''u-1'') \<and>
   confirmed docs_listed sample_client ''Task API - Docs'' (Some ''u-1'')
     (snd (generateOrSyncCollection docs_listed sample_client (Some ''spec-1'') ''Task API - Docs''
             tags_options new_world)) \<and>
   \<not> available (unavailable_service [] (collection_request sample_client (Some ''c-1''))) \<and>
   (\<exists>w1. waitForCollectionSync unavailable_service sample_client (Some ''c-1'') 10 new_world
           = (Inr (), w1) \<and>
         sent w1 = replicate 10 (collection_request sample_client (Some ''c-1'')) \<and>
         last (console w1) =
           ConsoleWarn ''  Sync wait timed out, but collection should be updated'')"
proof -
  have t: "show_nat 20 = ''20''"
    by code_simp
  have a: "lists_without (empty_workspace h rq) ''Task API - Docs''" for h rq
    by (simp add: empty_workspace_def lists_without_def response_ok_def empty_body_def
        find_by_name_def)
  have b: "\<not> available (unavailable_service h rq)" for h rq
    by (simp add: unavailable_service_def available_def response_ok_def)
  have c: "generateOrSyncCollection docs_listed sample_client (Some ''spec-1'') ''Task API - Docs''
          tags_options new_world =
        (Inr (Some ''u-1''),
         snd (generateOrSyncCollection docs_listed sample_client (Some ''spec-1'') ''Task API - Docs''
               tags_options new_world))"
    using docs_listed_run by (metis prod.collapse)
  have g: "waitForCollectionGeneration empty_workspace sample_client ''Task API - Docs'' 10 new_world =
     (Inl (Error ''Collection generation timed out after 20 seconds''),
      new_world\<lparr>sent := replicate 10 (listing_request sample_client)\<rparr>)"
    using poll_exhaustion_policies [where svc = empty_workspace and this = sample_client
        and nm = "''Task API - Docs''" and maxAttempts = 10 and w = new_world] a
    by (simp add: t new_world_def)
  have u: "confirmed docs_listed sample_client ''Task API - Docs'' (Some ''u-1'')
     (snd (generateOrSyncCollection docs_listed sample_client (Some ''spec-1'') ''Task API - Docs''
             tags_options new_world))"
    using poll_exhaustion_policies [where svc = docs_listed and this = sample_client
        and nm = "''Task API - Docs''" and specId = "Some ''spec-1''" and opts = tags_options
        and w = new_world and uid = "Some ''u-1''"
        and w' = "snd (generateOrSyncCollection docs_listed sample_client (Some ''spec-1'')
                        ''Task API - Docs'' tags_options new_world)"] c
    by blast
  have s: "\<exists>w1. waitForCollectionSync unavailable_service sample_client (Some ''c-1'') 10 new_world
           = (Inr (), w1) \<and>
         sent w1 = replicate 10 (collection_request sample_client (Some ''c-1'')) \<and>
         last (console w1) =
           ConsoleWarn ''  Sync wait timed out, but collection should be updated''"
    using poll_exhaustion_policies [where svc = unavailable_service and this = sample_client
        and cid = "Some ''c-1''" and maxAttempts = 10 and w = new_world] b
    by (simp add: new_world_def) blast
  show ?thesis
    using a b g u s docs_listed_run by blast
qed

section \<open>The orchestrator: which failures end the run\<close>

text \<open>
  A reply outside 200..299 makes \<^verbatim>\<open>request\<close> throw; \<^verbatim>\<open>catch\<close> by cases; the lookup of
  step 2 catches what is thrown inside it.
\<close>


lemma request_failed:
  "svc (sent w) (the_request this meth endpoint b) = Replied status (Some d) \<Longrightarrow>
   \<not> response_ok status \<Longrightarrow>
   request svc this meth endpoint b w =
     (Inl (ApiError status
             (case error_member d of
                Some e \<Rightarrow> if e \<noteq> [] then ErrorMember e else WholeBody d
              | None \<Rightarrow> WholeBody d)),
      w\<lparr>sent := sent w @ [the_request this meth endpoint b]\<rparr>)"
  by (simp add: request_def the_request_def Let_def)

lemma catch_cases:
  "catch m h w =
     (case m w of
        (Inr v, w') \<Rightarrow> (Inr v, w')
      | (Inl e, w') \<Rightarrow> if (\<exists>code. e = Exit code) then (Inl e, w') else h e w')"
  by (auto simp: catch_def split: prod.splits sum.splits js_error.splits)

lemma request_no_exit:
  "request svc this meth endpoint b w \<noteq> (Inl (Exit code), w')"
  by (auto simp: request_def Let_def split: fetch_result.splits option.splits if_splits)

lemma check_existing_spec_returns:
  "\<exists>found w'. check_existing_spec host this specName w = (Inr found, w')"
proof -
  let ?w = "w\<lparr>console := console w @ [LogStep ''Step 2'' ''Checking for existing spec in Spec Hub'']\<rparr>"
  show ?thesis
    unfolding check_existing_spec_def andThen_print findSpecByName_def listSpecs_def
    by (cases rule: request_cases [of "remote_service host" ?w this "''GET''" "''/specs?workspaceId='' @ workspaceId this" None])
      (auto simp: catch_cases andThen_def resolve_def member_def reject_def
            split: prod.splits sum.splits option.splits dest: request_no_exit [THEN notE])
qed

lemma check_existing_spec_failed:
  assumes "remote_service host (sent w)
             (the_request this ''GET'' (''/specs?workspaceId='' @ workspaceId this) None)
           = Replied status data"
    and "\<not> response_ok status"
  shows "check_existing_spec host this specName w =
     (Inr None,
      w\<lparr>console := console w @ [LogStep ''Step 2'' ''Checking for existing spec in Spec Hub''],
        sent := sent w @ [the_request this ''GET'' (''/specs?workspaceId='' @ workspaceId this) None]\<rparr>)"
  using assms
  by (cases data)
    (simp_all add: check_existing_spec_def andThen_print findSpecByName_def listSpecs_def
      catch_def andThen_def request_def the_request_def Let_def resolve_def print_def)

text \<open>The call of the method that the client does not have.\<close>

lemma docs_stage_logged:
  "docs_stage host this specName specId w =
     (Inr (),
      w\<lparr>console := console w @
          [LogStep ''Step 4'' ''Generating docs collection from Spec Hub'',
           LogError ''Failed to generate docs collection: ''
             (Some (TypeError ''client.generateCollection is not a function''))]\<rparr>)"
  by (simp add: docs_stage_def andThen_print catch_def andThen_def generateCollection_def
      reject_def print_def)

lemma smoke_stage_throws:
  "smoke_stage host this api specName specId w =
     (Inl (TypeError ''client.generateCollection is not a function''),
      w\<lparr>console := console w @
          [LogStep ''Step 5'' ''Generating smoke test collection from Spec Hub'']\<rparr>)"
  by (simp add: smoke_stage_def andThen_def generateCollection_def reject_def print_def)

lemma contract_stage_throws:
  "contract_stage host this api specName specId generateSmoke w =
     (Inl (TypeError ''client.generateCollection is not a function''),
      w\<lparr>console := console w @
          [LogStep (''Step '' @ (if generateSmoke then ''7'' else ''5''))
             ''Generating contract test collection from Spec Hub'']\<rparr>)"
  by (simp add: contract_stage_def andThen_def generateCollection_def reject_def print_def)

text \<open>The upload stage and the environment stage, request by request.\<close>

lemma upload_stage_failed:
  assumes "readFileSync host spec_path = Inr specContent"
    and "rq = (if truthy_id found
               then the_request this ''PATCH'' (''/specs/'' @ show_id found @ ''/files/index.json'')
                      (Some (SpecFile specContent))
               else the_request this ''POST'' (''/specs?workspaceId='' @ workspaceId this)
                      (Some (NewSpec specName ''OPENAPI:3.0'' [(''index.json'', specContent)])))"
    and "remote_service host (sent w) rq = Replied status (Some d)"
    and "\<not> response_ok status"
  shows "upload_stage host this spec_path specName found w =
     (Inl (ApiError status
             (case error_member d of
                Some e \<Rightarrow> if e \<noteq> [] then ErrorMember e else WholeBody d
              | None \<Rightarrow> WholeBody d)),
      w\<lparr>console := console w @ [LogStep ''Step 3'' ''Uploading spec to Spec Hub''],
        sent := sent w @ [rq]\<rparr>)"
  using assms
  by (cases "truthy_id found")
    (simp_all add: upload_stage_def print_def lift_def andThen_def uploadSpec_def
      request_def the_request_def Let_def)

lemma environment_stage_listing_failed:
  assumes "generateEnvironment api = Inr env"
    and "remote_service host (sent w)
           (the_request this ''GET'' (''/environments?workspace='' @ workspaceId this) None)
         = Replied status (Some d)"
    and "\<not> response_ok status"
  shows "environment_stage host this api False False w =
     (Inl (ApiError status
             (case error_member d of
                Some e \<Rightarrow> if e \<noteq> [] then ErrorMember e else WholeBody d
              | None \<Rightarrow> WholeBody d)),
      w\<lparr>console := console w @ [LogStep ''Step 5'' ''Creating environment''],
        sent := sent w @
          [the_request this ''GET'' (''/environments?workspace='' @ workspaceId this) None]\<rparr>)"
  using assms
  by (simp add: environment_stage_def print_def lift_def andThen_def
      request_def the_request_def Let_def)

lemma environment_stage_listed:
  assumes "generateEnvironment api = Inr env"
    and "remote_service host (sent w)
           (the_request this ''GET'' (''/environments?workspace='' @ workspaceId this) None)
         = Replied st (Some listing)"
    and "response_ok st"
    and "rq = (case find_by_name (environments_member listing) (env_name env) of
                 Some existingEnv \<Rightarrow>
                   the_request this ''PUT'' (''/environments/'' @ show_id (h_uid existingEnv))
                     (Some (EnvironmentBody env))
               | None \<Rightarrow>
                   the_request this ''POST'' (''/environments?workspace='' @ workspaceId this)
                     (Some (EnvironmentBody env)))"
  shows "environment_stage host this api False False w =
     (case remote_service host
             (sent w @ [the_request this ''GET'' (''/environments?workspace='' @ workspaceId this) None])
             rq of
        Rejected \<Rightarrow> Inl FetchError
      | Replied status data \<Rightarrow>
          if response_ok status then
            (case find_by_name (environments_member listing) (env_name env) of
               Some existingEnv \<Rightarrow> Inr ()
             | None \<Rightarrow>
                 (case data of
                    None \<Rightarrow>
                      Inl (TypeError ''Cannot read properties of null (reading 'environment')'')
                  | Some d \<Rightarrow> Inr ()))
          else (case data of
                  None \<Rightarrow> Inl (TypeError ''Cannot read properties of null (reading 'error')'')
                | Some d \<Rightarrow>
                    Inl (ApiError status
                           (case error_member d of
                              Some e \<Rightarrow> if e \<noteq> [] then ErrorMember e else WholeBody d
                            | None \<Rightarrow> WholeBody d))),
      w\<lparr>console := console w @ [LogStep ''Step 5'' ''Creating environment''],
        sent := sent w @
          [the_request this ''GET'' (''/environments?workspace='' @ workspaceId this) None, rq]\<rparr>)"
  using assms
  by (cases "find_by_name (environments_member listing) (env_name env)")
    (simp_all add: environment_stage_def print_def lift_def andThen_def member_def resolve_def
      reject_def request_def the_request_def Let_def split: fetch_result.splits option.splits)

text \<open>
  With its options present, no dry run and a spec that parses, \<^verbatim>\<open>sync\<close> is the sequence
  of its stages.
\<close>


lemma sync_stages:
  assumes "truthy_id (opt_spec options)" "truthy_id (opt_apiKey options)"
    "truthy_id (opt_workspaceId options)" "\<not> opt_dryRun options"
    "parseSpec host (show_id (opt_spec options)) = Inr api"
  shows "sync host options w =
     andThen (check_existing_spec host
                \<lparr>apiKey = show_id (opt_apiKey options), workspaceId = show_id (opt_workspaceId options)\<rparr>
                (specName_of api))
       (\<lambda>found.
          andThen (upload_stage host
                     \<lparr>apiKey = show_id (opt_apiKey options), workspaceId = show_id (opt_workspaceId options)\<rparr>
                     (show_id (opt_spec options)) (specName_of api) found)
            (\<lambda>specId.
               andThen (docs_stage host
                          \<lparr>apiKey = show_id (opt_apiKey options), workspaceId = show_id (opt_workspaceId options)\<rparr>
                          (specName_of api) specId)
                 (\<lambda>_. andThen (if opt_testLevel options = ''all'' \<or> opt_testLevel options = ''smoke''
                                 then smoke_stage host
                                        \<lparr>apiKey = show_id (opt_apiKey options), workspaceId = show_id (opt_workspaceId options)\<rparr>
                                        api (specName_of api) specId
                                 else resolve ())
                    (\<lambda>_. andThen (if opt_testLevel options = ''all'' \<or> opt_testLevel options = ''contract''
                                    then contract_stage host
                                           \<lparr>apiKey = show_id (opt_apiKey options), workspaceId = show_id (opt_workspaceId options)\<rparr>
                                           api (specName_of api) specId
                                           (opt_testLevel options = ''all'' \<or> opt_testLevel options = ''smoke'')
                                    else resolve ())
                       (\<lambda>_. environment_stage host
                               \<lparr>apiKey = show_id (opt_apiKey options), workspaceId = show_id (opt_workspaceId options)\<rparr>
                               api
                               (opt_testLevel options = ''all'' \<or> opt_testLevel options = ''smoke'')
                               (opt_testLevel options = ''all'' \<or> opt_testLevel options = ''contract''))))))
       (w\<lparr>console := console w @ [LogStep ''Step 1'' ''Parsing OpenAPI spec'']\<rparr>)"
  using assms unfolding sync_def Let_def andThen_print
  by (simp add: andThen_def lift_def)

section \<open>Claim C8: replies outside 200..299 and the end of the run\<close>

text \<open>
  Claim C8, as amended. A reply with a status outside 200..299 and a body makes
  \<^verbatim>\<open>request\<close> throw an error that carries the status and the \<^verbatim>\<open>error\<close> member of the
  body, or the whole body when that member is missing or empty; the statuses 200..299
  are the ones \<^verbatim>\<open>response.ok\<close> accepts. In a run of \<^verbatim>\<open>sync\<close> with its options present,
  no dry run and a spec that parses:

  \<^item> such a reply to the listing of step 2 is caught: the lookup returns that no spec
    was found, and the run goes on;
  \<^item> such a reply to the upload request of step 3 (the \<^verbatim>\<open>PATCH\<close> of the spec that was
    found, or the \<^verbatim>\<open>POST\<close> that creates one) ends the run with that error, and nothing
    is sent after it;
  \<^item> the docs stage sends nothing: the client has no method \<^verbatim>\<open>generateCollection\<close>, the
    call throws a \<^verbatim>\<open>TypeError\<close>, the error is caught and logged, and the run goes on;
  \<^item> when the test level selects the smoke or the contract tier, the same
    \<^verbatim>\<open>TypeError\<close>, not caught there, ends the run in step 5;
  \<^item> otherwise the environment stage follows: such a reply to its listing, or to its
    \<^verbatim>\<open>PUT\<close> or \<^verbatim>\<open>POST\<close>, ends the run with that error and nothing is sent after it; and
    when both replies have a success status and a body the run returns.
\<close>

theorem sync_failure_policy:
  "(svc (sent w) (the_request this meth endpoint b) = Replied status (Some d) \<and> \<not> response_ok status \<longrightarrow>
      request svc this meth endpoint b w =
        (Inl (ApiError status
                (case error_member d of
                   Some e \<Rightarrow> if e \<noteq> [] then ErrorMember e else WholeBody d
                 | None \<Rightarrow> WholeBody d)),
         w\<lparr>sent := sent w @ [the_request this meth endpoint b]\<rparr>)) \<and>
   (remote_service host (sent w)
        (the_request this ''GET'' (''/specs?workspaceId='' @ workspaceId this) None)
      = Replied status data \<and> \<not> response_ok status \<longrightarrow>
      check_existing_spec host this specName w =
        (Inr None,
         w\<lparr>console := console w @ [LogStep ''Step 2'' ''Checking for existing spec in Spec Hub''],
           sent := sent w @
             [the_request this ''GET'' (''/specs?workspaceId='' @ workspaceId this) None]\<rparr>)) \<and>
   docs_stage host this specName specId w =
     (Inr (),
      w\<lparr>console := console w @
          [LogStep ''Step 4'' ''Generating docs collection from Spec Hub'',
           LogError ''Failed to generate docs collection: ''
             (Some (TypeError ''client.generateCollection is not a function''))]\<rparr>) \<and>
   (truthy_id (opt_spec options) \<and> truthy_id (opt_apiKey options) \<and>
    truthy_id (opt_workspaceId options) \<and> \<not> opt_dryRun options \<and>
    parseSpec host (show_id (opt_spec options)) = Inr api \<and>
    self = \<lparr>apiKey = show_id (opt_apiKey options), workspaceId = show_id (opt_workspaceId options)\<rparr> \<and>
    check_existing_spec host self (specName_of api)
      (w0\<lparr>console := console w0 @ [LogStep ''Step 1'' ''Parsing OpenAPI spec'']\<rparr>) = (Inr found, w2) \<and>
    err = ApiError status
            (case error_member d of
               Some e \<Rightarrow> if e \<noteq> [] then ErrorMember e else WholeBody d
             | None \<Rightarrow> WholeBody d) \<and>
    \<not> response_ok status \<longrightarrow>
      (readFileSync host (show_id (opt_spec options)) = Inr specContent \<and>
       upload =
         (if truthy_id found
          then the_request self ''PATCH'' (''/specs/'' @ show_id found @ ''/files/index.json'')
                 (Some (SpecFile specContent))
          else the_request self ''POST'' (''/specs?workspaceId='' @ workspaceId self)
                 (Some (NewSpec (specName_of api) ''OPENAPI:3.0'' [(''index.json'', specContent)]))) \<and>
       remote_service host (sent w2) upload = Replied status (Some d) \<longrightarrow>
         sync host options w0 =
           (Inl err,
            w2\<lparr>console := console w2 @ [LogStep ''Step 3'' ''Uploading spec to Spec Hub''],
               sent := sent w2 @ [upload]\<rparr>)) \<and>
      (upload_stage host self (show_id (opt_spec options)) (specName_of api) found w2 = (Inr newId, w3) \<and>
       w4 = w3\<lparr>console := console w3 @
                 [LogStep ''Step 4'' ''Generating docs collection from Spec Hub'',
                  LogError ''Failed to generate docs collection: ''
                    (Some (TypeError ''client.generateCollection is not a function''))]\<rparr> \<longrightarrow>
         (opt_testLevel options = ''all'' \<or> opt_testLevel options = ''smoke'' \<longrightarrow>
            sync host options w0 =
              (Inl (TypeError ''client.generateCollection is not a function''),
               w4\<lparr>console := console w4 @
                   [LogStep ''Step 5'' ''Generating smoke test collection from Spec Hub'']\<rparr>)) \<and>
         (opt_testLevel options = ''contract'' \<longrightarrow>
            sync host options w0 =
              (Inl (TypeError ''client.generateCollection is not a function''),
               w4\<lparr>console := console w4 @
                   [LogStep ''Step 5'' ''Generating contract test collection from Spec Hub'']\<rparr>)) \<and>
         (opt_testLevel options \<noteq> ''all'' \<and> opt_testLevel options \<noteq> ''smoke'' \<and>
          opt_testLevel options \<noteq> ''contract'' \<and>
          generateEnvironment api = Inr env \<and>
          listing = the_request self ''GET'' (''/environments?workspace='' @ workspaceId self) None \<and>
          w5 = w4\<lparr>console := console w4 @ [LogStep ''Step 5'' ''Creating environment'']\<rparr> \<longrightarrow>
            (remote_service host (sent w3) listing = Replied status (Some d) \<longrightarrow>
               sync host options w0 = (Inl err, w5\<lparr>sent := sent w3 @ [listing]\<rparr>)) \<and>
            (remote_service host (sent w3) listing = Replied st (Some listed) \<and> response_ok st \<and>
             change =
               (case find_by_name (environments_member listed) (env_name env) of
                  Some existingEnv \<Rightarrow>
                    the_request self ''PUT'' (''/environments/'' @ show_id (h_uid existingEnv))
                      (Some (EnvironmentBody env))
                | None \<Rightarrow>
                    the_request self ''POST'' (''/environments?workspace='' @ workspaceId self)
                      (Some (EnvironmentBody env))) \<longrightarrow>
               (remote_service host (sent w3 @ [listing]) change = Replied status (Some d) \<longrightarrow>
                  sync host options w0 = (Inl err, w5\<lparr>sent := sent w3 @ [listing, change]\<rparr>)) \<and>
               (remote_service host (sent w3 @ [listing]) change = Replied st' (Some body') \<and>
                response_ok st' \<longrightarrow>
                  sync host options w0 = (Inr (), w5\<lparr>sent := sent w3 @ [listing, change]\<rparr>)))))) \<and>
   (response_ok code \<longleftrightarrow> 200 \<le> code \<and> code \<le> 299)"
proof (intro conjI)
  show "response_ok code \<longleftrightarrow> 200 \<le> code \<and> code \<le> 299"
    by (simp add: response_ok_def)
  show "svc (sent w) (the_request this meth endpoint b) = Replied status (Some d) \<and> \<not> response_ok status \<longrightarrow>
      request svc this meth endpoint b w =
        (Inl (ApiError status
                (case error_member d of
                   Some e \<Rightarrow> if e \<noteq> [] then ErrorMember e else WholeBody d
                 | None \<Rightarrow> WholeBody d)),
         w\<lparr>sent := sent w @ [the_request this meth endpoint b]\<rparr>)"
    using request_failed by blast
  show "remote_service host (sent w)
        (the_request this ''GET'' (''/specs?workspaceId='' @ workspaceId this) None)
      = Replied status data \<and> \<not> response_ok status \<longrightarrow>
      check_existing_spec host this specName w =
        (Inr None,
         w\<lparr>console := console w @ [LogStep ''Step 2'' ''Checking for existing spec in Spec Hub''],
           sent := sent w @
             [the_request this ''GET'' (''/specs?workspaceId='' @ workspaceId this) None]\<rparr>)"
    using check_existing_spec_failed by blast
  show "docs_stage host this specName specId w =
     (Inr (),
      w\<lparr>console := console w @
          [LogStep ''Step 4'' ''Generating docs collection from Spec Hub'',
           LogError ''Failed to generate docs collection: ''
             (Some (TypeError ''client.generateCollection is not a function''))]\<rparr>)"
    by (rule docs_stage_logged)
next
  show "truthy_id (opt_spec options) \<and> truthy_id (opt_apiKey options) \<and>
    truthy_id (opt_workspaceId options) \<and> \<not> opt_dryRun options \<and>
    parseSpec host (show_id (opt_spec options)) = Inr api \<and>
    self = \<lparr>apiKey = show_id (opt_apiKey options), workspaceId = show_id (opt_workspaceId options)\<rparr> \<and>
    check_existing_spec host self (specName_of api)
      (w0\<lparr>console := console w0 @ [LogStep ''Step 1'' ''Parsing OpenAPI spec'']\<rparr>) = (Inr found, w2) \<and>
    err = ApiError status
            (case error_member d of
               Some e \<Rightarrow> if e \<noteq> [] then ErrorMember e else WholeBody d
             | None \<Rightarrow> WholeBody d) \<and>
    \<not> response_ok status \<longrightarrow>
      (readFileSync host (show_id (opt_spec options)) = Inr specContent \<and>
       upload =
         (if truthy_id found
          then the_request self ''PATCH'' (''/specs/'' @ show_id found @ ''/files/index.json'')
                 (Some (SpecFile specContent))
          else the_request self ''POST'' (''/specs?workspaceId='' @ workspaceId self)
                 (Some (NewSpec (specName_of api) ''OPENAPI:3.0'' [(''index.json'', specContent)]))) \<and>
       remote_service host (sent w2) upload = Replied status (Some d) \<longrightarrow>
         sync host options w0 =
           (Inl err,
            w2\<lparr>console := console w2 @ [LogStep ''Step 3'' ''Uploading spec to Spec Hub''],
               sent := sent w2 @ [upload]\<rparr>)) \<and>
      (upload_stage host self (show_id (opt_spec options)) (specName_of api) found w2 = (Inr newId, w3) \<and>
       w4 = w3\<lparr>console := console w3 @
                 [LogStep ''Step 4'' ''Generating docs collection from Spec Hub'',
                  LogError ''Failed to generate docs collection: ''
                    (Some (TypeError ''client.generateCollection is not a function''))]\<rparr> \<longrightarrow>
         (opt_testLevel options = ''all'' \<or> opt_testLevel options = ''smoke'' \<longrightarrow>
            sync host options w0 =
              (Inl (TypeError ''client.generateCollection is not a function''),
               w4\<lparr>console := console w4 @
                   [LogStep ''Step 5'' ''Generating smoke test collection from Spec Hub'']\<rparr>)) \<and>
         (opt_testLevel options = ''contract'' \<longrightarrow>
            sync host options w0 =
              (Inl (TypeError ''client.generateCollection is not a function''),
               w4\<lparr>console := console w4 @
                   [LogStep ''Step 5'' ''Generating contract test collection from Spec Hub'']\<rparr>)) \<and>
         (opt_testLevel options \<noteq> ''all'' \<and> opt_testLevel options \<noteq> ''smoke'' \<and>
          opt_testLevel options \<noteq> ''contract'' \<and>
          generateEnvironment api = Inr env \<and>
          listing = the_request self ''GET'' (''/environments?workspace='' @ workspaceId self) None \<and>
          w5 = w4\<lparr>console := console w4 @ [LogStep ''Step 5'' ''Creating environment'']\<rparr> \<longrightarrow>
            (remote_service host (sent w3) listing = Replied status (Some d) \<longrightarrow>
               sync host options w0 = (Inl err, w5\<lparr>sent := sent w3 @ [listing]\<rparr>)) \<and>
            (remote_service host (sent w3) listing = Replied st (Some listed) \<and> response_ok st \<and>
             change =
               (case find_by_name (environments_member listed) (env_name env) of
                  Some existingEnv \<Rightarrow>
                    the_request self ''PUT'' (''/environments/'' @ show_id (h_uid existingEnv))
                      (Some (EnvironmentBody env))
                | None \<Rightarrow>
                    the_request self ''POST'' (''/environments?workspace='' @ workspaceId self)
                      (Some (EnvironmentBody env))) \<longrightarrow>
               (remote_service host (sent w3 @ [listing]) change = Replied status (Some d) \<longrightarrow>
                  sync host options w0 = (Inl err, w5\<lparr>sent := sent w3 @ [listing, change]\<rparr>)) \<and>
               (remote_service host (sent w3 @ [listing]) change = Replied st' (Some body') \<and>
                response_ok st' \<longrightarrow>
                  sync host options w0 = (Inr (), w5\<lparr>sent := sent w3 @ [listing, change]\<rparr>)))))"
  proof (intro impI, elim conjE)
    assume a: "truthy_id (opt_spec options)" "truthy_id (opt_apiKey options)"
      "truthy_id (opt_workspaceId options)" "\<not> opt_dryRun options"
      "parseSpec host (show_id (opt_spec options)) = Inr api"
    and s: "self = \<lparr>apiKey = show_id (opt_apiKey options), workspaceId = show_id (opt_workspaceId options)\<rparr>"
    and c: "check_existing_spec host self (specName_of api)
      (w0\<lparr>console := console w0 @ [LogStep ''Step 1'' ''Parsing OpenAPI spec'']\<rparr>) = (Inr found, w2)"
    and e: "err = ApiError status
            (case error_member d of
               Some e \<Rightarrow> if e \<noteq> [] then ErrorMember e else WholeBody d
             | None \<Rightarrow> WholeBody d)"
    and nok: "\<not> response_ok status"
    note run = sync_stages [OF a, of w0, folded s]
    have u: "sync host options w0 =
           (Inl err,
            w2\<lparr>console := console w2 @ [LogStep ''Step 3'' ''Uploading spec to Spec Hub''],
               sent := sent w2 @ [upload]\<rparr>)"
      if "readFileSync host (show_id (opt_spec options)) = Inr specContent \<and>
       upload =
         (if truthy_id found
          then the_request self ''PATCH'' (''/specs/'' @ show_id found @ ''/files/index.json'')
                 (Some (SpecFile specContent))
          else the_request self ''POST'' (''/specs?workspaceId='' @ workspaceId self)
                 (Some (NewSpec (specName_of api) ''OPENAPI:3.0'' [(''index.json'', specContent)]))) \<and>
       remote_service host (sent w2) upload = Replied status (Some d)"
    proof -
      from that have "upload_stage host self (show_id (opt_spec options)) (specName_of api) found w2 =
         (Inl err,
          w2\<lparr>console := console w2 @ [LogStep ''Step 3'' ''Uploading spec to Spec Hub''],
            sent := sent w2 @ [upload]\<rparr>)"
        unfolding e
        using upload_stage_failed [where host = host and spec_path = "show_id (opt_spec options)"
            and specContent = specContent and rq = upload and found = found and this = self
            and specName = "specName_of api" and w = w2 and status = status and d = d] nok
        by blast
      then show ?thesis
        unfolding run by (simp add: andThen_def c)
    qed
    have rest: "(opt_testLevel options = ''all'' \<or> opt_testLevel options = ''smoke'' \<longrightarrow>
            sync host options w0 =
              (Inl (TypeError ''client.generateCollection is not a function''),
               w4\<lparr>console := console w4 @
                   [LogStep ''Step 5'' ''Generating smoke test collection from Spec Hub'']\<rparr>)) \<and>
         (opt_testLevel options = ''contract'' \<longrightarrow>
            sync host options w0 =
              (Inl (TypeError ''client.generateCollection is not a function''),
               w4\<lparr>console := console w4 @
                   [LogStep ''Step 5'' ''Generating contract test collection from Spec Hub'']\<rparr>)) \<and>
         (opt_testLevel options \<noteq> ''all'' \<and> opt_testLevel options \<noteq> ''smoke'' \<and>
          opt_testLevel options \<noteq> ''contract'' \<and>
          generateEnvironment api = Inr env \<and>
          listing = the_request self ''GET'' (''/environments?workspace='' @ workspaceId self) None \<and>
          w5 = w4\<lparr>console := console w4 @ [LogStep ''Step 5'' ''Creating environment'']\<rparr> \<longrightarrow>
            (remote_service host (sent w3) listing = Replied status (Some d) \<longrightarrow>
               sync host options w0 = (Inl err, w5\<lparr>sent := sent w3 @ [listing]\<rparr>)) \<and>
            (remote_service host (sent w3) listing = Replied st (Some listed) \<and> response_ok st \<and>
             change =
               (case find_by_name (environments_member listed) (env_name env) of
                  Some existingEnv \<Rightarrow>
                    the_request self ''PUT'' (''/environments/'' @ show_id (h_uid existingEnv))
                      (Some (EnvironmentBody env))
                | None \<Rightarrow>
                    the_request self ''POST'' (''/environments?workspace='' @ workspaceId self)
                      (Some (EnvironmentBody env))) \<longrightarrow>
               (remote_service host (sent w3 @ [listing]) change = Replied status (Some d) \<longrightarrow>
                  sync host options w0 = (Inl err, w5\<lparr>sent := sent w3 @ [listing, change]\<rparr>)) \<and>
               (remote_service host (sent w3 @ [listing]) change = Replied st' (Some body') \<and>
                response_ok st' \<longrightarrow>
                  sync host options w0 = (Inr (), w5\<lparr>sent := sent w3 @ [listing, change]\<rparr>))))"
      if up: "upload_stage host self (show_id (opt_spec options)) (specName_of api) found w2 = (Inr newId, w3) \<and>
       w4 = w3\<lparr>console := console w3 @
                 [LogStep ''Step 4'' ''Generating docs collection from Spec Hub'',
                  LogError ''Failed to generate docs collection: ''
                    (Some (TypeError ''client.generateCollection is not a function''))]\<rparr>"
    proof -
      from up have w4: "w4 = w3\<lparr>console := console w3 @
                 [LogStep ''Step 4'' ''Generating docs collection from Spec Hub'',
                  LogError ''Failed to generate docs collection: ''
                    (Some (TypeError ''client.generateCollection is not a function''))]\<rparr>"
        by simp
      have sent4: "sent w4 = sent w3" by (simp add: w4)
      have after: "sync host options w0 =
          andThen (if opt_testLevel options = ''all'' \<or> opt_testLevel options = ''smoke''
                   then smoke_stage host self api (specName_of api) newId
                   else resolve ())
            (\<lambda>_. andThen (if opt_testLevel options = ''all'' \<or> opt_testLevel options = ''contract''
                            then contract_stage host self api (specName_of api) newId
                                   (opt_testLevel options = ''all'' \<or> opt_testLevel options = ''smoke'')
                            else resolve ())
               (\<lambda>_. environment_stage host self api
                       (opt_testLevel options = ''all'' \<or> opt_testLevel options = ''smoke'')
                       (opt_testLevel options = ''all'' \<or> opt_testLevel options = ''contract''))) w4"
        unfolding run using up by (simp add: andThen_def c docs_stage_logged)
      have smoke: "sync host options w0 =
              (Inl (TypeError ''client.generateCollection is not a function''),
               w4\<lparr>console := console w4 @
                   [LogStep ''Step 5'' ''Generating smoke test collection from Spec Hub'']\<rparr>)"
        if "opt_testLevel options = ''all'' \<or> opt_testLevel options = ''smoke''"
        unfolding after using that by (auto simp: andThen_def smoke_stage_throws)
      have contract: "sync host options w0 =
              (Inl (TypeError ''client.generateCollection is not a function''),
               w4\<lparr>console := console w4 @
                   [LogStep ''Step 5'' ''Generating contract test collection from Spec Hub'']\<rparr>)"
        if "opt_testLevel options = ''contract''"
        unfolding after using that by (simp add: andThen_def resolve_def contract_stage_throws)
      have env: "(remote_service host (sent w3) listing = Replied status (Some d) \<longrightarrow>
               sync host options w0 = (Inl err, w5\<lparr>sent := sent w3 @ [listing]\<rparr>)) \<and>
            (remote_service host (sent w3) listing = Replied st (Some listed) \<and> response_ok st \<and>
             change =
               (case find_by_name (environments_member listed) (env_name env) of
                  Some existingEnv \<Rightarrow>
                    the_request self ''PUT'' (''/environments/'' @ show_id (h_uid existingEnv))
                      (Some (EnvironmentBody env))
                | None \<Rightarrow>
                    the_request self ''POST'' (''/environments?workspace='' @ workspaceId self)
                      (Some (EnvironmentBody env))) \<longrightarrow>
               (remote_service host (sent w3 @ [listing]) change = Replied status (Some d) \<longrightarrow>
                  sync host options w0 = (Inl err, w5\<lparr>sent := sent w3 @ [listing, change]\<rparr>)) \<and>
               (remote_service host (sent w3 @ [listing]) change = Replied st' (Some body') \<and>
                response_ok st' \<longrightarrow>
                  sync host options w0 = (Inr (), w5\<lparr>sent := sent w3 @ [listing, change]\<rparr>)))"
        if lv: "opt_testLevel options \<noteq> ''all'' \<and> opt_testLevel options \<noteq> ''smoke'' \<and>
          opt_testLevel options \<noteq> ''contract'' \<and>
          generateEnvironment api = Inr env \<and>
          listing = the_request self ''GET'' (''/environments?workspace='' @ workspaceId self) None \<and>
          w5 = w4\<lparr>console := console w4 @ [LogStep ''Step 5'' ''Creating environment'']\<rparr>"
      proof -
        from lv have g: "generateEnvironment api = Inr env"
          and l: "listing = the_request self ''GET'' (''/environments?workspace='' @ workspaceId self) None"
          and w5: "w5 = w4\<lparr>console := console w4 @ [LogStep ''Step 5'' ''Creating environment'']\<rparr>"
          by simp_all
        have sy: "sync host options w0 = environment_stage host self api False False w4"
          unfolding after using lv by (simp add: andThen_def resolve_def)
        have e1: "sync host options w0 = (Inl err, w5\<lparr>sent := sent w3 @ [listing]\<rparr>)"
          if "remote_service host (sent w3) listing = Replied status (Some d)"
          unfolding sy e w5 l
          using environment_stage_listing_failed [where host = host and w = w4 and this = self
              and api = api and env = env and status = status and d = d] g that nok
          by (simp add: sent4 l)
        have e2: "(remote_service host (sent w3 @ [listing]) change = Replied status (Some d) \<longrightarrow>
                  sync host options w0 = (Inl err, w5\<lparr>sent := sent w3 @ [listing, change]\<rparr>)) \<and>
               (remote_service host (sent w3 @ [listing]) change = Replied st' (Some body') \<and>
                response_ok st' \<longrightarrow>
                  sync host options w0 = (Inr (), w5\<lparr>sent := sent w3 @ [listing, change]\<rparr>))"
          if "remote_service host (sent w3) listing = Replied st (Some listed) \<and> response_ok st \<and>
             change =
               (case find_by_name (environments_member listed) (env_name env) of
                  Some existingEnv \<Rightarrow>
                    the_request self ''PUT'' (''/environments/'' @ show_id (h_uid existingEnv))
                      (Some (EnvironmentBody env))
                | None \<Rightarrow>
                    the_request self ''POST'' (''/environments?workspace='' @ workspaceId self)
                      (Some (EnvironmentBody env)))"
          unfolding sy e w5
          using environment_stage_listed [where host = host and w = w4 and this = self
              and api = api and env = env and st = st and listing = listed and rq = change] g that nok
          by (auto simp: sent4 l split: option.splits)
        from e1 e2 show ?thesis by blast
      qed
      from smoke contract env show ?thesis by blast
    qed
    from u rest show "(readFileSync host (show_id (opt_spec options)) = Inr specContent \<and>
       upload =
         (if truthy_id found
          then the_request self ''PATCH'' (''/specs/'' @ show_id found @ ''/files/index.json'')
                 (Some (SpecFile specContent))
          else the_request self ''POST'' (''/specs?workspaceId='' @ workspaceId self)
                 (Some (NewSpec (specName_of api) ''OPENAPI:3.0'' [(''index.json'', specContent)]))) \<and>
       remote_service host (sent w2) upload = Replied status (Some d) \<longrightarrow>
         sync host options w0 =
           (Inl err,
            w2\<lparr>console := console w2 @ [LogStep ''Step 3'' ''Uploading spec to Spec Hub''],
               sent := sent w2 @ [upload]\<rparr>)) \<and>
      (upload_stage host self (show_id (opt_spec options)) (specName_of api) found w2 = (Inr newId, w3) \<and>
       w4 = w3\<lparr>console := console w3 @
                 [LogStep ''Step 4'' ''Generating docs collection from Spec Hub'',
                  LogError ''Failed to generate docs collection: ''
                    (Some (TypeError ''client.generateCollection is not a function''))]\<rparr> \<longrightarrow>
         (opt_testLevel options = ''all'' \<or> opt_testLevel options = ''smoke'' \<longrightarrow>
            sync host options w0 =
              (Inl (TypeError ''client.generateCollection is not a function''),
               w4\<lparr>console := console w4 @
                   [LogStep ''Step 5'' ''Generating smoke test collection from Spec Hub'']\<rparr>)) \<and>
         (opt_testLevel options = ''contract'' \<longrightarrow>
            sync host options w0 =
              (Inl (TypeError ''client.generateCollection is not a function''),
               w4\<lparr>console := console w4 @
                   [LogStep ''Step 5'' ''Generating contract test collection from Spec Hub'']\<rparr>)) \<and>
         (opt_testLevel options \<noteq> ''all'' \<and> opt_testLevel options \<noteq> ''smoke'' \<and>
          opt_testLevel options \<noteq> ''contract'' \<and>
          generateEnvironment api = Inr env \<and>
          listing = the_request self ''GET'' (''/environments?workspace='' @ workspaceId self) None \<and>
          w5 = w4\<lparr>console := console w4 @ [LogStep ''Step 5'' ''Creating environment'']\<rparr> \<longrightarrow>
            (remote_service host (sent w3) listing = Replied status (Some d) \<longrightarrow>
               sync host options w0 = (Inl err, w5\<lparr>sent := sent w3 @ [listing]\<rparr>)) \<and>
            (remote_service host (sent w3) listing = Replied st (Some listed) \<and> response_ok st \<and>
             change =
               (case find_by_name (environments_member listed) (env_name env) of
                  Some existingEnv \<Rightarrow>
                    the_request self ''PUT'' (''/environments/'' @ show_id (h_uid existingEnv))
                      (Some (EnvironmentBody env))
                | None \<Rightarrow>
                    the_request self ''POST'' (''/environments?workspace='' @ workspaceId self)
                      (Some (EnvironmentBody env))) \<longrightarrow>
               (remote_service host (sent w3 @ [listing]) change = Replied status (Some d) \<longrightarrow>
                  sync host options w0 = (Inl err, w5\<lparr>sent := sent w3 @ [listing, change]\<rparr>)) \<and>
               (remote_service host (sent w3 @ [listing]) change = Replied st' (Some body') \<and>
                response_ok st' \<longrightarrow>
                  sync host options w0 = (Inr (), w5\<lparr>sent := sent w3 @ [listing, change]\<rparr>)))))"
      by blast
  qed
qed

theorem sync_failure_policy_witness:
  "request unavailable_service sample_client ''GET'' ''/specs'' None new_world =
     (Inl (ApiError 503 (ErrorMember ''down'')),
      new_world\<lparr>sent := sent new_world @ [the_request sample_client ''GET'' ''/specs'' None]\<rparr>) \<and>
   fst (check_existing_spec (sample_host lookup_failing) sample_client ''Task API'' new_world) = Inr None \<and>
   sync (sample_host upload_failing) default_options new_world =
     (Inl (ApiError 500 (ErrorMember ''server error'')),
      \<lparr>sent = [the_request sample_client ''GET'' ''/specs?workspaceId=ws-1'' None,
               the_request sample_client ''POST'' ''/specs?workspaceId=ws-1''
                 (Some (NewSpec ''Task API'' ''OPENAPI:3.0'' [(''index.json'', ''openapi: 3.0.3'')]))],
       console = [LogStep ''Step 1'' ''Parsing OpenAPI spec'',
                  LogStep ''Step 2'' ''Checking for existing spec in Spec Hub'',
                  LogStep ''Step 3'' ''Uploading spec to Spec Hub'']\<rparr>) \<and>
   sync (sample_host patch_failing) default_options new_world =
     (Inl (ApiError 500 (ErrorMember ''server error'')),
      \<lparr>sent = [the_request sample_client ''GET'' ''/specs?workspaceId=ws-1'' None,
               the_request sample_client ''PATCH'' ''/specs/spec-7/files/index.json''
                 (Some (SpecFile ''openapi: 3.0.3''))],
       console = [LogStep ''Step 1'' ''Parsing OpenAPI spec'',
                  LogStep ''Step 2'' ''Checking for existing spec in Spec Hub'',
                  LogStep ''Step 3'' ''Uploading spec to Spec Hub'']\<rparr>) \<and>
   sync (sample_host never_failing) default_options new_world =
     (Inl (TypeError ''client.generateCollection is not a function''),
      \<lparr>sent = [the_request sample_client ''GET'' ''/specs?workspaceId=ws-1'' None,
               the_request sample_client ''POST'' ''/specs?workspaceId=ws-1''
                 (Some (NewSpec ''Task API'' ''OPENAPI:3.0'' [(''index.json'', ''openapi: 3.0.3'')]))],
       console = [LogStep ''Step 1'' ''Parsing OpenAPI spec'',
                  LogStep ''Step 2'' ''Checking for existing spec in Spec Hub'',
                  LogStep ''Step 3'' ''Uploading spec to Spec Hub'',
                  LogStep ''Step 4'' ''Generating docs collection from Spec Hub'',
                  LogError ''Failed to generate docs collection: ''
                    (Some (TypeError ''client.generateCollection is not a function'')),
                  LogStep ''Step 5'' ''Generating smoke test collection from Spec Hub'']\<rparr>) \<and>
   fst (sync (sample_host never_failing) contract_options new_world) =
     Inl (TypeError ''client.generateCollection is not a function'') \<and>
   last (console (snd (sync (sample_host never_failing) contract_options new_world))) =
     LogStep ''Step 5'' ''Generating contract test collection from Spec Hub'' \<and>
   fst (sync (sample_host environments_failing) plain_options new_world) =
     Inl (ApiError 500 (ErrorMember ''server error'')) \<and>
   sent (snd (sync (sample_host environments_failing) plain_options new_world)) =
     [the_request sample_client ''GET'' ''/specs?workspaceId=ws-1'' None,
      the_request sample_client ''POST'' ''/specs?workspaceId=ws-1''
        (Some (NewSpec ''Task API'' ''OPENAPI:3.0'' [(''index.json'', ''openapi: 3.0.3'')])),
      the_request sample_client ''GET'' ''/environments?workspace=ws-1'' None] \<and>
   fst (sync (sample_host environment_rejected) plain_options new_world) =
     Inl (ApiError 500 (ErrorMember ''server error'')) \<and>
   sent (snd (sync (sample_host environment_rejected) plain_options new_world)) =
     [the_request sample_client ''GET'' ''/specs?workspaceId=ws-1'' None,
      the_request sample_client ''POST'' ''/specs?workspaceId=ws-1''
        (Some (NewSpec ''Task API'' ''OPENAPI:3.0'' [(''index.json'', ''openapi: 3.0.3'')])),
      the_request sample_client ''GET'' ''/environments?workspace=ws-1'' None,
      the_request sample_client ''POST'' ''/environments?workspace=ws-1''
        (Some (EnvironmentBody task_environment))] \<and>
   fst (sync (sample_host never_failing) plain_options new_world) = Inr () \<and>
   response_ok 200 \<and> response_ok 299 \<and> \<not> response_ok 199 \<and> \<not> response_ok 300 \<and>
   \<not> response_ok 404 \<and> \<not> response_ok 500"
proof -
  let ?c = "\<lparr>apiKey = ''PMAK-1'', workspaceId = ''ws-1''\<rparr>"
  let ?w1 = "new_world\<lparr>console := console new_world @ [LogStep ''Step 1'' ''Parsing OpenAPI spec'']\<rparr>"
  let ?lookup = "the_request ?c ''GET'' ''/specs?workspaceId=ws-1'' None"
  let ?create = "the_request ?c ''POST'' ''/specs?workspaceId=ws-1''
                 (Some (NewSpec ''Task API'' ''OPENAPI:3.0'' [(''index.json'', ''openapi: 3.0.3'')]))"
  let ?listing = "the_request ?c ''GET'' ''/environments?workspace=ws-1'' None"
  let ?post = "the_request ?c ''POST'' ''/environments?workspace=ws-1''
                 (Some (EnvironmentBody task_environment))"
  let ?bad = "empty_body\<lparr>error_member := Some ''server error''\<rparr>"
  let ?good = "empty_body\<lparr>id_member := Some ''spec-1'', specs_member := Some [],
                          environments_member := Some []\<rparr>"
  let ?w2 = "\<lparr>sent = [?lookup],
              console = [LogStep ''Step 1'' ''Parsing OpenAPI spec'',
                         LogStep ''Step 2'' ''Checking for existing spec in Spec Hub'']\<rparr>"
  let ?w3 = "\<lparr>sent = [?lookup, ?create],
              console = [LogStep ''Step 1'' ''Parsing OpenAPI spec'',
                         LogStep ''Step 2'' ''Checking for existing spec in Spec Hub'',
                         LogStep ''Step 3'' ''Uploading spec to Spec Hub'']\<rparr>"
  have self: "sample_client = ?c"
    by (simp add: sample_client_def)
  have opts:
    "truthy_id (opt_spec default_options)" "truthy_id (opt_apiKey default_options)"
    "truthy_id (opt_workspaceId default_options)" "\<not> opt_dryRun default_options"
    "truthy_id (opt_spec plain_options)" "truthy_id (opt_apiKey plain_options)"
    "truthy_id (opt_workspaceId plain_options)" "\<not> opt_dryRun plain_options"
    "truthy_id (opt_spec contract_options)" "truthy_id (opt_apiKey contract_options)"
    "truthy_id (opt_workspaceId contract_options)" "\<not> opt_dryRun contract_options"
    by code_simp+
  have vals:
    "show_id (opt_spec default_options) = ''specs/api.yaml''"
    "show_id (opt_spec plain_options) = ''specs/api.yaml''"
    "show_id (opt_spec contract_options) = ''specs/api.yaml''"
    "show_id (opt_apiKey default_options) = ''PMAK-1''"
    "show_id (opt_apiKey plain_options) = ''PMAK-1''"
    "show_id (opt_apiKey contract_options) = ''PMAK-1''"
    "show_id (opt_workspaceId default_options) = ''ws-1''"
    "show_id (opt_workspaceId plain_options) = ''ws-1''"
    "show_id (opt_workspaceId contract_options) = ''ws-1''"
    "opt_testLevel default_options = ''all''"
    "opt_testLevel plain_options = ''none''"
    "opt_testLevel contract_options = ''contract''"
    "specName_of task_api = ''Task API''"
    by code_simp+
  have host: "parseSpec (sample_host svc) p = Inr task_api"
    "readFileSync (sample_host svc) p = Inr ''openapi: 3.0.3''"
    "remote_service (sample_host svc) = svc" for svc p
    by (simp_all add: sample_host_def)
  have env: "generateEnvironment task_api = Inr task_environment"
    by code_simp
  have name: "env_name task_environment = ''Task API Environment''"
    by (simp add: task_environment_def)
  have nok: "\<not> response_ok 500" "\<not> response_ok 503" and ok: "response_ok 200"
    by (simp_all add: response_ok_def)
  have replies:
    "lookup_failing hist ?lookup = Replied 500 (Some ?bad)"
    "upload_failing hist ?lookup = Replied 200 (Some ?good)"
    "upload_failing hist ?create = Replied 500 (Some ?bad)"
    "never_failing hist rq = Replied 200 (Some ?good)"
    "environments_failing hist ?lookup = Replied 200 (Some ?good)"
    "environments_failing hist ?create = Replied 200 (Some ?good)"
    "environments_failing hist ?listing = Replied 500 (Some ?bad)"
    "environment_rejected hist ?lookup = Replied 200 (Some ?good)"
    "environment_rejected hist ?create = Replied 200 (Some ?good)"
    "environment_rejected hist ?listing = Replied 200 (Some ?good)"
    "environment_rejected hist ?post = Replied 500 (Some ?bad)"
    for hist rq
    by (simp_all add: lookup_failing_def upload_failing_def never_failing_def
        environments_failing_def environment_rejected_def failing_at_def the_request_def
        POSTMAN_API_BASE_def)
  have tn: "\<not> truthy_id None"
    by (simp add: truthy_id_def)
  have members: "error_member ?bad = Some ''server error''" "specs_member ?good = Some []"
    "id_member ?good = Some ''spec-1''" "environments_member ?good = Some []"
    by (simp_all add: empty_body_def)

  have u1: "request unavailable_service sample_client ''GET'' ''/specs'' None new_world =
     (Inl (ApiError 503 (ErrorMember ''down'')),
      new_world\<lparr>sent := sent new_world @ [the_request sample_client ''GET'' ''/specs'' None]\<rparr>)"
    using sync_failure_policy [where svc = unavailable_service and w = new_world
        and this = sample_client and meth = "''GET''" and endpoint = "''/specs''" and b = None
        and status = 503 and d = "empty_body\<lparr>error_member := Some ''down''\<rparr>", THEN conjunct1] nok
    by (simp add: unavailable_service_def empty_body_def)

  have u2: "fst (check_existing_spec (sample_host lookup_failing) sample_client ''Task API'' new_world)
              = Inr None"
    using sync_failure_policy [where host = "sample_host lookup_failing" and w = new_world
        and this = sample_client and specName = "''Task API''" and status = 500
        and data = "Some ?bad", THEN conjunct2, THEN conjunct1] nok replies(1)
    by (simp add: host self sample_client_def)

  have found: "check_existing_spec (sample_host svc) ?c ''Task API'' ?w1 = (Inr None, ?w2)"
    if "svc [] ?lookup = Replied 200 (Some ?good)" for svc
    using that
    by (simp add: check_existing_spec_def findSpecByName_def listSpecs_def andThen_def print_def
        catch_def request_def the_request_def Let_def member_def resolve_def host ok members
        new_world_def)
  have created: "upload_stage (sample_host svc) ?c ''specs/api.yaml'' ''Task API'' None ?w2
                   = (Inr (Some ''spec-1''), ?w3)"
    if "svc [?lookup] ?create = Replied 200 (Some ?good)" for svc
    using that
    by (simp add: upload_stage_def uploadSpec_def andThen_def print_def lift_def truthy_id_def
        request_def the_request_def Let_def member_def resolve_def host ok members)

  have u3: "sync (sample_host upload_failing) default_options new_world =
     (Inl (ApiError 500 (ErrorMember ''server error'')), ?w3)"
    using sync_failure_policy [where self = ?c and api = task_api and ?w0.0 = new_world
        and found = None and ?w2.0 = ?w2 and status = 500 and d = ?bad
        and err = "ApiError 500 (ErrorMember ''server error'')" and host = "sample_host upload_failing" and options = default_options
        and specContent = "''openapi: 3.0.3''" and upload = ?create,
        THEN conjunct2, THEN conjunct2, THEN conjunct2, THEN conjunct1]
      found [of upload_failing] replies(2,3) nok(1)
    by (simp add: opts vals host members tn)

  let ?patch = "the_request ?c ''PATCH'' ''/specs/spec-7/files/index.json''
                  (Some (SpecFile ''openapi: 3.0.3''))"
  let ?listed = "empty_body\<lparr>specs_member :=
                     Some [\<lparr>h_name = ''Task API'', h_id = Some ''spec-7'', h_uid = None\<rparr>]\<rparr>"
  have patch_replies:
    "patch_failing hist ?lookup = Replied 200 (Some ?listed)"
    "patch_failing hist ?patch = Replied 500 (Some ?bad)" for hist
    by (simp_all add: patch_failing_def the_request_def)
  have listed: "specs_member ?listed =
      Some [\<lparr>h_name = ''Task API'', h_id = Some ''spec-7'', h_uid = None\<rparr>]"
    by (simp add: empty_body_def)
  have ts: "truthy_id (Some ''spec-7'')" "show_id (Some ''spec-7'') = ''spec-7''"
    by (simp_all add: truthy_id_def show_id_def)
  have found7: "check_existing_spec (sample_host patch_failing) ?c ''Task API'' ?w1
                  = (Inr (Some ''spec-7''), ?w2)"
    by (simp add: check_existing_spec_def findSpecByName_def listSpecs_def andThen_def print_def
        catch_def request_def the_request_def Let_def member_def resolve_def host ok listed
        new_world_def patch_failing_def)
  have u3': "sync (sample_host patch_failing) default_options new_world =
     (Inl (ApiError 500 (ErrorMember ''server error'')),
      \<lparr>sent = [?lookup, ?patch],
       console = [LogStep ''Step 1'' ''Parsing OpenAPI spec'',
                  LogStep ''Step 2'' ''Checking for existing spec in Spec Hub'',
                  LogStep ''Step 3'' ''Uploading spec to Spec Hub'']\<rparr>)"
    using sync_failure_policy [where self = ?c and api = task_api and ?w0.0 = new_world
        and found = "Some ''spec-7''" and ?w2.0 = ?w2 and status = 500 and d = ?bad
        and err = "ApiError 500 (ErrorMember ''server error'')"
        and host = "sample_host patch_failing" and options = default_options
        and specContent = "''openapi: 3.0.3''" and upload = ?patch,
        THEN conjunct2, THEN conjunct2, THEN conjunct2, THEN conjunct1]
      found7 patch_replies nok(1)
    by (simp add: opts vals host members ts)

  let ?w4 = "?w3\<lparr>console := console ?w3 @
                 [LogStep ''Step 4'' ''Generating docs collection from Spec Hub'',
                  LogError ''Failed to generate docs collection: ''
                    (Some (TypeError ''client.generateCollection is not a function''))]\<rparr>"
  let ?w5 = "?w4\<lparr>console := console ?w4 @ [LogStep ''Step 5'' ''Creating environment'']\<rparr>"

  have u4: "sync (sample_host never_failing) default_options new_world =
     (Inl (TypeError ''client.generateCollection is not a function''),
      ?w4\<lparr>console := console ?w4 @
          [LogStep ''Step 5'' ''Generating smoke test collection from Spec Hub'']\<rparr>)"
    using sync_failure_policy [where self = ?c and api = task_api and ?w0.0 = new_world
        and found = None and ?w2.0 = ?w2 and status = 500 and d = ?bad
        and err = "ApiError 500 (ErrorMember ''server error'')" and host = "sample_host never_failing" and options = default_options
        and newId = "Some ''spec-1''" and ?w3.0 = ?w3 and ?w4.0 = ?w4,
        THEN conjunct2, THEN conjunct2, THEN conjunct2, THEN conjunct1]
      found [of never_failing] created [of never_failing] replies(4) nok(1)
    by (simp add: opts vals host members)

  have u5: "sync (sample_host never_failing) contract_options new_world =
     (Inl (TypeError ''client.generateCollection is not a function''),
      ?w4\<lparr>console := console ?w4 @
          [LogStep ''Step 5'' ''Generating contract test collection from Spec Hub'']\<rparr>)"
    using sync_failure_policy [where self = ?c and api = task_api and ?w0.0 = new_world
        and found = None and ?w2.0 = ?w2 and status = 500 and d = ?bad
        and err = "ApiError 500 (ErrorMember ''server error'')" and host = "sample_host never_failing" and options = contract_options
        and newId = "Some ''spec-1''" and ?w3.0 = ?w3 and ?w4.0 = ?w4,
        THEN conjunct2, THEN conjunct2, THEN conjunct2, THEN conjunct1]
      found [of never_failing] created [of never_failing] replies(4) nok(1)
    by (simp add: opts vals host members)

  have u6: "sync (sample_host environments_failing) plain_options new_world =
     (Inl (ApiError 500 (ErrorMember ''server error'')), ?w5\<lparr>sent := sent ?w3 @ [?listing]\<rparr>)"
    using sync_failure_policy [where self = ?c and api = task_api and ?w0.0 = new_world
        and found = None and ?w2.0 = ?w2 and status = 500 and d = ?bad
        and err = "ApiError 500 (ErrorMember ''server error'')" and host = "sample_host environments_failing" and options = plain_options
        and newId = "Some ''spec-1''" and ?w3.0 = ?w3 and ?w4.0 = ?w4 and ?w5.0 = ?w5
        and env = task_environment and listing = ?listing,
        THEN conjunct2, THEN conjunct2, THEN conjunct2, THEN conjunct1]
      found [of environments_failing] created [of environments_failing] replies(5,6,7) nok(1)
    by (simp add: opts vals host members env)

  have u7: "sync (sample_host environment_rejected) plain_options new_world =
     (Inl (ApiError 500 (ErrorMember ''server error'')),
      ?w5\<lparr>sent := sent ?w3 @ [?listing, ?post]\<rparr>)"
    using sync_failure_policy [where self = ?c and api = task_api and ?w0.0 = new_world
        and found = None and ?w2.0 = ?w2 and status = 500 and d = ?bad
        and err = "ApiError 500 (ErrorMember ''server error'')" and host = "sample_host environment_rejected" and options = plain_options
        and newId = "Some ''spec-1''" and ?w3.0 = ?w3 and ?w4.0 = ?w4 and ?w5.0 = ?w5
        and env = task_environment and listing = ?listing and st = 200 and listed = ?good
        and change = ?post,
        THEN conjunct2, THEN conjunct2, THEN conjunct2, THEN conjunct1]
      found [of environment_rejected] created [of environment_rejected] replies(8,9,10,11)
      nok(1) ok
    by (simp add: opts vals host members env name find_by_name_def)

  have u8: "sync (sample_host never_failing) plain_options new_world =
     (Inr (), ?w5\<lparr>sent := sent ?w3 @ [?listing, ?post]\<rparr>)"
    using sync_failure_policy [where self = ?c and api = task_api and ?w0.0 = new_world
        and found = None and ?w2.0 = ?w2 and status = 500 and d = ?bad
        and err = "ApiError 500 (ErrorMember ''server error'')" and host = "sample_host never_failing" and options = plain_options
        and newId = "Some ''spec-1''" and ?w3.0 = ?w3 and ?w4.0 = ?w4 and ?w5.0 = ?w5
        and env = task_environment and listing = ?listing and st = 200 and listed = ?good
        and change = ?post and st' = 200 and body' = ?good,
        THEN conjunct2, THEN conjunct2, THEN conjunct2, THEN conjunct1]
      found [of never_failing] created [of never_failing] replies(4) nok(1) ok
    by (simp add: opts vals host members env name find_by_name_def)

  have u9: "response_ok 200 \<and> response_ok 299 \<and> \<not> response_ok 199 \<and> \<not> response_ok 300 \<and>
      \<not> response_ok 404 \<and> \<not> response_ok 500"
    using sync_failure_policy [where code = 200, THEN conjunct2, THEN conjunct2, THEN conjunct2, THEN conjunct2]
      sync_failure_policy [where code = 299, THEN conjunct2, THEN conjunct2, THEN conjunct2, THEN conjunct2]
      sync_failure_policy [where code = 199, THEN conjunct2, THEN conjunct2, THEN conjunct2, THEN conjunct2]
      sync_failure_policy [where code = 300, THEN conjunct2, THEN conjunct2, THEN conjunct2, THEN conjunct2]
      sync_failure_policy [where code = 404, THEN conjunct2, THEN conjunct2, THEN conjunct2, THEN conjunct2]
      sync_failure_policy [where code = 500, THEN conjunct2, THEN conjunct2, THEN conjunct2, THEN conjunct2]
    by simp
  show ?thesis
    unfolding self using u1 [unfolded self] u2 [unfolded self] u3 u3' u4 u5 u6 u7 u8 u9 by simp
qed

text \<open>
  Claim C8 as stated fails. In both runs the listing of step 2 is answered with status
  500, and the run goes on and creates the spec. In both the docs stage fails, and the
  next stage is entered: with the default options step 5 of the smoke stage, where the
  run ends; with a test level that selects no tier the environment stage, which sends
  its two requests, and the run returns.
\<close>

theorem partial_continuation_counterexample:
  "lookup_failing [] (the_request sample_client ''GET'' ''/specs?workspaceId=ws-1'' None) =
     Replied 500 (Some (empty_body\<lparr>error_member := Some ''server error''\<rparr>)) \<and>
   sync (sample_host lookup_failing) default_options new_world =
     (Inl (TypeError ''client.generateCollection is not a function''),
      \<lparr>sent = [the_request sample_client ''GET'' ''/specs?workspaceId=ws-1'' None,
               the_request sample_client ''POST'' ''/specs?workspaceId=ws-1''
                 (Some (NewSpec ''Task API'' ''OPENAPI:3.0'' [(''index.json'', ''openapi: 3.0.3'')]))],
       console = [LogStep ''Step 1'' ''Parsing OpenAPI spec'',
                  LogStep ''Step 2'' ''Checking for existing spec in Spec Hub'',
                  LogStep ''Step 3'' ''Uploading spec to Spec Hub'',
                  LogStep ''Step 4'' ''Generating docs collection from Spec Hub'',
                  LogError ''Failed to generate docs collection: ''
                    (Some (TypeError ''client.generateCollection is not a function'')),
                  LogStep ''Step 5'' ''Generating smoke test collection from Spec Hub'']\<rparr>) \<and>
   sync (sample_host lookup_failing) plain_options new_world =
     (Inr (),
      \<lparr>sent = [the_request sample_client ''GET'' ''/specs?workspaceId=ws-1'' None,
               the_request sample_client ''POST'' ''/specs?workspaceId=ws-1''
                 (Some (NewSpec ''Task API'' ''OPENAPI:3.0'' [(''index.json'', ''openapi: 3.0.3'')])),
               the_request sample_client ''GET'' ''/environments?workspace=ws-1'' None,
               the_request sample_client ''POST'' ''/environments?workspace=ws-1''
                 (Some (EnvironmentBody task_environment))],
       console = [LogStep ''Step 1'' ''Parsing OpenAPI spec'',
                  LogStep ''Step 2'' ''Checking for existing spec in Spec Hub'',
                  LogStep ''Step 3'' ''Uploading spec to Spec Hub'',
                  LogStep ''Step 4'' ''Generating docs collection from Spec Hub'',
                  LogError ''Failed to generate docs collection: ''
                    (Some (TypeError ''client.generateCollection is not a function'')),
                  LogStep ''Step 5'' ''Creating environment'']\<rparr>)"
  by code_simp

end
